theory Spec2Isabelle
  imports Main "HOL-Library.Word"
begin

unbundle bit_operations_syntax

section \<open>The management-interface driver of src/mgmt.c\<close>

text \<open>
  The C file keeps a table of controllers (the globals \<open>max_index\<close> and \<open>controllers\<close>),
  reads framed messages from the management socket, and calls the adapter and device
  layer. The embedding below follows the C functions one by one, in the order of the file:
  \<^item> the globals are a record \<open>mgmt\<close>, passed in and returned;
  \<^item> what a function does to the outside (a packet written to the socket, a call into
    another module, an error or warning logged) is returned as a list of \<open>effect\<close>s, in
    program order; \<open>DBG\<close> output is left out;
  \<^item> what another module answers (\<open>manager_find_adapter\<close>, \<open>write\<close>, ...) is read from a
    record \<open>env\<close>, one per run of a handler: the other modules are not part of this file.
    A call into another module is taken not to call back into this file before it returns;
  \<^item> \<open>abort()\<close> and an access outside the table \<open>controllers\<close> or outside the array \<open>buf\<close>
    of \<open>mgmt_event\<close> are results of their own (\<open>Abort\<close>, \<open>OutOfBounds\<close>);
  \<^item> the allocations of GLib that cannot return \<open>NULL\<close> (\<open>g_realloc\<close>, \<open>g_new0\<close>, \<open>g_memdup\<close>,
    \<open>g_slist_append\<close>) are taken to succeed: GLib ends the process itself when memory runs
    out, and that is not modelled. \<open>g_try_malloc0\<close> may fail, as \<open>env\<close> says;
  \<^item> constants, struct sizes and struct fields that lib/mgmt.h, lib/sdp.h and
    lib/bluetooth.h declare (they are not part of the sources at hand) are read from a
    record \<open>decls\<close>; nothing is assumed about it.
\<close>

subsection \<open>Types\<close>

type_synonym bytes = "8 word list"
type_synonym bdaddr_t = bytes
type_synonym btd_adapter = nat
type_synonym btd_device = nat

datatype sdp_type = SDP_UUID_UNSPEC | SDP_UUID16 | SDP_UUID32 | SDP_UUID128

text \<open>\<open>uuid_t\<close>: the type tag and the 16 bytes of the union \<open>value\<close>.\<close>

record uuid_t =
  uuid_type :: sdp_type
  uuid_value :: bytes

text \<open>\<open>struct pending_uuid\<close>.\<close>

record pending_uuid_entry =
  add :: bool
  uuid :: uuid_t
  svc_hint :: "8 word"

text \<open>\<open>struct controller_info\<close>; the two \<open>GSList\<close>s are lists.\<close>

record controller_info =
  valid :: bool
  bdaddr :: bdaddr_t
  supported_settings :: "32 word"
  current_settings :: "32 word"
  connections :: "bytes list"
  discov_type :: "8 word"
  pending_uuid :: bool
  pending_uuids :: "pending_uuid_entry list"
  pending_class :: bool
  major :: "8 word"
  minor :: "8 word"
  pending_powered :: bool
  pending_cod_change :: bool

text \<open>
  The globals. The table \<open>controllers\<close> has \<open>max_index + 1\<close> slots at every moment
  (\<open>add_controller\<close> and \<open>mgmt_cleanup\<close> are the only writers of both), so the record
  keeps the slots and \<open>max_index\<close> is read off their number.
\<close>

record mgmt =
  controllers :: "controller_info list"
  mgmt_version :: "8 word"
  mgmt_revision :: "16 word"

definition max_index :: "mgmt \<Rightarrow> int" where
  "max_index s = int (length (controllers s)) - 1"

definition mgmt_init :: mgmt where
  "mgmt_init = \<lparr>controllers = [], mgmt_version = 0, mgmt_revision = 0\<rparr>"

datatype mgmt_op =
    MGMT_OP_READ_VERSION | MGMT_OP_READ_INDEX_LIST | MGMT_OP_READ_INFO
  | MGMT_OP_SET_POWERED | MGMT_OP_SET_DISCOVERABLE | MGMT_OP_SET_CONNECTABLE
  | MGMT_OP_SET_FAST_CONNECTABLE | MGMT_OP_SET_PAIRABLE | MGMT_OP_SET_SSP
  | MGMT_OP_SET_LE | MGMT_OP_SET_DEV_CLASS | MGMT_OP_SET_LOCAL_NAME
  | MGMT_OP_ADD_UUID | MGMT_OP_REMOVE_UUID | MGMT_OP_LOAD_LINK_KEYS
  | MGMT_OP_LOAD_LONG_TERM_KEYS | MGMT_OP_DISCONNECT | MGMT_OP_GET_CONNECTIONS
  | MGMT_OP_PIN_CODE_REPLY | MGMT_OP_PIN_CODE_NEG_REPLY | MGMT_OP_SET_IO_CAPABILITY
  | MGMT_OP_PAIR_DEVICE | MGMT_OP_CANCEL_PAIR_DEVICE | MGMT_OP_UNPAIR_DEVICE
  | MGMT_OP_USER_CONFIRM_REPLY | MGMT_OP_USER_CONFIRM_NEG_REPLY
  | MGMT_OP_USER_PASSKEY_REPLY | MGMT_OP_USER_PASSKEY_NEG_REPLY
  | MGMT_OP_READ_LOCAL_OOB_DATA | MGMT_OP_ADD_REMOTE_OOB_DATA
  | MGMT_OP_REMOVE_REMOTE_OOB_DATA | MGMT_OP_START_DISCOVERY | MGMT_OP_STOP_DISCOVERY
  | MGMT_OP_CONFIRM_NAME | MGMT_OP_BLOCK_DEVICE | MGMT_OP_UNBLOCK_DEVICE
  | MGMT_OP_SET_DEVICE_ID

datatype mgmt_ev =
    MGMT_EV_CMD_COMPLETE | MGMT_EV_CMD_STATUS | MGMT_EV_CONTROLLER_ERROR
  | MGMT_EV_INDEX_ADDED | MGMT_EV_INDEX_REMOVED | MGMT_EV_NEW_SETTINGS
  | MGMT_EV_CLASS_OF_DEV_CHANGED | MGMT_EV_LOCAL_NAME_CHANGED | MGMT_EV_NEW_LINK_KEY
  | MGMT_EV_NEW_LONG_TERM_KEY | MGMT_EV_DEVICE_CONNECTED | MGMT_EV_DEVICE_DISCONNECTED
  | MGMT_EV_CONNECT_FAILED | MGMT_EV_PIN_CODE_REQUEST | MGMT_EV_USER_CONFIRM_REQUEST
  | MGMT_EV_USER_PASSKEY_REQUEST | MGMT_EV_AUTH_FAILED | MGMT_EV_DEVICE_FOUND
  | MGMT_EV_DISCOVERING | MGMT_EV_DEVICE_BLOCKED | MGMT_EV_DEVICE_UNBLOCKED
  | MGMT_EV_DEVICE_UNPAIRED | MGMT_EV_PASSKEY_NOTIFY

datatype mgmt_setting =
    POWERED | CONNECTABLE | FAST_CONNECTABLE | DISCOVERABLE | PAIRABLE | SSP | BREDR | HS | LE

text \<open>The structs whose \<open>sizeof\<close> the handlers compare a length with.\<close>

datatype cstruct =
    Mgmt_rp_read_version | Mgmt_rp_read_index_list | Mgmt_rp_read_info
  | Mgmt_ev_new_link_key | Mgmt_ev_device_connected | Mgmt_addr_info
  | Mgmt_ev_device_disconnected | Mgmt_ev_connect_failed | Mgmt_ev_pin_code_request
  | Mgmt_ev_user_passkey_request | Mgmt_ev_passkey_notify | Mgmt_ev_user_confirm_request
  | Mgmt_rp_disconnect | Mgmt_rp_pair_device | Mgmt_rp_get_connections | Bdaddr_t
  | Mgmt_cp_set_local_name | Mgmt_rp_read_local_oob_data | Mgmt_cod
  | Mgmt_ev_controller_error | Mgmt_ev_auth_failed | Mgmt_ev_device_found
  | Mgmt_ev_discovering | Mgmt_ev_device_blocked | Mgmt_ev_device_unblocked
  | Mgmt_ev_device_unpaired | Mgmt_ev_new_long_term_key

text \<open>
  What the headers declare. \<open>sizeof d c\<close> is the size of struct \<open>c\<close>; \<open>fld d c f buf\<close> are
  the bytes of the field \<open>f\<close> of a struct \<open>c\<close> laid over \<open>buf\<close>; \<open>event_code\<close> and
  \<open>command_code\<close> read a 16-bit opcode as the constant it equals (a C \<open>switch\<close> over
  distinct constants); the three \<open>sdp_\<close> functions are those of lib/sdp.c, the last one
  returning its result and the uuid it rewrote in place.
\<close>

record decls =
  sizeof :: "cstruct \<Rightarrow> nat"
  fld :: "cstruct \<Rightarrow> string \<Rightarrow> bytes \<Rightarrow> bytes"
  event_code :: "16 word \<Rightarrow> mgmt_ev option"
  command_code :: "16 word \<Rightarrow> mgmt_op option"
  MGMT_SETTING :: "mgmt_setting \<Rightarrow> 32 word"
  MGMT_STATUS_BUSY :: "8 word"
  MGMT_STATUS_DISCONNECTED :: "8 word"
  MGMT_DEV_DISCONN_UNKNOWN :: "8 word"
  MGMT_DEV_FOUND_CONFIRM_NAME :: "32 word"
  MGMT_DEV_FOUND_LEGACY_PAIRING :: "32 word"
  BDADDR_BREDR :: "8 word"
  BDADDR_LE_PUBLIC :: "8 word"
  BDADDR_LE_RANDOM :: "8 word"
  INVALID_PASSKEY :: "32 word"
  sdp_uuid16_to_uuid128 :: "uuid_t \<Rightarrow> uuid_t"
  sdp_uuid32_to_uuid128 :: "uuid_t \<Rightarrow> uuid_t"
  sdp_uuid128_to_uuid :: "uuid_t \<Rightarrow> int \<times> uuid_t"

text \<open>Arguments of calls and of commands.\<close>

datatype val =
    VBool bool | VInt int | VByte "8 word" | VBytes bytes | VStr string
  | VAdapter btd_adapter | VDevice "btd_device option" | VNull

text \<open>
  A command as handed to \<open>write\<close>: the opcode and the index of the header (\<open>htobs\<close> keeps
  16 bits of the index), and the fields of the command struct in the order the code
  fills them in.
\<close>

datatype command = Command mgmt_op "16 word" "val list"

datatype effect =
    Write command
  | WriteFailed command int
  | LogError string
  | LogWarn string
  | LogInfo string
  | Call string "val list"

datatype 'a result = Ok 'a | Abort | OutOfBounds

text \<open>
  The answers of the other modules and of the system while one handler runs.
  \<open>write_errno env c\<close> is \<open>0\<close> when \<open>write\<close> succeeds on \<open>c\<close> and \<open>errno\<close> when it returns a
  negative value (\<open>socket_errno\<close> and \<open>bind_errno\<close> likewise); \<open>heap_junk env i\<close> is what
  \<open>g_realloc\<close> leaves in a slot \<open>i\<close> it has newly added to the table (it does not clear the
  memory it returns); \<open>buf_junk env k\<close> is the byte that the array \<open>buf\<close> of \<open>mgmt_event\<close>, which
  is not initialised, holds \<open>k\<close> places after the end of the message. A \<open>struct btd_device *\<close>
  is a \<open>btd_device option\<close>, \<open>NULL\<close> being \<open>None\<close>.
\<close>

record env =
  write_errno :: "command \<Rightarrow> int"
  heap_junk :: "nat \<Rightarrow> controller_info"
  buf_junk :: "nat \<Rightarrow> 8 word"
  manager_find_adapter :: "bdaddr_t \<Rightarrow> btd_adapter option"
  manager_find_adapter_by_id :: "int \<Rightarrow> btd_adapter option"
  adapter_get_device :: "btd_adapter \<Rightarrow> bytes \<Rightarrow> btd_device option"
  adapter_find_device :: "btd_adapter \<Rightarrow> bytes \<Rightarrow> btd_device option"
  btd_manager_register_adapter :: "int \<Rightarrow> bool \<Rightarrow> btd_adapter option"
  btd_adapter_get_name :: "btd_adapter \<Rightarrow> string option"
  btd_adapter_get_major_minor :: "btd_adapter \<Rightarrow> 8 word \<times> 8 word"
  btd_adapter_get_pin :: "btd_adapter \<Rightarrow> btd_device option \<Rightarrow> int \<times> bytes \<times> bool"
  device_is_bonding :: "btd_device option \<Rightarrow> bool"
  device_is_temporary :: "btd_device option \<Rightarrow> bool"
  device_is_connected :: "btd_device option \<Rightarrow> bool"
  device_notify_pincode :: "btd_device option \<Rightarrow> int"
  device_request_pincode :: "btd_device option \<Rightarrow> int"
  device_request_passkey :: "btd_device option \<Rightarrow> int"
  device_notify_passkey :: "btd_device option \<Rightarrow> int"
  device_confirm_passkey :: "btd_device option \<Rightarrow> int"
  eir_parse :: "bytes \<Rightarrow> 32 word \<times> string option"
  g_try_malloc0_fails :: bool
  socket_errno :: int
  bind_errno :: int

subsection \<open>Reading integers\<close>

text \<open>
  Modelled from the spec: \<open>bt_get_le16\<close> and \<open>bt_get_le32\<close> of lib/bluetooth.h read an
  integer stored little-endian (``all integers little-endian''); a byte missing from the
  list counts as \<open>0\<close>.
\<close>

definition byte_at :: "bytes \<Rightarrow> nat \<Rightarrow> 8 word" where
  "byte_at bs n = (if n < length bs then bs ! n else 0)"

definition bt_get_le16 :: "bytes \<Rightarrow> 16 word" where
  "bt_get_le16 bs = word_of_nat (unat (byte_at bs 0) + 256 * unat (byte_at bs 1))"

definition bt_get_le32 :: "bytes \<Rightarrow> 32 word" where
  "bt_get_le32 bs = word_of_nat (unat (byte_at bs 0) + 256 * unat (byte_at bs 1)
     + 65536 * unat (byte_at bs 2) + 16777216 * unat (byte_at bs 3))"

definition get_u8 :: "bytes \<Rightarrow> 8 word" where
  "get_u8 bs = byte_at bs 0"

subsection \<open>The controller table\<close>

text \<open>\<open>memset(info, 0, sizeof(*info))\<close>.\<close>

definition zero_info :: controller_info where
  "zero_info = \<lparr>valid = False, bdaddr = replicate 6 0, supported_settings = 0,
     current_settings = 0, connections = [], discov_type = 0, pending_uuid = False,
     pending_uuids = [], pending_class = False, major = 0, minor = 0,
     pending_powered = False, pending_cod_change = False\<rparr>"

text \<open>
  \<open>add_controller\<close>: \<open>g_realloc\<close> keeps the old slots and adds slots up to \<open>index\<close>, whose
  content it does not set; the \<open>memset\<close> clears the slot \<open>index\<close> alone.
\<close>

definition add_controller :: "env \<Rightarrow> 16 word \<Rightarrow> mgmt \<Rightarrow> mgmt" where
  "add_controller env index s =
     (let cs = (if uint index > max_index s
                then controllers s @ map (heap_junk env) [length (controllers s) ..< unat index + 1]
                else controllers s)
      in s\<lparr>controllers := cs[unat index := zero_info\<lparr>valid := True\<rparr>]\<rparr>)"

definition remove_controller :: "16 word \<Rightarrow> mgmt \<Rightarrow> mgmt \<times> effect list" where
  "remove_controller index s =
     (if uint index > max_index s then (s, [])
      else if \<not> valid (controllers s ! unat index) then (s, [])
      else (s\<lparr>controllers := (controllers s)[unat index := zero_info]\<rparr>,
            [Call ''btd_manager_unregister_adapter'' [VInt (uint index)]]))"

subsection \<open>Writing to the socket\<close>

text \<open>
  Modelled from the spec: the header is 6 bytes (opcode, controller index and payload
  length, 16 bits each), the index \<open>0xFFFF\<close> names no controller, and the payload of a
  command-complete and of a command-status event starts with the opcode (16 bits) and a
  status byte; \<open>MGMT_HDR_SIZE\<close>, \<open>MGMT_INDEX_NONE\<close> and the two structs are declared in
  lib/mgmt.h.
\<close>

definition MGMT_HDR_SIZE :: nat where
  "MGMT_HDR_SIZE = 6"

definition MGMT_INDEX_NONE :: "16 word" where
  "MGMT_INDEX_NONE = 0xFFFF"

definition sizeof_mgmt_ev_cmd_complete :: nat where
  "sizeof_mgmt_ev_cmd_complete = 3"

definition sizeof_mgmt_ev_cmd_status :: nat where
  "sizeof_mgmt_ev_cmd_status = 3"

definition MGMT_BUF_SIZE :: nat where
  "MGMT_BUF_SIZE = 1024"

text \<open>The values of \<open>errno.h\<close> on Linux that the file returns by name.\<close>

definition EINVAL :: int where "EINVAL = 22"
definition ENOMEM :: int where "ENOMEM = 12"
definition ENODEV :: int where "ENODEV = 19"
definition ENOSYS :: int where "ENOSYS = 38"
definition ENOTSUP :: int where "ENOTSUP = 95"

text \<open>\<open>if (write(mgmt_sock, buf, n) < 0) return -errno; return 0;\<close>\<close>

definition mgmt_write :: "env \<Rightarrow> command \<Rightarrow> int \<times> effect list" where
  "mgmt_write env c =
     (if write_errno env c = 0 then (0, [Write c])
      else (- write_errno env c, [WriteFailed c (write_errno env c)]))"

text \<open>\<open>if (write(sk, &hdr, sizeof(hdr)) < 0) error(msg);\<close>\<close>

definition write_or_log :: "env \<Rightarrow> command \<Rightarrow> string \<Rightarrow> effect list" where
  "write_or_log env c msg =
     (if write_errno env c = 0 then [Write c]
      else [WriteFailed c (write_errno env c), LogError msg])"

definition put_info :: "nat \<Rightarrow> controller_info \<Rightarrow> mgmt \<Rightarrow> mgmt" where
  "put_info n info s = s\<lparr>controllers := (controllers s)[n := info]\<rparr>"

subsection \<open>Lines 89 to 221: adapters, the version reply, the table\<close>

definition get_adapter_and_device ::
  "env \<Rightarrow> bdaddr_t \<Rightarrow> bytes \<Rightarrow> bool \<Rightarrow> (btd_adapter \<times> btd_device option) option \<times> effect list" where
  "get_adapter_and_device env src addr create =
     (case manager_find_adapter env src of
        None \<Rightarrow> (None, [Call ''manager_find_adapter'' [VBytes src],
                         LogError ''Unable to find matching adapter''])
      | Some adapter \<Rightarrow>
          (let device = (if create then adapter_get_device env adapter addr
                         else adapter_find_device env adapter addr);
               tr = [Call ''manager_find_adapter'' [VBytes src],
                     Call (if create then ''adapter_get_device'' else ''adapter_find_device'')
                       [VAdapter adapter, VBytes addr]]
           in if create \<and> device = None
              then (None, tr @ [LogError ''Unable to get device object!''])
              else (Some (adapter, device), tr)))"

definition read_version_complete ::
  "env \<Rightarrow> decls \<Rightarrow> bytes \<Rightarrow> nat \<Rightarrow> mgmt \<Rightarrow> (mgmt \<times> effect list) result" where
  "read_version_complete env d buf len s =
     (if len < sizeof d Mgmt_rp_read_version then Abort
      else
        (let s1 = s\<lparr>mgmt_revision := bt_get_le16 (fld d Mgmt_rp_read_version ''revision'' buf),
                    mgmt_version := get_u8 (fld d Mgmt_rp_read_version ''version'' buf)\<rparr>
         in if mgmt_version s1 < 1 then Abort
            else Ok (s1, LogInfo ''Bluetooth Management version %u, revision %u'' #
                         write_or_log env (Command MGMT_OP_READ_INDEX_LIST MGMT_INDEX_NONE [])
                           ''Unable to read controller index list: %s (%d)'')))"

definition read_info :: "env \<Rightarrow> 16 word \<Rightarrow> effect list" where
  "read_info env index =
     write_or_log env (Command MGMT_OP_READ_INFO index [])
       ''Unable to send read_info command: %s (%d)''"

definition get_connections :: "env \<Rightarrow> 16 word \<Rightarrow> effect list" where
  "get_connections env index =
     write_or_log env (Command MGMT_OP_GET_CONNECTIONS index [])
       ''Unable to send get_connections command: %s (%d)''"

definition mgmt_index_added :: "env \<Rightarrow> 16 word \<Rightarrow> mgmt \<Rightarrow> mgmt \<times> effect list" where
  "mgmt_index_added env index s = (add_controller env index s, read_info env index)"

definition mgmt_index_removed :: "16 word \<Rightarrow> mgmt \<Rightarrow> mgmt \<times> effect list" where
  "mgmt_index_removed index s = remove_controller index s"

subsection \<open>Lines 223 to 399: modes and settings\<close>

definition mgmt_set_mode :: "env \<Rightarrow> int \<Rightarrow> mgmt_op \<Rightarrow> 8 word \<Rightarrow> int \<times> effect list" where
  "mgmt_set_mode env index opcode v =
     mgmt_write env (Command opcode (word_of_int index) [VByte v])"

definition mgmt_set_connectable :: "env \<Rightarrow> int \<Rightarrow> bool \<Rightarrow> int \<times> effect list" where
  "mgmt_set_connectable env index connectable =
     mgmt_set_mode env index MGMT_OP_SET_CONNECTABLE (of_bool connectable)"

definition mgmt_set_discoverable :: "env \<Rightarrow> int \<Rightarrow> bool \<Rightarrow> 16 word \<Rightarrow> int \<times> effect list" where
  "mgmt_set_discoverable env index discoverable timeout =
     mgmt_write env (Command MGMT_OP_SET_DISCOVERABLE (word_of_int index)
       [VByte (of_bool discoverable), VInt (uint timeout)])"

definition mgmt_set_pairable :: "env \<Rightarrow> int \<Rightarrow> bool \<Rightarrow> int \<times> effect list" where
  "mgmt_set_pairable env index pairable =
     mgmt_set_mode env index MGMT_OP_SET_PAIRABLE (of_bool pairable)"

definition mgmt_set_ssp :: "env \<Rightarrow> int \<Rightarrow> bool \<Rightarrow> int \<times> effect list" where
  "mgmt_set_ssp env index ssp = mgmt_set_mode env index MGMT_OP_SET_SSP (of_bool ssp)"

definition mgmt_set_low_energy :: "env \<Rightarrow> int \<Rightarrow> bool \<Rightarrow> int \<times> effect list" where
  "mgmt_set_low_energy env index le = mgmt_set_mode env index MGMT_OP_SET_LE (of_bool le)"

definition mgmt_powered :: "decls \<Rightarrow> 32 word \<Rightarrow> bool" where
  "mgmt_powered d settings = (settings AND MGMT_SETTING d POWERED \<noteq> 0)"

definition mgmt_connectable :: "decls \<Rightarrow> 32 word \<Rightarrow> bool" where
  "mgmt_connectable d settings = (settings AND MGMT_SETTING d CONNECTABLE \<noteq> 0)"

definition mgmt_fast_connectable :: "decls \<Rightarrow> 32 word \<Rightarrow> bool" where
  "mgmt_fast_connectable d settings = (settings AND MGMT_SETTING d FAST_CONNECTABLE \<noteq> 0)"

definition mgmt_discoverable :: "decls \<Rightarrow> 32 word \<Rightarrow> bool" where
  "mgmt_discoverable d settings = (settings AND MGMT_SETTING d DISCOVERABLE \<noteq> 0)"

definition mgmt_pairable :: "decls \<Rightarrow> 32 word \<Rightarrow> bool" where
  "mgmt_pairable d settings = (settings AND MGMT_SETTING d PAIRABLE \<noteq> 0)"

definition mgmt_ssp :: "decls \<Rightarrow> 32 word \<Rightarrow> bool" where
  "mgmt_ssp d settings = (settings AND MGMT_SETTING d SSP \<noteq> 0)"

definition mgmt_bredr :: "decls \<Rightarrow> 32 word \<Rightarrow> bool" where
  "mgmt_bredr d settings = (settings AND MGMT_SETTING d BREDR \<noteq> 0)"

definition mgmt_high_speed :: "decls \<Rightarrow> 32 word \<Rightarrow> bool" where
  "mgmt_high_speed d settings = (settings AND MGMT_SETTING d HS \<noteq> 0)"

definition mgmt_low_energy :: "decls \<Rightarrow> 32 word \<Rightarrow> bool" where
  "mgmt_low_energy d settings = (settings AND MGMT_SETTING d LE \<noteq> 0)"

definition update_settings :: "decls \<Rightarrow> btd_adapter \<Rightarrow> 32 word \<Rightarrow> effect list" where
  "update_settings d adapter settings =
     [Call ''adapter_update_connectable'' [VAdapter adapter, VBool (mgmt_connectable d settings)],
      Call ''adapter_update_discoverable'' [VAdapter adapter, VBool (mgmt_discoverable d settings)],
      Call ''adapter_update_pairable'' [VAdapter adapter, VBool (mgmt_pairable d settings)]]"

text \<open>\<open>info\<close> points at a slot of the table: the function returns the slot as it leaves it.\<close>

definition mgmt_update_powered ::
  "decls \<Rightarrow> btd_adapter \<Rightarrow> controller_info \<Rightarrow> 32 word \<Rightarrow> controller_info \<times> effect list" where
  "mgmt_update_powered d adapter info settings =
     (if \<not> mgmt_powered d settings
      then (info\<lparr>pending_uuids := [], pending_uuid := False, pending_class := False,
                 pending_cod_change := False\<rparr>,
            [Call ''btd_adapter_stop'' [VAdapter adapter]])
      else (info, Call ''btd_adapter_start'' [VAdapter adapter] #
                  update_settings d adapter settings))"

text \<open>\<open>ev\<close> is a \<open>uint32_t *\<close>, so \<open>sizeof(*ev)\<close> is 4.\<close>

definition mgmt_new_settings ::
  "env \<Rightarrow> decls \<Rightarrow> 16 word \<Rightarrow> bytes \<Rightarrow> nat \<Rightarrow> mgmt \<Rightarrow> (mgmt \<times> effect list) result" where
  "mgmt_new_settings env d index buf len s =
     (if len < 4 then Ok (s, [LogError ''Too small new settings event''])
      else if uint index > max_index s
      then Ok (s, [LogError ''Unexpected index %u in new_settings event''])
      else
        (let info = controllers s ! unat index in
         case manager_find_adapter env (bdaddr info) of
           None \<Rightarrow> Ok (s, [Call ''manager_find_adapter'' [VBytes (bdaddr info)]])
         | Some adapter \<Rightarrow>
             (let settings = bt_get_le32 buf;
                  old_power = mgmt_powered d (current_settings info);
                  new_power = mgmt_powered d settings
              in case (if new_power \<noteq> old_power
                       then mgmt_update_powered d adapter info settings
                       else (info, update_settings d adapter settings)) of
                   (info1, tr) \<Rightarrow>
                     Ok (put_info (unat index) (info1\<lparr>current_settings := settings\<rparr>) s,
                         Call ''manager_find_adapter'' [VBytes (bdaddr info)] # tr))))"

subsection \<open>Lines 401 to 634: keys, connections\<close>

definition bonding_complete :: "env \<Rightarrow> controller_info \<Rightarrow> bytes \<Rightarrow> 8 word \<Rightarrow> effect list" where
  "bonding_complete env info addr status =
     (case manager_find_adapter env (bdaddr info) of
        None \<Rightarrow> [Call ''manager_find_adapter'' [VBytes (bdaddr info)]]
      | Some adapter \<Rightarrow>
          [Call ''manager_find_adapter'' [VBytes (bdaddr info)],
           Call ''adapter_bonding_complete'' [VAdapter adapter, VBytes addr, VByte status]])"

text \<open>
  \<open>store_link_key\<close> asks the adapter and the device for their addresses and rewrites the
  group \<open>LinkKey\<close> of the device's info file; the file is the last entry.
\<close>

definition store_link_key ::
  "btd_adapter \<Rightarrow> btd_device option \<Rightarrow> bytes \<Rightarrow> 8 word \<Rightarrow> 8 word \<Rightarrow> effect list" where
  "store_link_key adapter device key t pin_length =
     [Call ''adapter_get_address'' [VAdapter adapter],
      Call ''device_get_address'' [VDevice device],
      Call ''g_file_set_contents'' [VStr ''LinkKey'', VBytes key, VByte t, VByte pin_length]]"

definition mgmt_new_link_key ::
  "env \<Rightarrow> decls \<Rightarrow> 16 word \<Rightarrow> bytes \<Rightarrow> nat \<Rightarrow> mgmt \<Rightarrow> (mgmt \<times> effect list) result" where
  "mgmt_new_link_key env d index buf len s =
     (if len \<noteq> sizeof d Mgmt_ev_new_link_key
      then Ok (s, [LogError ''mgmt_new_link_key event size mismatch (%zu != %zu)''])
      else if uint index > max_index s
      then Ok (s, [LogError ''Unexpected index %u in new_key event''])
      else if get_u8 (fld d Mgmt_ev_new_link_key ''key.pin_len'' buf) > 16
      then Ok (s, [LogError ''Invalid PIN length (%u) in new_key event''])
      else
        (let info = controllers s ! unat index;
             addr = fld d Mgmt_ev_new_link_key ''key.addr'' buf
         in case get_adapter_and_device env (bdaddr info) addr True of
              (None, tr) \<Rightarrow> Ok (s, tr)
            | (Some (adapter, device), tr) \<Rightarrow>
                Ok (s, tr @
                  (if get_u8 (fld d Mgmt_ev_new_link_key ''store_hint'' buf) \<noteq> 0
                   then store_link_key adapter device
                          (fld d Mgmt_ev_new_link_key ''key.val'' buf)
                          (get_u8 (fld d Mgmt_ev_new_link_key ''key.type'' buf))
                          (get_u8 (fld d Mgmt_ev_new_link_key ''key.pin_len'' buf)) @
                        [Call ''device_set_bonded'' [VDevice device, VBool True],
                         Call ''device_is_temporary'' [VDevice device]] @
                        (if device_is_temporary env device
                         then [Call ''device_set_temporary'' [VDevice device, VBool False]]
                         else [])
                   else []) @
                  bonding_complete env info addr 0)))"

text \<open>\<open>ev->eir\<close> is the flexible array that follows the struct.\<close>

definition mgmt_device_connected ::
  "env \<Rightarrow> decls \<Rightarrow> 16 word \<Rightarrow> bytes \<Rightarrow> nat \<Rightarrow> mgmt \<Rightarrow> (mgmt \<times> effect list) result" where
  "mgmt_device_connected env d index buf len s =
     (if len < sizeof d Mgmt_ev_device_connected
      then Ok (s, [LogError ''Too small device_connected event''])
      else
        (let eir_len = bt_get_le16 (fld d Mgmt_ev_device_connected ''eir_len'' buf) in
         if len < sizeof d Mgmt_ev_device_connected + unat eir_len
         then Ok (s, [LogError ''Too small device_connected event''])
         else if uint index > max_index s
         then Ok (s, [LogError ''Unexpected index %u in device_connected event''])
         else
           (let info = controllers s ! unat index;
                addr = fld d Mgmt_ev_device_connected ''addr'' buf;
                eir = take (unat eir_len) (drop (sizeof d Mgmt_ev_device_connected) buf)
            in case get_adapter_and_device env (bdaddr info) addr True of
                 (None, tr) \<Rightarrow> Ok (s, tr)
               | (Some (adapter, device), tr) \<Rightarrow>
                   (case (if eir_len > 0 then eir_parse env eir else (0, None)) of
                      (eir_class, eir_name) \<Rightarrow>
                        Ok (s, tr @
                          (if eir_len > 0 then [Call ''eir_parse'' [VBytes eir]] else []) @
                          (if eir_class \<noteq> 0
                           then [Call ''device_set_class'' [VDevice device, VInt (uint eir_class)]]
                           else []) @
                          [Call ''adapter_add_connection'' [VAdapter adapter, VDevice device]] @
                          (case eir_name of
                             None \<Rightarrow> []
                           | Some name \<Rightarrow>
                               [Call ''adapter_store_cached_name''
                                  [VBytes (bdaddr info),
                                   VBytes (fld d Mgmt_ev_device_connected ''addr.bdaddr'' buf),
                                   VStr name],
                                Call ''device_set_name'' [VDevice device, VStr name]]) @
                          [Call ''eir_data_free'' []])))))"

text \<open>The \<open>reason\<close> of a disconnection is printed by \<open>DBG\<close> only.\<close>

definition mgmt_device_disconnected ::
  "env \<Rightarrow> decls \<Rightarrow> 16 word \<Rightarrow> bytes \<Rightarrow> nat \<Rightarrow> mgmt \<Rightarrow> (mgmt \<times> effect list) result" where
  "mgmt_device_disconnected env d index buf len s =
     (if len < sizeof d Mgmt_addr_info
      then Ok (s, [LogError ''Too small device_disconnected event''])
      else if uint index > max_index s
      then Ok (s, [LogError ''Unexpected index %u in device_disconnected event''])
      else
        (let info = controllers s ! unat index;
             addr = fld d Mgmt_ev_device_disconnected ''addr'' buf
         in case get_adapter_and_device env (bdaddr info) addr False of
              (None, tr) \<Rightarrow> Ok (s, tr)
            | (Some (adapter, device), tr) \<Rightarrow>
                Ok (s, tr @
                  (if device \<noteq> None
                   then [Call ''adapter_remove_connection'' [VAdapter adapter, VDevice device]]
                   else []))))"

definition mgmt_connect_failed ::
  "env \<Rightarrow> decls \<Rightarrow> 16 word \<Rightarrow> bytes \<Rightarrow> nat \<Rightarrow> mgmt \<Rightarrow> (mgmt \<times> effect list) result" where
  "mgmt_connect_failed env d index buf len s =
     (if len < sizeof d Mgmt_ev_connect_failed
      then Ok (s, [LogError ''Too small connect_failed event''])
      else if uint index > max_index s
      then Ok (s, [LogError ''Unexpected index %u in connect_failed event''])
      else
        (let info = controllers s ! unat index;
             addr = fld d Mgmt_ev_connect_failed ''addr'' buf;
             status = get_u8 (fld d Mgmt_ev_connect_failed ''status'' buf)
         in case get_adapter_and_device env (bdaddr info) addr False of
              (None, tr) \<Rightarrow> Ok (s, tr)
            | (Some (adapter, device), tr) \<Rightarrow>
                Ok (s, tr @
                  (if device \<noteq> None
                   then Call ''device_is_bonding'' [VDevice device] #
                        (if device_is_bonding env device
                         then [Call ''device_cancel_bonding'' [VDevice device, VByte status]]
                         else []) @
                        Call ''device_is_temporary'' [VDevice device] #
                        (if device_is_temporary env device
                         then [Call ''adapter_remove_device''
                                 [VAdapter adapter, VDevice device, VBool True]]
                         else [])
                   else []) @
                  [Call ''adapter_bonding_complete''
                     [VAdapter adapter, VBytes addr, VByte status]])))"

subsection \<open>Lines 636 to 931: PIN codes, passkeys, confirmations\<close>

text \<open>\<open>pin\<close> is \<open>None\<close> for a \<open>NULL\<close> pointer.\<close>

definition mgmt_pincode_reply ::
  "env \<Rightarrow> decls \<Rightarrow> int \<Rightarrow> bdaddr_t \<Rightarrow> bytes option \<Rightarrow> nat \<Rightarrow> int \<times> effect list" where
  "mgmt_pincode_reply env d index bd pin pin_len =
     (case pin of
        None \<Rightarrow>
          mgmt_write env (Command MGMT_OP_PIN_CODE_NEG_REPLY (word_of_int index)
            [VBytes bd, VByte (BDADDR_BREDR d)])
      | Some p \<Rightarrow>
          if pin_len > 16 then (- EINVAL, [])
          else mgmt_write env (Command MGMT_OP_PIN_CODE_REPLY (word_of_int index)
                 [VBytes bd, VByte (BDADDR_BREDR d), VInt (int pin_len), VBytes (take pin_len p)]))"

definition mgmt_pin_code_request ::
  "env \<Rightarrow> decls \<Rightarrow> 16 word \<Rightarrow> bytes \<Rightarrow> nat \<Rightarrow> mgmt \<Rightarrow> (mgmt \<times> effect list) result" where
  "mgmt_pin_code_request env d index buf len s =
     (if len < sizeof d Mgmt_ev_pin_code_request
      then Ok (s, [LogError ''Too small pin_code_request event''])
      else if uint index > max_index s
      then Ok (s, [LogError ''Unexpected index %u in pin_code_request event''])
      else
        (let info = controllers s ! unat index;
             addr = fld d Mgmt_ev_pin_code_request ''addr'' buf;
             bd = fld d Mgmt_ev_pin_code_request ''addr.bdaddr'' buf;
             secure = get_u8 (fld d Mgmt_ev_pin_code_request ''secure'' buf)
         in case get_adapter_and_device env (bdaddr info) addr True of
              (None, tr) \<Rightarrow> Ok (s, tr)
            | (Some (adapter, device), tr) \<Rightarrow>
                (case btd_adapter_get_pin env adapter device of
                   (pinlen, pin, display) \<Rightarrow>
                     (let tr1 = tr @ [Call ''btd_adapter_get_pin'' [VAdapter adapter, VDevice device]]
                      in if pinlen > 0 \<and> (secure = 0 \<or> pinlen = 16)
                         then
                           (if display \<and> device_is_bonding env device
                            then Ok (s, tr1 @
                                   [Call ''device_is_bonding'' [VDevice device],
                                    Call ''device_notify_pincode''
                                      [VDevice device, VByte secure, VBytes pin]] @
                                   (if device_notify_pincode env device < 0
                                    then LogError ''device_notify_pin: %s'' #
                                         snd (mgmt_pincode_reply env d (uint index) bd None 0)
                                    else []))
                            else Ok (s, tr1 @
                                   (if display then [Call ''device_is_bonding'' [VDevice device]]
                                    else []) @
                                   snd (mgmt_pincode_reply env d (uint index) bd (Some pin)
                                          (nat pinlen))))
                         else Ok (s, tr1 @
                                [Call ''device_request_pincode'' [VDevice device, VByte secure]] @
                                (if device_request_pincode env device < 0
                                 then LogError ''device_request_pin: %s'' #
                                      snd (mgmt_pincode_reply env d (uint index) bd None 0)
                                 else []))))))"

definition mgmt_confirm_reply ::
  "env \<Rightarrow> int \<Rightarrow> bdaddr_t \<Rightarrow> 8 word \<Rightarrow> bool \<Rightarrow> int \<times> effect list" where
  "mgmt_confirm_reply env index bd bdaddr_type success =
     mgmt_write env
       (Command (if success then MGMT_OP_USER_CONFIRM_REPLY else MGMT_OP_USER_CONFIRM_NEG_REPLY)
          (word_of_int index) [VBytes bd, VByte bdaddr_type])"

definition mgmt_passkey_reply ::
  "env \<Rightarrow> decls \<Rightarrow> int \<Rightarrow> bdaddr_t \<Rightarrow> 8 word \<Rightarrow> 32 word \<Rightarrow> int \<times> effect list" where
  "mgmt_passkey_reply env d index bd bdaddr_type passkey =
     (if passkey = INVALID_PASSKEY d
      then mgmt_write env (Command MGMT_OP_USER_PASSKEY_NEG_REPLY (word_of_int index)
             [VBytes bd, VByte bdaddr_type])
      else mgmt_write env (Command MGMT_OP_USER_PASSKEY_REPLY (word_of_int index)
             [VBytes bd, VByte bdaddr_type, VInt (uint passkey)]))"

definition mgmt_passkey_request ::
  "env \<Rightarrow> decls \<Rightarrow> 16 word \<Rightarrow> bytes \<Rightarrow> nat \<Rightarrow> mgmt \<Rightarrow> (mgmt \<times> effect list) result" where
  "mgmt_passkey_request env d index buf len s =
     (if len < sizeof d Mgmt_ev_user_passkey_request
      then Ok (s, [LogError ''Too small passkey_request event''])
      else if uint index > max_index s
      then Ok (s, [LogError ''Unexpected index %u in passkey_request event''])
      else
        (let info = controllers s ! unat index;
             addr = fld d Mgmt_ev_user_passkey_request ''addr'' buf
         in case get_adapter_and_device env (bdaddr info) addr True of
              (None, tr) \<Rightarrow> Ok (s, tr)
            | (Some (adapter, device), tr) \<Rightarrow>
                Ok (s, tr @ [Call ''device_request_passkey'' [VDevice device]] @
                  (if device_request_passkey env device < 0
                   then LogError ''device_request_passkey: %s'' #
                        snd (mgmt_passkey_reply env d (uint index)
                               (fld d Mgmt_ev_user_passkey_request ''addr.bdaddr'' buf)
                               (get_u8 (fld d Mgmt_ev_user_passkey_request ''addr.type'' buf))
                               (INVALID_PASSKEY d))
                   else []))))"

definition mgmt_passkey_notify ::
  "env \<Rightarrow> decls \<Rightarrow> 16 word \<Rightarrow> bytes \<Rightarrow> nat \<Rightarrow> mgmt \<Rightarrow> (mgmt \<times> effect list) result" where
  "mgmt_passkey_notify env d index buf len s =
     (if len < sizeof d Mgmt_ev_passkey_notify
      then Ok (s, [LogError ''Too small passkey_notify event''])
      else if uint index > max_index s
      then Ok (s, [LogError ''Unexpected index %u in passkey_notify event''])
      else
        (let info = controllers s ! unat index;
             addr = fld d Mgmt_ev_passkey_notify ''addr'' buf;
             passkey = bt_get_le32 (fld d Mgmt_ev_passkey_notify ''passkey'' buf)
         in case get_adapter_and_device env (bdaddr info) addr True of
              (None, tr) \<Rightarrow> Ok (s, tr)
            | (Some (adapter, device), tr) \<Rightarrow>
                Ok (s, tr @
                  [Call ''device_notify_passkey''
                     [VDevice device, VInt (uint passkey),
                      VByte (get_u8 (fld d Mgmt_ev_passkey_notify ''entered'' buf))]] @
                  (if device_notify_passkey env device < 0
                   then [LogError ''device_notify_passkey: %s''] else []))))"

definition mgmt_user_confirm_request ::
  "env \<Rightarrow> decls \<Rightarrow> 16 word \<Rightarrow> bytes \<Rightarrow> nat \<Rightarrow> mgmt \<Rightarrow> (mgmt \<times> effect list) result" where
  "mgmt_user_confirm_request env d index buf len s =
     (if len < sizeof d Mgmt_ev_user_confirm_request
      then Ok (s, [LogError ''Too small user_confirm_request event''])
      else if uint index > max_index s
      then Ok (s, [LogError ''Unexpected index %u in user_confirm_request event''])
      else
        (let info = controllers s ! unat index;
             addr = fld d Mgmt_ev_user_confirm_request ''addr'' buf
         in case get_adapter_and_device env (bdaddr info) addr True of
              (None, tr) \<Rightarrow> Ok (s, tr)
            | (Some (adapter, device), tr) \<Rightarrow>
                Ok (s, tr @
                  [Call ''device_confirm_passkey''
                     [VDevice device,
                      VInt (uint (bt_get_le32 (fld d Mgmt_ev_user_confirm_request ''value'' buf))),
                      VByte (get_u8 (fld d Mgmt_ev_user_confirm_request ''confirm_hint'' buf))]] @
                  (if device_confirm_passkey env device < 0
                   then LogError ''device_confirm_passkey: %s'' #
                        snd (mgmt_confirm_reply env (uint index)
                               (fld d Mgmt_ev_user_confirm_request ''addr.bdaddr'' buf)
                               (get_u8 (fld d Mgmt_ev_user_confirm_request ''addr.type'' buf))
                               False)
                   else []))))"

subsection \<open>Lines 933 to 1065: adding and removing UUIDs\<close>

definition uuid_to_uuid128 :: "decls \<Rightarrow> uuid_t \<Rightarrow> uuid_t" where
  "uuid_to_uuid128 d u =
     (if uuid_type u = SDP_UUID16 then sdp_uuid16_to_uuid128 d u
      else if uuid_type u = SDP_UUID32 then sdp_uuid32_to_uuid128 d u
      else u)"

definition is_16bit_uuid :: "decls \<Rightarrow> uuid_t \<Rightarrow> bool" where
  "is_16bit_uuid d u =
     (if uuid_type u = SDP_UUID128 \<and> uuid_value u = replicate 16 0 then True
      else
        (case sdp_uuid128_to_uuid d (uuid_to_uuid128 d u) of
           (r, tmp) \<Rightarrow>
             if r = 0 then False
             else if uuid_type tmp \<noteq> SDP_UUID16 then False
             else True))"

text \<open>
  \<open>info\<close> is \<open>&controllers[index]\<close>; it is first read after the test of the UUID, and
  reading it outside the table is \<open>OutOfBounds\<close>. \<open>ntoh128\<close> followed by \<open>htob128\<close> stores the
  16 bytes of the UUID in the opposite order.
\<close>

definition mgmt_add_uuid ::
  "env \<Rightarrow> decls \<Rightarrow> int \<Rightarrow> uuid_t \<Rightarrow> 8 word \<Rightarrow> mgmt \<Rightarrow> (int \<times> mgmt \<times> effect list) result" where
  "mgmt_add_uuid env d index u hint s =
     (if \<not> is_16bit_uuid d u
      then Ok (0, s, [LogWarn ''mgmt_add_uuid: Ignoring non-16-bit UUID''])
      else if index < 0 \<or> index > max_index s then OutOfBounds
      else
        (let info = controllers s ! nat index in
         if pending_uuid info
         then Ok (0, put_info (nat index)
                       (info\<lparr>pending_uuids := pending_uuids info @
                          [\<lparr>add = True, uuid = u, svc_hint = hint\<rparr>]\<rparr>) s, [])
         else
           (let cmd = Command MGMT_OP_ADD_UUID (word_of_int index)
                        [VBytes (rev (uuid_value (uuid_to_uuid128 d u))), VByte hint]
            in if write_errno env cmd \<noteq> 0
               then Ok (- write_errno env cmd, s, [WriteFailed cmd (write_errno env cmd)])
               else Ok (0, put_info (nat index) (info\<lparr>pending_uuid := True\<rparr>) s, [Write cmd]))))"

text \<open>\<open>g_new0\<close> leaves the \<open>svc_hint\<close> of the queued entry 0.\<close>

definition mgmt_remove_uuid ::
  "env \<Rightarrow> decls \<Rightarrow> int \<Rightarrow> uuid_t \<Rightarrow> mgmt \<Rightarrow> (int \<times> mgmt \<times> effect list) result" where
  "mgmt_remove_uuid env d index u s =
     (if \<not> is_16bit_uuid d u
      then Ok (0, s, [LogWarn ''mgmt_remove_uuid: Ignoring non-16-bit UUID''])
      else if index < 0 \<or> index > max_index s then OutOfBounds
      else
        (let info = controllers s ! nat index in
         if pending_uuid info
         then Ok (0, put_info (nat index)
                       (info\<lparr>pending_uuids := pending_uuids info @
                          [\<lparr>add = False, uuid = u, svc_hint = 0\<rparr>]\<rparr>) s, [])
         else
           (let cmd = Command MGMT_OP_REMOVE_UUID (word_of_int index)
                        [VBytes (rev (uuid_value (uuid_to_uuid128 d u)))]
            in if write_errno env cmd \<noteq> 0
               then Ok (- write_errno env cmd, s, [WriteFailed cmd (write_errno env cmd)])
               else Ok (0, put_info (nat index) (info\<lparr>pending_uuid := True\<rparr>) s, [Write cmd]))))"

definition uuid_any :: uuid_t where
  "uuid_any = \<lparr>uuid_type = SDP_UUID128, uuid_value = replicate 16 0\<rparr>"

definition clear_uuids ::
  "env \<Rightarrow> decls \<Rightarrow> int \<Rightarrow> mgmt \<Rightarrow> (int \<times> mgmt \<times> effect list) result" where
  "clear_uuids env d index s = mgmt_remove_uuid env d index uuid_any s"

subsection \<open>Lines 1067 to 1163: the index list, power, name, class\<close>

text \<open>The body of the \<open>for\<close> loop of \<open>read_index_list_complete\<close>, over the indexes it reads.\<close>

primrec add_controllers :: "env \<Rightarrow> 16 word list \<Rightarrow> mgmt \<Rightarrow> mgmt \<times> effect list" where
  "add_controllers env [] s = (s, [])"
| "add_controllers env (index # rest) s =
     (case add_controllers env rest (add_controller env index s) of
        (s', tr) \<Rightarrow> (s', read_info env index @ tr))"

definition read_index_list_complete ::
  "env \<Rightarrow> decls \<Rightarrow> bytes \<Rightarrow> nat \<Rightarrow> mgmt \<Rightarrow> (mgmt \<times> effect list) result" where
  "read_index_list_complete env d buf len s =
     (if len < sizeof d Mgmt_rp_read_index_list
      then Ok (s, [LogError ''Too small read index list complete event''])
      else
        (let num = bt_get_le16 (fld d Mgmt_rp_read_index_list ''num_controllers'' buf) in
         if unat num * 2 + sizeof d Mgmt_rp_read_index_list \<noteq> len
         then Ok (s, [LogError ''Incorrect packet size for index list event''])
         else Ok (add_controllers env
                    (map (\<lambda>i. bt_get_le16 (drop (2 * i) (fld d Mgmt_rp_read_index_list ''index'' buf)))
                       [0 ..< unat num]) s)))"

definition mgmt_set_powered ::
  "env \<Rightarrow> int \<Rightarrow> bool \<Rightarrow> mgmt \<Rightarrow> (int \<times> mgmt \<times> effect list) result" where
  "mgmt_set_powered env index powered s =
     (if index < 0 \<or> index > max_index s then OutOfBounds
      else
        (let info = controllers s ! nat index in
         if powered \<and> pending_uuid info
         then Ok (0, put_info (nat index) (info\<lparr>pending_powered := True\<rparr>) s, [])
         else
           (let s1 = (if powered then s
                      else put_info (nat index) (info\<lparr>pending_powered := False\<rparr>) s)
            in case mgmt_set_mode env index MGMT_OP_SET_POWERED (of_bool powered) of
                 (r, tr) \<Rightarrow> Ok (r, s1, tr))))"

text \<open>
  Modelled from the spec: a name of at most 248 bytes is sent (\<open>strncpy\<close> copies
  \<open>sizeof(cp->name) - 1\<close> bytes; the struct is declared in lib/mgmt.h).
\<close>

definition mgmt_set_name :: "env \<Rightarrow> int \<Rightarrow> string \<Rightarrow> int \<times> effect list" where
  "mgmt_set_name env index name =
     mgmt_write env (Command MGMT_OP_SET_LOCAL_NAME (word_of_int index) [VStr (take 248 name)])"

definition mgmt_set_dev_class ::
  "env \<Rightarrow> int \<Rightarrow> 8 word \<Rightarrow> 8 word \<Rightarrow> mgmt \<Rightarrow> (int \<times> mgmt \<times> effect list) result" where
  "mgmt_set_dev_class env index mj mn s =
     (if index < 0 \<or> index > max_index s then OutOfBounds
      else
        (let info = controllers s ! nat index in
         if pending_uuid info
         then Ok (0, put_info (nat index)
                       (info\<lparr>major := mj, minor := mn, pending_class := True\<rparr>) s, [])
         else
           (case mgmt_write env (Command MGMT_OP_SET_DEV_CLASS (word_of_int index)
                    [VByte mj, VByte mn]) of
              (r, tr) \<Rightarrow> Ok (r, s, tr))))"

subsection \<open>Lines 1165 to 1239: the controller information\<close>

text \<open>
  The two settings words are copied with \<open>memcpy\<close>, so they are the little-endian words
  of the reply on the hosts this code is built for. What the handler sends after the
  adapter is registered, in program order.
\<close>

definition read_info_tail ::
  "env \<Rightarrow> decls \<Rightarrow> 16 word \<Rightarrow> controller_info \<Rightarrow> btd_adapter \<Rightarrow> effect list" where
  "read_info_tail env d index info adapter =
     (if \<not> mgmt_pairable d (current_settings info)
      then snd (mgmt_set_pairable env (uint index) True) else []) @
     (if mgmt_ssp d (supported_settings info) \<and> \<not> mgmt_ssp d (current_settings info)
      then snd (mgmt_set_ssp env (uint index) True) else []) @
     (if mgmt_low_energy d (supported_settings info) \<and> \<not> mgmt_low_energy d (current_settings info)
      then snd (mgmt_set_low_energy env (uint index) True) else []) @
     (if mgmt_powered d (current_settings info)
      then get_connections env index @ [Call ''btd_adapter_start'' [VAdapter adapter]]
      else []) @
     [Call ''btd_adapter_unref'' [VAdapter adapter]]"

definition read_info_complete ::
  "env \<Rightarrow> decls \<Rightarrow> 16 word \<Rightarrow> bytes \<Rightarrow> nat \<Rightarrow> mgmt \<Rightarrow> (mgmt \<times> effect list) result" where
  "read_info_complete env d index buf len s =
     (if len < sizeof d Mgmt_rp_read_info
      then Ok (s, [LogError ''Too small read info complete event''])
      else if uint index > max_index s
      then Ok (s, [LogError ''Unexpected index %u in read info complete''])
      else
        (let info = (controllers s ! unat index)
               \<lparr>bdaddr := fld d Mgmt_rp_read_info ''bdaddr'' buf,
                supported_settings := bt_get_le32 (fld d Mgmt_rp_read_info ''supported_settings'' buf),
                current_settings := bt_get_le32 (fld d Mgmt_rp_read_info ''current_settings'' buf)\<rparr>
         in case clear_uuids env d (uint index) (put_info (unat index) info s) of
              Abort \<Rightarrow> Abort
            | OutOfBounds \<Rightarrow> OutOfBounds
            | Ok (r, s1, tr_clear) \<Rightarrow>
                (let reg = Call ''btd_manager_register_adapter''
                             [VInt (uint index), VBool (mgmt_powered d (current_settings info))]
                 in case btd_manager_register_adapter env (uint index)
                           (mgmt_powered d (current_settings info)) of
                      None \<Rightarrow>
                        Ok (s1, tr_clear @ [reg, LogError ''mgmt: unable to register adapter''])
                    | Some adapter \<Rightarrow>
                        (case btd_adapter_get_major_minor env adapter of
                           (mj, mn) \<Rightarrow>
                             (case mgmt_set_dev_class env (uint index) mj mn s1 of
                                Abort \<Rightarrow> Abort
                              | OutOfBounds \<Rightarrow> OutOfBounds
                              | Ok (r2, s2, tr_class) \<Rightarrow>
                                  Ok (s2, tr_clear @ [reg] @
                                    update_settings d adapter (current_settings info) @
                                    [Call ''btd_adapter_get_name'' [VAdapter adapter]] @
                                    (case btd_adapter_get_name env adapter of
                                       Some name \<Rightarrow> snd (mgmt_set_name env (uint index) name)
                                     | None \<Rightarrow>
                                         [Call ''adapter_name_changed''
                                            [VAdapter adapter,
                                             VBytes (fld d Mgmt_rp_read_info ''name'' buf)]]) @
                                    [Call ''btd_adapter_get_major_minor'' [VAdapter adapter]] @
                                    tr_class @
                                    read_info_tail env d index info adapter))))))"

subsection \<open>Lines 1241 to 1441: the other replies\<close>

definition disconnect_complete ::
  "env \<Rightarrow> decls \<Rightarrow> 16 word \<Rightarrow> 8 word \<Rightarrow> bytes \<Rightarrow> nat \<Rightarrow> mgmt \<Rightarrow> (mgmt \<times> effect list) result" where
  "disconnect_complete env d index status buf len s =
     (if len < sizeof d Mgmt_rp_disconnect
      then Ok (s, [LogError ''Too small disconnect complete event''])
      else if status \<noteq> 0
      then Ok (s, [LogError ''Disconnecting %s failed with status %u''])
      else if uint index > max_index s
      then Ok (s, [LogError ''Unexpected index %u in disconnect complete''])
      else
        (let info = controllers s ! unat index;
             addr = fld d Mgmt_rp_disconnect ''addr'' buf
         in case get_adapter_and_device env (bdaddr info) addr False of
              (None, tr) \<Rightarrow> Ok (s, tr)
            | (Some (adapter, device), tr) \<Rightarrow>
                Ok (s, tr @
                  (if device \<noteq> None
                   then [Call ''adapter_remove_connection'' [VAdapter adapter, VDevice device]]
                   else []) @
                  [Call ''adapter_bonding_complete''
                     [VAdapter adapter, VBytes addr, VByte (MGMT_STATUS_DISCONNECTED d)]])))"

definition pair_device_complete ::
  "env \<Rightarrow> decls \<Rightarrow> 16 word \<Rightarrow> 8 word \<Rightarrow> bytes \<Rightarrow> nat \<Rightarrow> mgmt \<Rightarrow> (mgmt \<times> effect list) result" where
  "pair_device_complete env d index status buf len s =
     (if len < sizeof d Mgmt_rp_pair_device
      then Ok (s, [LogError ''Too small pair_device complete event''])
      else if uint index > max_index s
      then Ok (s, [LogError ''Unexpected index %u in pair_device complete''])
      else Ok (s, bonding_complete env (controllers s ! unat index)
                    (fld d Mgmt_rp_pair_device ''addr'' buf) status))"

text \<open>
  \<open>rp->conn_count\<close> is read as the host stores it (little-endian on the hosts this code
  is built for); \<open>rp->addr[i]\<close> is the \<open>i\<close>-th \<open>struct mgmt_addr_info\<close> of the array. The
  length is tested with \<open>sizeof(bdaddr_t)\<close> for each entry, and \<open>g_memdup\<close> copies
  \<open>sizeof(struct mgmt_addr_info)\<close> bytes of each: the copies can reach beyond the message.
  \<open>buf\<close> is \<open>ev->data\<close>, at offset \<open>MGMT_HDR_SIZE + sizeof(*ev)\<close> of the array \<open>buf\<close> of
  \<open>mgmt_event\<close>; what that array holds after the message is \<open>buf_junk\<close>, and a copy that
  reaches beyond the array is \<open>OutOfBounds\<close>.
\<close>

definition get_connections_complete ::
  "env \<Rightarrow> decls \<Rightarrow> 16 word \<Rightarrow> bytes \<Rightarrow> nat \<Rightarrow> mgmt \<Rightarrow> (mgmt \<times> effect list) result" where
  "get_connections_complete env d index buf len s =
     (if len < sizeof d Mgmt_rp_get_connections
      then Ok (s, [LogError ''Too small get_connections complete event''])
      else
        (let conn_count = unat (bt_get_le16 (fld d Mgmt_rp_get_connections ''conn_count'' buf)) in
         if len < sizeof d Mgmt_rp_get_connections + conn_count * sizeof d Bdaddr_t
         then Ok (s, [LogError ''Too small get_connections complete event''])
         else if uint index > max_index s
         then Ok (s, [LogError ''Unexpected index %u in get_connections complete''])
         else
           (let info = controllers s ! unat index;
                room = MGMT_BUF_SIZE - (MGMT_HDR_SIZE + sizeof_mgmt_ev_cmd_complete);
                array = take len buf @ map (buf_junk env) [0 ..< room - len];
                addrs = map (\<lambda>i. take (sizeof d Mgmt_addr_info)
                                 (drop (i * sizeof d Mgmt_addr_info)
                                    (fld d Mgmt_rp_get_connections ''addr'' array)))
                          [0 ..< conn_count]
            in if room < sizeof d Mgmt_rp_get_connections + conn_count * sizeof d Mgmt_addr_info
               then OutOfBounds
               else Ok (put_info (unat index) (info\<lparr>connections := connections info @ addrs\<rparr>) s,
                        []))))"

definition set_local_name_complete ::
  "env \<Rightarrow> decls \<Rightarrow> 16 word \<Rightarrow> bytes \<Rightarrow> nat \<Rightarrow> mgmt \<Rightarrow> (mgmt \<times> effect list) result" where
  "set_local_name_complete env d index buf len s =
     (if len < sizeof d Mgmt_cp_set_local_name
      then Ok (s, [LogError ''Too small set_local_name complete event''])
      else if uint index > max_index s
      then Ok (s, [LogError ''Unexpected index %u in set_local_name complete''])
      else
        (let info = controllers s ! unat index in
         case manager_find_adapter env (bdaddr info) of
           None \<Rightarrow> Ok (s, [Call ''manager_find_adapter'' [VBytes (bdaddr info)]])
         | Some adapter \<Rightarrow>
             Ok (s, [Call ''manager_find_adapter'' [VBytes (bdaddr info)],
                     Call ''adapter_name_changed''
                       [VAdapter adapter, VBytes (fld d Mgmt_cp_set_local_name ''name'' buf)]])))"

definition read_local_oob_data_complete ::
  "env \<Rightarrow> decls \<Rightarrow> 16 word \<Rightarrow> bytes \<Rightarrow> nat \<Rightarrow> mgmt \<Rightarrow> (mgmt \<times> effect list) result" where
  "read_local_oob_data_complete env d index buf len s =
     (if len \<noteq> sizeof d Mgmt_rp_read_local_oob_data
      then Ok (s, [LogError ''read_local_oob_data_complete event size mismatch (%zu != %zu)''])
      else if uint index > max_index s
      then Ok (s, [LogError ''Unexpected index %u in read_local_oob_data_complete''])
      else
        (case manager_find_adapter_by_id env (uint index) of
           None \<Rightarrow> Ok (s, [Call ''manager_find_adapter_by_id'' [VInt (uint index)]])
         | Some adapter \<Rightarrow>
             Ok (s, [Call ''manager_find_adapter_by_id'' [VInt (uint index)],
                     Call ''adapter_read_local_oob_data_complete''
                       [VAdapter adapter,
                        VBytes (fld d Mgmt_rp_read_local_oob_data ''hash'' buf),
                        VBytes (fld d Mgmt_rp_read_local_oob_data ''randomizer'' buf)]])))"

text \<open>\<open>type\<close> is a \<open>uint8_t *\<close>, so \<open>sizeof(*type)\<close> is 1.\<close>

definition start_discovery_complete ::
  "env \<Rightarrow> 16 word \<Rightarrow> 8 word \<Rightarrow> bytes \<Rightarrow> nat \<Rightarrow> mgmt \<Rightarrow> (mgmt \<times> effect list) result" where
  "start_discovery_complete env index status buf len s =
     (if len \<noteq> 1
      then Ok (s, [LogError ''start_discovery_complete event size mismatch (%zu != %zu)''])
      else if uint index > max_index s
      then Ok (s, [LogError ''Invalid index %u in start_discovery_complete''])
      else if status = 0 then Ok (s, [])
      else
        (case manager_find_adapter_by_id env (uint index) of
           None \<Rightarrow> Ok (s, [Call ''manager_find_adapter_by_id'' [VInt (uint index)]])
         | Some adapter \<Rightarrow>
             Ok (s, [Call ''manager_find_adapter_by_id'' [VInt (uint index)],
                     Call ''adapter_set_discovering'' [VAdapter adapter, VBool False]])))"

definition read_local_oob_data_failed ::
  "env \<Rightarrow> 16 word \<Rightarrow> mgmt \<Rightarrow> effect list" where
  "read_local_oob_data_failed env index s =
     (if uint index > max_index s
      then [LogError ''Unexpected index %u in read_local_oob_data_failed'']
      else
        (case manager_find_adapter_by_id env (uint index) of
           None \<Rightarrow> [Call ''manager_find_adapter_by_id'' [VInt (uint index)]]
         | Some adapter \<Rightarrow>
             [Call ''manager_find_adapter_by_id'' [VInt (uint index)],
              Call ''adapter_read_local_oob_data_complete'' [VAdapter adapter, VNull, VNull]]))"

subsection \<open>Lines 1443 to 1530: the queue of pending UUIDs\<close>

text \<open>
  \<open>handle_pending_uuids\<close> reads \<open>controllers[index]\<close> without a test of \<open>index\<close>.
  When the queue is empty it sends the pending class, then the pending power-on, each
  through the public function. Otherwise it sends the head of the queue through
  \<open>mgmt_add_uuid\<close> or \<open>mgmt_remove_uuid\<close> and then unlinks it: \<open>g_slist_remove\<close> drops the
  first node that holds \<open>pending\<close>, which is the head.
\<close>

definition send_pending_class ::
  "env \<Rightarrow> 16 word \<Rightarrow> mgmt \<Rightarrow> (mgmt \<times> effect list) result" where
  "send_pending_class env index s =
     (let info = controllers s ! unat index in
      if pending_class info
      then (case mgmt_set_dev_class env (uint index) (major info) (minor info)
                   (put_info (unat index) (info\<lparr>pending_class := False\<rparr>) s) of
              Ok (r, s1, tr) \<Rightarrow> Ok (s1, tr)
            | Abort \<Rightarrow> Abort
            | OutOfBounds \<Rightarrow> OutOfBounds)
      else Ok (s, []))"

definition send_pending_powered ::
  "env \<Rightarrow> 16 word \<Rightarrow> mgmt \<Rightarrow> (mgmt \<times> effect list) result" where
  "send_pending_powered env index s =
     (let info = controllers s ! unat index in
      if pending_powered info
      then (case mgmt_set_powered env (uint index) True
                   (put_info (unat index) (info\<lparr>pending_powered := False\<rparr>) s) of
              Ok (r, s1, tr) \<Rightarrow> Ok (s1, tr)
            | Abort \<Rightarrow> Abort
            | OutOfBounds \<Rightarrow> OutOfBounds)
      else Ok (s, []))"

definition handle_pending_uuids ::
  "env \<Rightarrow> decls \<Rightarrow> 16 word \<Rightarrow> mgmt \<Rightarrow> (mgmt \<times> effect list) result" where
  "handle_pending_uuids env d index s =
     (if uint index > max_index s then OutOfBounds
      else
        (let info = (controllers s ! unat index)\<lparr>pending_uuid := False\<rparr>;
             s1 = put_info (unat index) info s
         in case pending_uuids info of
              [] \<Rightarrow>
                (case send_pending_class env index s1 of
                   Ok (s2, tr_class) \<Rightarrow>
                     (case send_pending_powered env index s2 of
                        Ok (s3, tr_power) \<Rightarrow> Ok (s3, tr_class @ tr_power)
                      | Abort \<Rightarrow> Abort
                      | OutOfBounds \<Rightarrow> OutOfBounds)
                 | Abort \<Rightarrow> Abort
                 | OutOfBounds \<Rightarrow> OutOfBounds)
            | pending # rest \<Rightarrow>
                (case (if add pending
                       then mgmt_add_uuid env d (uint index) (uuid pending) (svc_hint pending) s1
                       else mgmt_remove_uuid env d (uint index) (uuid pending) s1) of
                   Ok (r, s2, tr) \<Rightarrow>
                     (let info2 = controllers s2 ! unat index in
                      Ok (put_info (unat index)
                            (info2\<lparr>pending_uuids := remove1 pending (pending_uuids info2)\<rparr>) s2,
                          tr))
                 | Abort \<Rightarrow> Abort
                 | OutOfBounds \<Rightarrow> OutOfBounds)))"

text \<open>
  \<open>mgmt_update_cod\<close> tests the length first and reads \<open>controllers[index]\<close> next, without
  a test of \<open>index\<close>.
\<close>

definition mgmt_update_cod ::
  "env \<Rightarrow> decls \<Rightarrow> 16 word \<Rightarrow> bytes \<Rightarrow> nat \<Rightarrow> mgmt \<Rightarrow> (mgmt \<times> effect list) result" where
  "mgmt_update_cod env d index buf len s =
     (if len < sizeof d Mgmt_cod then Ok (s, [LogError ''Too small class of device reply''])
      else if uint index > max_index s then OutOfBounds
      else
        (let info = controllers s ! unat index in
         case manager_find_adapter env (bdaddr info) of
           None \<Rightarrow> Ok (s, [Call ''manager_find_adapter'' [VBytes (bdaddr info)]])
         | Some adapter \<Rightarrow>
             Ok (s, [Call ''manager_find_adapter'' [VBytes (bdaddr info)],
                     Call ''btd_adapter_class_changed''
                       [VAdapter adapter, VBytes (fld d Mgmt_cod ''val'' buf)]])))"

text \<open>Two handlers run one after the other; the effects of the first come first.\<close>

definition and_then ::
  "(mgmt \<times> effect list) result \<Rightarrow> (mgmt \<Rightarrow> (mgmt \<times> effect list) result)
     \<Rightarrow> (mgmt \<times> effect list) result" where
  "and_then r f =
     (case r of
        Ok (s1, tr1) \<Rightarrow>
          (case f s1 of
             Ok (s2, tr2) \<Rightarrow> Ok (s2, tr1 @ tr2)
           | Abort \<Rightarrow> Abort
           | OutOfBounds \<Rightarrow> OutOfBounds)
      | Abort \<Rightarrow> Abort
      | OutOfBounds \<Rightarrow> OutOfBounds)"

definition mgmt_add_uuid_complete ::
  "env \<Rightarrow> decls \<Rightarrow> 16 word \<Rightarrow> bytes \<Rightarrow> nat \<Rightarrow> mgmt \<Rightarrow> (mgmt \<times> effect list) result" where
  "mgmt_add_uuid_complete env d index buf len s =
     (if uint index > max_index s
      then Ok (s, [LogError ''Unexpected index %u in add_uuid_complete event''])
      else and_then (mgmt_update_cod env d index buf len s) (handle_pending_uuids env d index))"

definition mgmt_remove_uuid_complete ::
  "env \<Rightarrow> decls \<Rightarrow> 16 word \<Rightarrow> bytes \<Rightarrow> nat \<Rightarrow> mgmt \<Rightarrow> (mgmt \<times> effect list) result" where
  "mgmt_remove_uuid_complete env d index buf len s =
     (if uint index > max_index s
      then Ok (s, [LogError ''Unexpected index %u in remove_uuid_complete event''])
      else and_then (mgmt_update_cod env d index buf len s) (handle_pending_uuids env d index))"

subsection \<open>Lines 1532 to 1700: command complete, command status\<close>

text \<open>
  \<open>ev->opcode\<close> is at offset 0, \<open>ev->status\<close> at offset 2 and \<open>ev->data\<close> at offset 3. The
  case \<open>MGMT_OP_SET_DEV_CLASS\<close> hands \<open>buf\<close> itself, not \<open>ev->data\<close>, to \<open>mgmt_update_cod\<close>.
  The opcodes the \<open>switch\<close> does not list reach \<open>default\<close>.
\<close>

definition mgmt_cmd_complete ::
  "env \<Rightarrow> decls \<Rightarrow> 16 word \<Rightarrow> bytes \<Rightarrow> nat \<Rightarrow> mgmt \<Rightarrow> (mgmt \<times> effect list) result" where
  "mgmt_cmd_complete env d index buf len0 s =
     (if len0 < sizeof_mgmt_ev_cmd_complete
      then Ok (s, [LogError ''Too small management command complete event packet''])
      else
        (let opcode = bt_get_le16 buf;
             status = byte_at buf 2;
             data = drop sizeof_mgmt_ev_cmd_complete buf;
             len = len0 - sizeof_mgmt_ev_cmd_complete
         in case command_code d opcode of
              None \<Rightarrow> Ok (s, [LogError ''Unknown command complete for opcode %u''])
            | Some op \<Rightarrow>
                (case op of
                   MGMT_OP_READ_VERSION \<Rightarrow> read_version_complete env d data len s
                 | MGMT_OP_READ_INDEX_LIST \<Rightarrow> read_index_list_complete env d data len s
                 | MGMT_OP_READ_INFO \<Rightarrow> read_info_complete env d index data len s
                 | MGMT_OP_SET_POWERED \<Rightarrow> mgmt_new_settings env d index data len s
                 | MGMT_OP_SET_DISCOVERABLE \<Rightarrow> mgmt_new_settings env d index data len s
                 | MGMT_OP_SET_CONNECTABLE \<Rightarrow> mgmt_new_settings env d index data len s
                 | MGMT_OP_SET_PAIRABLE \<Rightarrow> mgmt_new_settings env d index data len s
                 | MGMT_OP_SET_SSP \<Rightarrow> mgmt_new_settings env d index data len s
                 | MGMT_OP_SET_LE \<Rightarrow> mgmt_new_settings env d index data len s
                 | MGMT_OP_ADD_UUID \<Rightarrow> mgmt_add_uuid_complete env d index data len s
                 | MGMT_OP_REMOVE_UUID \<Rightarrow> mgmt_remove_uuid_complete env d index data len s
                 | MGMT_OP_SET_DEV_CLASS \<Rightarrow> mgmt_update_cod env d index buf len s
                 | MGMT_OP_LOAD_LINK_KEYS \<Rightarrow> Ok (s, [])
                 | MGMT_OP_CANCEL_PAIR_DEVICE \<Rightarrow> Ok (s, [])
                 | MGMT_OP_UNPAIR_DEVICE \<Rightarrow> Ok (s, [])
                 | MGMT_OP_DISCONNECT \<Rightarrow> disconnect_complete env d index status data len s
                 | MGMT_OP_GET_CONNECTIONS \<Rightarrow> get_connections_complete env d index data len s
                 | MGMT_OP_PIN_CODE_REPLY \<Rightarrow> Ok (s, [])
                 | MGMT_OP_PIN_CODE_NEG_REPLY \<Rightarrow> Ok (s, [])
                 | MGMT_OP_SET_IO_CAPABILITY \<Rightarrow> Ok (s, [])
                 | MGMT_OP_PAIR_DEVICE \<Rightarrow> pair_device_complete env d index status data len s
                 | MGMT_OP_USER_CONFIRM_REPLY \<Rightarrow> Ok (s, [])
                 | MGMT_OP_USER_CONFIRM_NEG_REPLY \<Rightarrow> Ok (s, [])
                 | MGMT_OP_SET_LOCAL_NAME \<Rightarrow> set_local_name_complete env d index data len s
                 | MGMT_OP_READ_LOCAL_OOB_DATA \<Rightarrow>
                     read_local_oob_data_complete env d index data len s
                 | MGMT_OP_ADD_REMOTE_OOB_DATA \<Rightarrow> Ok (s, [])
                 | MGMT_OP_REMOVE_REMOTE_OOB_DATA \<Rightarrow> Ok (s, [])
                 | MGMT_OP_BLOCK_DEVICE \<Rightarrow> Ok (s, [])
                 | MGMT_OP_UNBLOCK_DEVICE \<Rightarrow> Ok (s, [])
                 | MGMT_OP_SET_FAST_CONNECTABLE \<Rightarrow> Ok (s, [])
                 | MGMT_OP_START_DISCOVERY \<Rightarrow> start_discovery_complete env index status data len s
                 | MGMT_OP_STOP_DISCOVERY \<Rightarrow> Ok (s, [])
                 | MGMT_OP_SET_DEVICE_ID \<Rightarrow> Ok (s, [])
                 | MGMT_OP_LOAD_LONG_TERM_KEYS \<Rightarrow>
                     Ok (s, [LogError ''Unknown command complete for opcode %u''])
                 | MGMT_OP_USER_PASSKEY_REPLY \<Rightarrow>
                     Ok (s, [LogError ''Unknown command complete for opcode %u''])
                 | MGMT_OP_USER_PASSKEY_NEG_REPLY \<Rightarrow>
                     Ok (s, [LogError ''Unknown command complete for opcode %u''])
                 | MGMT_OP_CONFIRM_NAME \<Rightarrow>
                     Ok (s, [LogError ''Unknown command complete for opcode %u'']))))"

text \<open>\<open>mgmt_add_uuid_busy\<close> writes \<open>controllers[index]\<close> without a test of \<open>index\<close>.\<close>

definition mgmt_add_uuid_busy :: "16 word \<Rightarrow> mgmt \<Rightarrow> (mgmt \<times> effect list) result" where
  "mgmt_add_uuid_busy index s =
     (if uint index > max_index s then OutOfBounds
      else Ok (put_info (unat index)
                 ((controllers s ! unat index)\<lparr>pending_cod_change := True\<rparr>) s, []))"

definition mgmt_cmd_status ::
  "env \<Rightarrow> decls \<Rightarrow> 16 word \<Rightarrow> bytes \<Rightarrow> nat \<Rightarrow> mgmt \<Rightarrow> (mgmt \<times> effect list) result" where
  "mgmt_cmd_status env d index buf len s =
     (if len < sizeof_mgmt_ev_cmd_status
      then Ok (s, [LogError ''Too small management command status event packet''])
      else
        (let opcode = bt_get_le16 buf;
             status = byte_at buf 2
         in if status = 0 then Ok (s, [])
            else if command_code d opcode = Some MGMT_OP_READ_LOCAL_OOB_DATA
            then Ok (s, read_local_oob_data_failed env index s @
                        [LogError ''hci%u: %s (0x%04x) failed: %s (0x%02x)''])
            else if command_code d opcode = Some MGMT_OP_ADD_UUID \<and> status = MGMT_STATUS_BUSY d
            then mgmt_add_uuid_busy index s
            else Ok (s, [LogError ''hci%u: %s (0x%04x) failed: %s (0x%02x)''])))"

subsection \<open>Lines 1702 to 2062: the other events\<close>

definition mgmt_controller_error ::
  "decls \<Rightarrow> 16 word \<Rightarrow> bytes \<Rightarrow> nat \<Rightarrow> mgmt \<Rightarrow> (mgmt \<times> effect list) result" where
  "mgmt_controller_error d index buf len s =
     (if len < sizeof d Mgmt_ev_controller_error
      then Ok (s, [LogError ''Too small management controller error event packet''])
      else Ok (s, []))"

definition mgmt_auth_failed ::
  "env \<Rightarrow> decls \<Rightarrow> 16 word \<Rightarrow> bytes \<Rightarrow> nat \<Rightarrow> mgmt \<Rightarrow> (mgmt \<times> effect list) result" where
  "mgmt_auth_failed env d index buf len s =
     (if len < sizeof d Mgmt_ev_auth_failed
      then Ok (s, [LogError ''Too small mgmt_auth_failed event packet''])
      else if uint index > max_index s
      then Ok (s, [LogError ''Unexpected index %u in auth_failed event''])
      else Ok (s, bonding_complete env (controllers s ! unat index)
                    (fld d Mgmt_ev_auth_failed ''addr'' buf)
                    (get_u8 (fld d Mgmt_ev_auth_failed ''status'' buf))))"

definition mgmt_local_name_changed ::
  "env \<Rightarrow> decls \<Rightarrow> 16 word \<Rightarrow> bytes \<Rightarrow> nat \<Rightarrow> mgmt \<Rightarrow> (mgmt \<times> effect list) result" where
  "mgmt_local_name_changed env d index buf len s =
     (if len < sizeof d Mgmt_cp_set_local_name
      then Ok (s, [LogError ''Too small mgmt_local_name_changed event packet''])
      else if uint index > max_index s
      then Ok (s, [LogError ''Unexpected index %u in name_changed event''])
      else
        (let info = controllers s ! unat index in
         case manager_find_adapter env (bdaddr info) of
           None \<Rightarrow> Ok (s, [Call ''manager_find_adapter'' [VBytes (bdaddr info)]])
         | Some adapter \<Rightarrow>
             Ok (s, [Call ''manager_find_adapter'' [VBytes (bdaddr info)],
                     Call ''adapter_name_changed''
                       [VAdapter adapter, VBytes (fld d Mgmt_cp_set_local_name ''name'' buf)]])))"

definition mgmt_device_found ::
  "env \<Rightarrow> decls \<Rightarrow> 16 word \<Rightarrow> bytes \<Rightarrow> nat \<Rightarrow> mgmt \<Rightarrow> (mgmt \<times> effect list) result" where
  "mgmt_device_found env d index buf len s =
     (if len < sizeof d Mgmt_ev_device_found
      then Ok (s, [LogError ''mgmt_device_found too short (%zu bytes)''])
      else
        (let eir_len = bt_get_le16 (fld d Mgmt_ev_device_found ''eir_len'' buf) in
         if len \<noteq> sizeof d Mgmt_ev_device_found + unat eir_len
         then Ok (s, [LogError ''mgmt_device_found event size mismatch (%zu != %zu)''])
         else if uint index > max_index s
         then Ok (s, [LogError ''Unexpected index %u in device_found event''])
         else
           (let info = controllers s ! unat index in
            case manager_find_adapter env (bdaddr info) of
              None \<Rightarrow> Ok (s, [Call ''manager_find_adapter'' [VBytes (bdaddr info)]])
            | Some adapter \<Rightarrow>
                (let eir = (if eir_len = 0 then VNull
                            else VBytes (take (unat eir_len)
                                           (drop (sizeof d Mgmt_ev_device_found) buf)));
                     flags = bt_get_le32 (fld d Mgmt_ev_device_found ''flags'' buf);
                     confirm_name = (flags AND MGMT_DEV_FOUND_CONFIRM_NAME d \<noteq> 0);
                     legacy = (flags AND MGMT_DEV_FOUND_LEGACY_PAIRING d \<noteq> 0)
                 in Ok (s, [Call ''manager_find_adapter'' [VBytes (bdaddr info)],
                            Call ''adapter_update_found_devices''
                              [VAdapter adapter,
                               VBytes (fld d Mgmt_ev_device_found ''addr'' buf),
                               VByte (get_u8 (fld d Mgmt_ev_device_found ''rssi'' buf)),
                               VBool confirm_name, VBool legacy, eir,
                               VInt (uint eir_len)]])))))"

definition mgmt_discovering ::
  "env \<Rightarrow> decls \<Rightarrow> 16 word \<Rightarrow> bytes \<Rightarrow> nat \<Rightarrow> mgmt \<Rightarrow> (mgmt \<times> effect list) result" where
  "mgmt_discovering env d index buf len s =
     (if len < sizeof d Mgmt_ev_discovering
      then Ok (s, [LogError ''Too small discovering event''])
      else if uint index > max_index s
      then Ok (s, [LogError ''Unexpected index %u in discovering event''])
      else
        (let info = controllers s ! unat index in
         case manager_find_adapter env (bdaddr info) of
           None \<Rightarrow> Ok (s, [Call ''manager_find_adapter'' [VBytes (bdaddr info)]])
         | Some adapter \<Rightarrow>
             Ok (s, [Call ''manager_find_adapter'' [VBytes (bdaddr info)],
                     Call ''adapter_set_discovering''
                       [VAdapter adapter,
                        VByte (get_u8 (fld d Mgmt_ev_discovering ''discovering'' buf))]])))"

definition mgmt_device_blocked ::
  "env \<Rightarrow> decls \<Rightarrow> 16 word \<Rightarrow> bytes \<Rightarrow> nat \<Rightarrow> mgmt \<Rightarrow> (mgmt \<times> effect list) result" where
  "mgmt_device_blocked env d index buf len s =
     (if len < sizeof d Mgmt_ev_device_blocked
      then Ok (s, [LogError ''Too small mgmt_device_blocked event packet''])
      else if uint index > max_index s
      then Ok (s, [LogError ''Unexpected index %u in device_blocked event''])
      else
        (let info = controllers s ! unat index in
         case get_adapter_and_device env (bdaddr info)
                (fld d Mgmt_ev_device_blocked ''addr'' buf) False of
           (None, tr) \<Rightarrow> Ok (s, tr)
         | (Some (adapter, device), tr) \<Rightarrow>
             Ok (s, tr @ (if device \<noteq> None
                          then [Call ''device_block'' [VDevice device, VBool True]]
                          else []))))"

definition mgmt_device_unblocked ::
  "env \<Rightarrow> decls \<Rightarrow> 16 word \<Rightarrow> bytes \<Rightarrow> nat \<Rightarrow> mgmt \<Rightarrow> (mgmt \<times> effect list) result" where
  "mgmt_device_unblocked env d index buf len s =
     (if len < sizeof d Mgmt_ev_device_unblocked
      then Ok (s, [LogError ''Too small mgmt_device_unblocked event packet''])
      else if uint index > max_index s
      then Ok (s, [LogError ''Unexpected index %u in device_unblocked event''])
      else
        (let info = controllers s ! unat index in
         case get_adapter_and_device env (bdaddr info)
                (fld d Mgmt_ev_device_unblocked ''addr'' buf) False of
           (None, tr) \<Rightarrow> Ok (s, tr)
         | (Some (adapter, device), tr) \<Rightarrow>
             Ok (s, tr @ (if device \<noteq> None
                          then [Call ''device_unblock'' [VDevice device, VBool False, VBool True]]
                          else []))))"

definition mgmt_device_unpaired ::
  "env \<Rightarrow> decls \<Rightarrow> 16 word \<Rightarrow> bytes \<Rightarrow> nat \<Rightarrow> mgmt \<Rightarrow> (mgmt \<times> effect list) result" where
  "mgmt_device_unpaired env d index buf len s =
     (if len < sizeof d Mgmt_ev_device_unpaired
      then Ok (s, [LogError ''Too small mgmt_device_unpaired event packet''])
      else if uint index > max_index s
      then Ok (s, [LogError ''Unexpected index %u in device_unpaired event''])
      else
        (let info = controllers s ! unat index in
         case get_adapter_and_device env (bdaddr info)
                (fld d Mgmt_ev_device_unpaired ''addr'' buf) False of
           (None, tr) \<Rightarrow> Ok (s, tr)
         | (Some (adapter, device), tr) \<Rightarrow>
             if device = None then Ok (s, tr)
             else Ok (s, tr @
                    [Call ''device_set_temporary'' [VDevice device, VBool True],
                     Call ''device_is_connected'' [VDevice device]] @
                    (if device_is_connected env device
                     then [Call ''device_request_disconnect'' [VDevice device, VNull]]
                     else [Call ''adapter_remove_device''
                             [VAdapter adapter, VDevice device, VBool True]]))))"

text \<open>\<open>store_longtermkey\<close> rewrites the group \<open>LongTermKey\<close> of the device's info file.\<close>

definition store_longtermkey :: "bdaddr_t \<Rightarrow> bytes \<Rightarrow> effect list" where
  "store_longtermkey local key =
     [Call ''g_file_set_contents'' [VStr ''LongTermKey'', VBytes local, VBytes key]]"

definition mgmt_new_ltk ::
  "env \<Rightarrow> decls \<Rightarrow> 16 word \<Rightarrow> bytes \<Rightarrow> nat \<Rightarrow> mgmt \<Rightarrow> (mgmt \<times> effect list) result" where
  "mgmt_new_ltk env d index buf len s =
     (if len \<noteq> sizeof d Mgmt_ev_new_long_term_key
      then Ok (s, [LogError ''mgmt_new_ltk event size mismatch (%zu != %zu)''])
      else if uint index > max_index s
      then Ok (s, [LogError ''Unexpected index %u in new_key event''])
      else
        (let info = controllers s ! unat index;
             addr = fld d Mgmt_ev_new_long_term_key ''key.addr'' buf
         in case get_adapter_and_device env (bdaddr info) addr True of
              (None, tr) \<Rightarrow> Ok (s, tr)
            | (Some (adapter, device), tr) \<Rightarrow>
                Ok (s, tr @
                  (if get_u8 (fld d Mgmt_ev_new_long_term_key ''store_hint'' buf) \<noteq> 0
                   then store_longtermkey (bdaddr info)
                          (fld d Mgmt_ev_new_long_term_key ''key'' buf) @
                        [Call ''device_set_bonded'' [VDevice device, VBool True],
                         Call ''device_is_temporary'' [VDevice device]] @
                        (if device_is_temporary env device
                         then [Call ''device_set_temporary'' [VDevice device, VBool False]]
                         else [])
                   else []) @
                  (if get_u8 (fld d Mgmt_ev_new_long_term_key ''key.master'' buf) \<noteq> 0
                   then bonding_complete env info addr 0 else []))))"

definition mgmt_cod_changed ::
  "env \<Rightarrow> decls \<Rightarrow> 16 word \<Rightarrow> bytes \<Rightarrow> nat \<Rightarrow> mgmt \<Rightarrow> (mgmt \<times> effect list) result" where
  "mgmt_cod_changed env d index buf len s =
     (if uint index > max_index s
      then Ok (s, [LogError ''Unexpected index %u in mgmt_cod_changed event''])
      else
        (let info = controllers s ! unat index in
         and_then
           (if pending_cod_change info
            then handle_pending_uuids env d index
                   (put_info (unat index) (info\<lparr>pending_cod_change := False\<rparr>) s)
            else Ok (s, []))
           (mgmt_update_cod env d index buf len)))"

subsection \<open>Lines 2064 to 2183: the event loop\<close>

datatype gio_condition = G_IO_IN | G_IO_ERR | G_IO_HUP | G_IO_NVAL

text \<open>What \<open>read\<close> returns: an error, or the bytes of a message.\<close>

datatype read_result = ReadError int | ReadData bytes

text \<open>The \<open>switch\<close> of \<open>mgmt_event\<close> over the event code, with the handler of each case.\<close>

definition dispatch_event ::
  "env \<Rightarrow> decls \<Rightarrow> 16 word \<Rightarrow> 16 word \<Rightarrow> bytes \<Rightarrow> nat \<Rightarrow> mgmt \<Rightarrow> (mgmt \<times> effect list) result" where
  "dispatch_event env d opcode index pl len s =
     (case event_code d opcode of
        None \<Rightarrow> Ok (s, [LogError ''Unknown Management opcode %u (index %u)''])
      | Some ev \<Rightarrow>
          (case ev of
             MGMT_EV_CMD_COMPLETE \<Rightarrow> mgmt_cmd_complete env d index pl len s
           | MGMT_EV_CMD_STATUS \<Rightarrow> mgmt_cmd_status env d index pl len s
           | MGMT_EV_CONTROLLER_ERROR \<Rightarrow> mgmt_controller_error d index pl len s
           | MGMT_EV_INDEX_ADDED \<Rightarrow> Ok (mgmt_index_added env index s)
           | MGMT_EV_INDEX_REMOVED \<Rightarrow> Ok (mgmt_index_removed index s)
           | MGMT_EV_NEW_SETTINGS \<Rightarrow> mgmt_new_settings env d index pl len s
           | MGMT_EV_CLASS_OF_DEV_CHANGED \<Rightarrow> mgmt_cod_changed env d index pl len s
           | MGMT_EV_NEW_LINK_KEY \<Rightarrow> mgmt_new_link_key env d index pl len s
           | MGMT_EV_DEVICE_CONNECTED \<Rightarrow> mgmt_device_connected env d index pl len s
           | MGMT_EV_DEVICE_DISCONNECTED \<Rightarrow> mgmt_device_disconnected env d index pl len s
           | MGMT_EV_CONNECT_FAILED \<Rightarrow> mgmt_connect_failed env d index pl len s
           | MGMT_EV_PIN_CODE_REQUEST \<Rightarrow> mgmt_pin_code_request env d index pl len s
           | MGMT_EV_USER_CONFIRM_REQUEST \<Rightarrow> mgmt_user_confirm_request env d index pl len s
           | MGMT_EV_AUTH_FAILED \<Rightarrow> mgmt_auth_failed env d index pl len s
           | MGMT_EV_LOCAL_NAME_CHANGED \<Rightarrow> mgmt_local_name_changed env d index pl len s
           | MGMT_EV_DEVICE_FOUND \<Rightarrow> mgmt_device_found env d index pl len s
           | MGMT_EV_DISCOVERING \<Rightarrow> mgmt_discovering env d index pl len s
           | MGMT_EV_DEVICE_BLOCKED \<Rightarrow> mgmt_device_blocked env d index pl len s
           | MGMT_EV_DEVICE_UNBLOCKED \<Rightarrow> mgmt_device_unblocked env d index pl len s
           | MGMT_EV_DEVICE_UNPAIRED \<Rightarrow> mgmt_device_unpaired env d index pl len s
           | MGMT_EV_USER_PASSKEY_REQUEST \<Rightarrow> mgmt_passkey_request env d index pl len s
           | MGMT_EV_PASSKEY_NOTIFY \<Rightarrow> mgmt_passkey_notify env d index pl len s
           | MGMT_EV_NEW_LONG_TERM_KEY \<Rightarrow> mgmt_new_ltk env d index pl len s))"

text \<open>
  \<open>mgmt_event\<close> returns \<open>FALSE\<close> (the watch is dropped) or \<open>TRUE\<close>. \<open>read\<close> fills at most
  \<open>MGMT_BUF_SIZE\<close> bytes of \<open>buf\<close>; \<open>ret\<close> is their number. The opcode, the index and the
  length are at offsets 0, 2 and 4 of the header.
\<close>

definition mgmt_event ::
  "env \<Rightarrow> decls \<Rightarrow> gio_condition set \<Rightarrow> read_result \<Rightarrow> mgmt
     \<Rightarrow> (bool \<times> mgmt \<times> effect list) result" where
  "mgmt_event env d cond rd s =
     (if G_IO_NVAL \<in> cond then Ok (False, s, [])
      else if G_IO_ERR \<in> cond \<or> G_IO_HUP \<in> cond
      then Ok (False, s, [LogError ''Error on management socket''])
      else
        (case rd of
           ReadError e \<Rightarrow>
             Ok (True, s, [LogError ''Unable to read from management socket: %s (%d)''])
         | ReadData msg \<Rightarrow>
             (let buf = take MGMT_BUF_SIZE msg;
                  ret = length buf
              in if ret < MGMT_HDR_SIZE
                 then Ok (True, s, [LogError ''Too small Management packet''])
                 else
                   (let opcode = bt_get_le16 buf;
                        len = bt_get_le16 (drop 4 buf);
                        index = bt_get_le16 (drop 2 buf)
                    in if ret \<noteq> MGMT_HDR_SIZE + unat len
                       then Ok (True, s, [LogError ''Packet length mismatch. ret %zd len %u''])
                       else
                         (case dispatch_event env d opcode index (drop MGMT_HDR_SIZE buf)
                                 (unat len) s of
                            Ok (s1, tr) \<Rightarrow> Ok (True, s1, tr)
                          | Abort \<Rightarrow> Abort
                          | OutOfBounds \<Rightarrow> OutOfBounds)))))"

subsection \<open>Lines 2185 to 2804: set-up and the remaining commands\<close>

text \<open>\<open>mgmt_setup\<close> opens the socket and asks for the version; it leaves the table alone.\<close>

definition mgmt_setup :: "env \<Rightarrow> int \<times> effect list" where
  "mgmt_setup env =
     (if socket_errno env \<noteq> 0 then (- socket_errno env, [])
      else if bind_errno env \<noteq> 0 then (- bind_errno env, [])
      else
        (let cmd = Command MGMT_OP_READ_VERSION MGMT_INDEX_NONE [] in
         if write_errno env cmd \<noteq> 0
         then (- write_errno env cmd, [WriteFailed cmd (write_errno env cmd)])
         else (0, [Write cmd, LogInfo ''Bluetooth Management interface initialized''])))"

definition mgmt_cleanup :: "mgmt \<Rightarrow> mgmt" where
  "mgmt_cleanup s = s\<lparr>controllers := []\<rparr>"

text \<open>\<open>hci_set_bit(nr, &info->discov_type)\<close> sets bit \<open>nr\<close> of the byte.\<close>

definition hci_set_bit :: "8 word \<Rightarrow> 8 word \<Rightarrow> 8 word" where
  "hci_set_bit nr v = v OR push_bit (unat nr) 1"

definition mgmt_start_discovery ::
  "env \<Rightarrow> decls \<Rightarrow> int \<Rightarrow> mgmt \<Rightarrow> (int \<times> mgmt \<times> effect list) result" where
  "mgmt_start_discovery env d index s =
     (if index < 0 \<or> index > max_index s then OutOfBounds
      else
        (let info = controllers s ! nat index;
             t0 = (if mgmt_bredr d (current_settings info) then hci_set_bit (BDADDR_BREDR d) 0
                   else 0);
             t = (if mgmt_low_energy d (current_settings info)
                  then hci_set_bit (BDADDR_LE_RANDOM d) (hci_set_bit (BDADDR_LE_PUBLIC d) t0)
                  else t0);
             s1 = put_info (nat index) (info\<lparr>discov_type := t\<rparr>) s;
             cmd = Command MGMT_OP_START_DISCOVERY (word_of_int index) [VByte t]
         in if write_errno env cmd \<noteq> 0
            then Ok (- write_errno env cmd, s1,
                     [WriteFailed cmd (write_errno env cmd),
                      LogError ''failed to write to MGMT socket: %s''])
            else Ok (0, s1, [Write cmd])))"

definition mgmt_start_le_scanning ::
  "env \<Rightarrow> decls \<Rightarrow> int \<Rightarrow> mgmt \<Rightarrow> (int \<times> mgmt \<times> effect list) result" where
  "mgmt_start_le_scanning env d index s =
     (if index < 0 \<or> index > max_index s then OutOfBounds
      else
        (let info = controllers s ! nat index in
         if \<not> mgmt_low_energy d (current_settings info)
         then Ok (- ENOTSUP, s, [LogError ''scanning failed: Low Energy not enabled/supported''])
         else
           (let t = hci_set_bit (BDADDR_LE_RANDOM d) (hci_set_bit (BDADDR_LE_PUBLIC d) 0);
                s1 = put_info (nat index) (info\<lparr>discov_type := t\<rparr>) s;
                cmd = Command MGMT_OP_START_DISCOVERY (word_of_int index) [VByte t]
            in if write_errno env cmd \<noteq> 0
               then Ok (- write_errno env cmd, s1,
                        [WriteFailed cmd (write_errno env cmd),
                         LogError ''failed to write to MGMT socket: %s''])
               else Ok (0, s1, [Write cmd]))))"

definition mgmt_stop_discovery ::
  "env \<Rightarrow> int \<Rightarrow> mgmt \<Rightarrow> (int \<times> mgmt \<times> effect list) result" where
  "mgmt_stop_discovery env index s =
     (if index < 0 \<or> index > max_index s then OutOfBounds
      else
        (case mgmt_write env (Command MGMT_OP_STOP_DISCOVERY (word_of_int index)
                 [VByte (discov_type (controllers s ! nat index))]) of
           (r, tr) \<Rightarrow> Ok (r, s, tr)))"

definition mgmt_set_fast_connectable :: "env \<Rightarrow> int \<Rightarrow> bool \<Rightarrow> int \<times> effect list" where
  "mgmt_set_fast_connectable env index enable =
     mgmt_write env (Command MGMT_OP_SET_FAST_CONNECTABLE (word_of_int index)
       [VByte (of_bool enable)])"

definition mgmt_read_clock :: "int \<Rightarrow> int" where
  "mgmt_read_clock index = - ENOSYS"

definition mgmt_read_bdaddr :: "int \<Rightarrow> mgmt \<Rightarrow> (int \<times> bdaddr_t option) result" where
  "mgmt_read_bdaddr index s =
     (if index < 0 \<or> index > max_index s then OutOfBounds
      else
        (let info = controllers s ! nat index in
         if \<not> valid info then Ok (- ENODEV, None) else Ok (0, Some (bdaddr info))))"

definition mgmt_block_device :: "env \<Rightarrow> int \<Rightarrow> bdaddr_t \<Rightarrow> 8 word \<Rightarrow> int \<times> effect list" where
  "mgmt_block_device env index bd bdaddr_type =
     mgmt_write env (Command MGMT_OP_BLOCK_DEVICE (word_of_int index)
       [VBytes bd, VByte bdaddr_type])"

definition mgmt_unblock_device :: "env \<Rightarrow> int \<Rightarrow> bdaddr_t \<Rightarrow> 8 word \<Rightarrow> int \<times> effect list" where
  "mgmt_unblock_device env index bd bdaddr_type =
     mgmt_write env (Command MGMT_OP_UNBLOCK_DEVICE (word_of_int index)
       [VBytes bd, VByte bdaddr_type])"

definition mgmt_get_conn_list :: "int \<Rightarrow> mgmt \<Rightarrow> (int \<times> bytes list \<times> mgmt) result" where
  "mgmt_get_conn_list index s =
     (if index < 0 \<or> index > max_index s then OutOfBounds
      else
        (let info = controllers s ! nat index in
         Ok (0, connections info, put_info (nat index) (info\<lparr>connections := []\<rparr>) s)))"

definition mgmt_disconnect :: "env \<Rightarrow> int \<Rightarrow> bdaddr_t \<Rightarrow> 8 word \<Rightarrow> int \<times> effect list" where
  "mgmt_disconnect env index bd bdaddr_type =
     (0, write_or_log env (Command MGMT_OP_DISCONNECT (word_of_int index)
           [VBytes bd, VByte bdaddr_type]) ''write: %s (%d)'')"

definition mgmt_unpair_device :: "env \<Rightarrow> int \<Rightarrow> bdaddr_t \<Rightarrow> 8 word \<Rightarrow> int \<times> effect list" where
  "mgmt_unpair_device env index bd bdaddr_type =
     mgmt_write env (Command MGMT_OP_UNPAIR_DEVICE (word_of_int index)
       [VBytes bd, VByte bdaddr_type, VByte 1])"

definition mgmt_set_did ::
  "env \<Rightarrow> int \<Rightarrow> 16 word \<Rightarrow> 16 word \<Rightarrow> 16 word \<Rightarrow> 16 word \<Rightarrow> int \<times> effect list" where
  "mgmt_set_did env index vendor product version source =
     mgmt_write env (Command MGMT_OP_SET_DEVICE_ID (word_of_int index)
       [VInt (uint source), VInt (uint vendor), VInt (uint product), VInt (uint version)])"

text \<open>\<open>struct link_key_info\<close> and \<open>struct smp_ltk_info\<close>, as far as the file reads them.\<close>

record link_key_info =
  lk_bdaddr :: bdaddr_t
  lk_type :: "8 word"
  lk_key :: bytes
  lk_pin_len :: "8 word"

record smp_ltk_info =
  ltk_bdaddr :: bdaddr_t
  ltk_bdaddr_type :: "8 word"
  ltk_val :: bytes
  ltk_rand :: bytes
  ltk_ediv :: "16 word"
  ltk_authenticated :: "8 word"
  ltk_master :: "8 word"
  ltk_enc_size :: "8 word"

definition mgmt_load_link_keys ::
  "env \<Rightarrow> decls \<Rightarrow> int \<Rightarrow> link_key_info list \<Rightarrow> bool \<Rightarrow> int \<times> effect list" where
  "mgmt_load_link_keys env d index keys debug_keys =
     (if g_try_malloc0_fails env then (- ENOMEM, [])
      else mgmt_write env (Command MGMT_OP_LOAD_LINK_KEYS (word_of_int index)
             (VByte (of_bool debug_keys) #
              VInt (uint (word_of_nat (length keys) :: 16 word)) #
              concat (map (\<lambda>k. [VBytes (lk_bdaddr k), VByte (BDADDR_BREDR d), VByte (lk_type k),
                                VBytes (take 16 (lk_key k)), VByte (lk_pin_len k)]) keys))))"

definition mgmt_set_io_capability :: "env \<Rightarrow> int \<Rightarrow> 8 word \<Rightarrow> int \<times> effect list" where
  "mgmt_set_io_capability env index io_capability =
     mgmt_write env (Command MGMT_OP_SET_IO_CAPABILITY (word_of_int index)
       [VByte io_capability])"

definition mgmt_create_bonding ::
  "env \<Rightarrow> int \<Rightarrow> bdaddr_t \<Rightarrow> 8 word \<Rightarrow> 8 word \<Rightarrow> int \<times> effect list" where
  "mgmt_create_bonding env index bd addr_type io_cap =
     mgmt_write env (Command MGMT_OP_PAIR_DEVICE (word_of_int index)
       [VBytes bd, VByte addr_type, VByte io_cap])"

definition mgmt_cancel_bonding :: "env \<Rightarrow> int \<Rightarrow> bdaddr_t \<Rightarrow> int \<times> effect list" where
  "mgmt_cancel_bonding env index bd =
     mgmt_write env (Command MGMT_OP_CANCEL_PAIR_DEVICE (word_of_int index) [VBytes bd])"

definition mgmt_read_local_oob_data :: "env \<Rightarrow> int \<Rightarrow> int \<times> effect list" where
  "mgmt_read_local_oob_data env index =
     mgmt_write env (Command MGMT_OP_READ_LOCAL_OOB_DATA (word_of_int index) [])"

definition mgmt_add_remote_oob_data ::
  "env \<Rightarrow> int \<Rightarrow> bdaddr_t \<Rightarrow> bytes \<Rightarrow> bytes option \<Rightarrow> int \<times> effect list" where
  "mgmt_add_remote_oob_data env index bd hash randomizer =
     mgmt_write env (Command MGMT_OP_ADD_REMOTE_OOB_DATA (word_of_int index)
       [VBytes bd, VBytes (take 16 hash),
        (case randomizer of None \<Rightarrow> VBytes (replicate 16 0) | Some r \<Rightarrow> VBytes (take 16 r))])"

definition mgmt_remove_remote_oob_data :: "env \<Rightarrow> int \<Rightarrow> bdaddr_t \<Rightarrow> int \<times> effect list" where
  "mgmt_remove_remote_oob_data env index bd =
     mgmt_write env (Command MGMT_OP_REMOVE_REMOTE_OOB_DATA (word_of_int index) [VBytes bd])"

definition mgmt_confirm_name ::
  "env \<Rightarrow> int \<Rightarrow> bdaddr_t \<Rightarrow> 8 word \<Rightarrow> bool \<Rightarrow> int \<times> effect list" where
  "mgmt_confirm_name env index bd bdaddr_type name_known =
     mgmt_write env (Command MGMT_OP_CONFIRM_NAME (word_of_int index)
       [VBytes bd, VByte bdaddr_type, VByte (of_bool name_known)])"

definition mgmt_load_ltks :: "env \<Rightarrow> int \<Rightarrow> smp_ltk_info list \<Rightarrow> int \<times> effect list" where
  "mgmt_load_ltks env index keys =
     (if g_try_malloc0_fails env then (- ENOMEM, [])
      else mgmt_write env (Command MGMT_OP_LOAD_LONG_TERM_KEYS (word_of_int index)
             (VInt (uint (word_of_nat (length keys) :: 16 word)) #
              concat (map (\<lambda>k. [VBytes (ltk_bdaddr k), VByte (ltk_bdaddr_type k),
                                VBytes (ltk_val k), VBytes (ltk_rand k), VInt (uint (ltk_ediv k)),
                                VByte (ltk_authenticated k), VByte (ltk_master k),
                                VByte (ltk_enc_size k)]) keys))))"

definition mgmt_ssp_enabled :: "decls \<Rightarrow> int \<Rightarrow> mgmt \<Rightarrow> bool result" where
  "mgmt_ssp_enabled d index s =
     (if index < 0 \<or> index > max_index s then OutOfBounds
      else Ok (mgmt_ssp d (current_settings (controllers s ! nat index))))"

subsection \<open>Runs\<close>

text \<open>
  Everything that enters the file: a message on the socket (\<open>mgmt_event\<close>) or a call of
  one of its public functions.
\<close>

datatype input =
    Event "gio_condition set" read_result
  | Setup
  | Cleanup
  | Set_connectable int bool
  | Set_discoverable int bool "16 word"
  | Set_pairable int bool
  | Pincode_reply int bdaddr_t "bytes option" nat
  | Confirm_reply int bdaddr_t "8 word" bool
  | Passkey_reply int bdaddr_t "8 word" "32 word"
  | Add_uuid int uuid_t "8 word"
  | Remove_uuid int uuid_t
  | Set_powered int bool
  | Set_name int string
  | Set_dev_class int "8 word" "8 word"
  | Start_discovery int
  | Start_le_scanning int
  | Stop_discovery int
  | Set_fast_connectable int bool
  | Read_clock int
  | Read_bdaddr int
  | Block_device int bdaddr_t "8 word"
  | Unblock_device int bdaddr_t "8 word"
  | Get_conn_list int
  | Disconnect int bdaddr_t "8 word"
  | Unpair_device int bdaddr_t "8 word"
  | Set_did int "16 word" "16 word" "16 word" "16 word"
  | Load_link_keys int "link_key_info list" bool
  | Set_io_capability int "8 word"
  | Create_bonding int bdaddr_t "8 word" "8 word"
  | Cancel_bonding int bdaddr_t
  | Read_local_oob_data int
  | Add_remote_oob_data int bdaddr_t bytes "bytes option"
  | Remove_remote_oob_data int bdaddr_t
  | Confirm_name int bdaddr_t "8 word" bool
  | Load_ltks int "smp_ltk_info list"
  | Ssp_enabled int

text \<open>What an input does to the globals and to the outside; the value returned is dropped.\<close>

definition drop_ret :: "('a \<times> mgmt \<times> effect list) result \<Rightarrow> (mgmt \<times> effect list) result" where
  "drop_ret r = (case r of Ok (x, s, tr) \<Rightarrow> Ok (s, tr) | Abort \<Rightarrow> Abort | OutOfBounds \<Rightarrow> OutOfBounds)"

definition no_state :: "('a \<times> 'b) result \<Rightarrow> mgmt \<Rightarrow> (mgmt \<times> effect list) result" where
  "no_state r s = (case r of Ok x \<Rightarrow> Ok (s, []) | Abort \<Rightarrow> Abort | OutOfBounds \<Rightarrow> OutOfBounds)"

fun step :: "env \<Rightarrow> decls \<Rightarrow> input \<Rightarrow> mgmt \<Rightarrow> (mgmt \<times> effect list) result" where
  "step env d (Event cond rd) s = drop_ret (mgmt_event env d cond rd s)"
| "step env d Setup s = Ok (s, snd (mgmt_setup env))"
| "step env d Cleanup s = Ok (mgmt_cleanup s, [])"
| "step env d (Set_connectable i b) s = Ok (s, snd (mgmt_set_connectable env i b))"
| "step env d (Set_discoverable i b t) s = Ok (s, snd (mgmt_set_discoverable env i b t))"
| "step env d (Set_pairable i b) s = Ok (s, snd (mgmt_set_pairable env i b))"
| "step env d (Pincode_reply i bd pin n) s = Ok (s, snd (mgmt_pincode_reply env d i bd pin n))"
| "step env d (Confirm_reply i bd t b) s = Ok (s, snd (mgmt_confirm_reply env i bd t b))"
| "step env d (Passkey_reply i bd t k) s = Ok (s, snd (mgmt_passkey_reply env d i bd t k))"
| "step env d (Add_uuid i u h) s = drop_ret (mgmt_add_uuid env d i u h s)"
| "step env d (Remove_uuid i u) s = drop_ret (mgmt_remove_uuid env d i u s)"
| "step env d (Set_powered i b) s = drop_ret (mgmt_set_powered env i b s)"
| "step env d (Set_name i n) s = Ok (s, snd (mgmt_set_name env i n))"
| "step env d (Set_dev_class i mj mn) s = drop_ret (mgmt_set_dev_class env i mj mn s)"
| "step env d (Start_discovery i) s = drop_ret (mgmt_start_discovery env d i s)"
| "step env d (Start_le_scanning i) s = drop_ret (mgmt_start_le_scanning env d i s)"
| "step env d (Stop_discovery i) s = drop_ret (mgmt_stop_discovery env i s)"
| "step env d (Set_fast_connectable i b) s = Ok (s, snd (mgmt_set_fast_connectable env i b))"
| "step env d (Read_clock i) s = Ok (s, [])"
| "step env d (Read_bdaddr i) s = no_state (mgmt_read_bdaddr i s) s"
| "step env d (Block_device i bd t) s = Ok (s, snd (mgmt_block_device env i bd t))"
| "step env d (Unblock_device i bd t) s = Ok (s, snd (mgmt_unblock_device env i bd t))"
| "step env d (Get_conn_list i) s =
     (case mgmt_get_conn_list i s of
        Ok (r, l, s1) \<Rightarrow> Ok (s1, []) | Abort \<Rightarrow> Abort | OutOfBounds \<Rightarrow> OutOfBounds)"
| "step env d (Disconnect i bd t) s = Ok (s, snd (mgmt_disconnect env i bd t))"
| "step env d (Unpair_device i bd t) s = Ok (s, snd (mgmt_unpair_device env i bd t))"
| "step env d (Set_did i v p ver src) s = Ok (s, snd (mgmt_set_did env i v p ver src))"
| "step env d (Load_link_keys i ks dbg) s = Ok (s, snd (mgmt_load_link_keys env d i ks dbg))"
| "step env d (Set_io_capability i c) s = Ok (s, snd (mgmt_set_io_capability env i c))"
| "step env d (Create_bonding i bd t c) s = Ok (s, snd (mgmt_create_bonding env i bd t c))"
| "step env d (Cancel_bonding i bd) s = Ok (s, snd (mgmt_cancel_bonding env i bd))"
| "step env d (Read_local_oob_data i) s = Ok (s, snd (mgmt_read_local_oob_data env i))"
| "step env d (Add_remote_oob_data i bd h r) s =
     Ok (s, snd (mgmt_add_remote_oob_data env i bd h r))"
| "step env d (Remove_remote_oob_data i bd) s =
     Ok (s, snd (mgmt_remove_remote_oob_data env i bd))"
| "step env d (Confirm_name i bd t b) s = Ok (s, snd (mgmt_confirm_name env i bd t b))"
| "step env d (Load_ltks i ks) s = Ok (s, snd (mgmt_load_ltks env i ks))"
| "step env d (Ssp_enabled i) s =
     (case mgmt_ssp_enabled d i s of
        Ok b \<Rightarrow> Ok (s, []) | Abort \<Rightarrow> Abort | OutOfBounds \<Rightarrow> OutOfBounds)"

text \<open>
  A run: the inputs in order, each with the answers of the outside while it is handled.
  The history keeps, for every input that returned, the globals before it, the input and
  its effects; the run ends with the first input that does not return.
\<close>

fun run :: "decls \<Rightarrow> (env \<times> input) list \<Rightarrow> mgmt \<Rightarrow> (mgmt \<times> input \<times> effect list) list" where
  "run d [] s = []"
| "run d ((env, inp) # rest) s =
     (case step env d inp s of
        Ok (s1, tr) \<Rightarrow> (s, inp, tr) # run d rest s1
      | Abort \<Rightarrow> []
      | OutOfBounds \<Rightarrow> [])"

subsection \<open>Notions used in the statements\<close>

text \<open>An effect that is a line of the log; a list of effects with nothing else in it.\<close>

definition is_log :: "effect \<Rightarrow> bool" where
  "is_log e = (case e of LogError m \<Rightarrow> True | LogWarn m \<Rightarrow> True | LogInfo m \<Rightarrow> True
                 | Write c \<Rightarrow> False | WriteFailed c n \<Rightarrow> False | Call f args \<Rightarrow> False)"

definition only_logs :: "effect list \<Rightarrow> bool" where
  "only_logs tr = list_all is_log tr"

text \<open>An add-UUID or remove-UUID command written to the socket for the controller \<open>i\<close>.\<close>

definition is_uuid_write :: "16 word \<Rightarrow> effect \<Rightarrow> bool" where
  "is_uuid_write i e =
     (case e of
        Write c \<Rightarrow>
          (case c of Command opc j ps \<Rightarrow>
             j = i \<and> (opc = MGMT_OP_ADD_UUID \<or> opc = MGMT_OP_REMOVE_UUID))
      | WriteFailed c n \<Rightarrow> False | LogError m \<Rightarrow> False | LogWarn m \<Rightarrow> False
      | LogInfo m \<Rightarrow> False | Call f args \<Rightarrow> False)"

definition uuid_writes :: "16 word \<Rightarrow> effect list \<Rightarrow> effect list" where
  "uuid_writes i tr = filter (is_uuid_write i) tr"

text \<open>
  What handing the command \<open>c\<close> to \<open>write\<close> leaves in the list of effects, and the command
  that \<open>mgmt_add_uuid\<close> or \<open>mgmt_remove_uuid\<close> builds for a queued entry.
\<close>

definition write_effect :: "env \<Rightarrow> command \<Rightarrow> effect" where
  "write_effect env c =
     (if write_errno env c = 0 then Write c else WriteFailed c (write_errno env c))"

definition uuid_command :: "decls \<Rightarrow> 16 word \<Rightarrow> pending_uuid_entry \<Rightarrow> command" where
  "uuid_command d i p =
     (if add p
      then Command MGMT_OP_ADD_UUID i
             [VBytes (rev (uuid_value (uuid_to_uuid128 d (uuid p)))), VByte (svc_hint p)]
      else Command MGMT_OP_REMOVE_UUID i
             [VBytes (rev (uuid_value (uuid_to_uuid128 d (uuid p))))])"

text \<open>The controller \<open>i\<close> has a slot and its flag \<open>pending_uuid\<close> is set.\<close>

definition in_flight :: "mgmt \<Rightarrow> 16 word \<Rightarrow> bool" where
  "in_flight s i = (unat i < length (controllers s) \<and> pending_uuid (controllers s ! unat i))"

text \<open>
  The event, the index and the payload of an input that \<open>mgmt_event\<close> hands to a handler;
  the opcode a command-complete payload is about.
\<close>

definition framed :: "decls \<Rightarrow> input \<Rightarrow> (mgmt_ev \<times> 16 word \<times> bytes) option" where
  "framed d inp =
     (case inp of
        Event cond rd \<Rightarrow>
          (case rd of
             ReadError e \<Rightarrow> None
           | ReadData msg \<Rightarrow>
               (let buf = take MGMT_BUF_SIZE msg in
                if G_IO_NVAL \<in> cond \<or> G_IO_ERR \<in> cond \<or> G_IO_HUP \<in> cond then None
                else if length buf < MGMT_HDR_SIZE then None
                else if length buf \<noteq> MGMT_HDR_SIZE + unat (bt_get_le16 (drop 4 buf)) then None
                else (case event_code d (bt_get_le16 buf) of
                        None \<Rightarrow> None
                      | Some ev \<Rightarrow>
                          Some (ev, bt_get_le16 (drop 2 buf), drop MGMT_HDR_SIZE buf))))
      | _ \<Rightarrow> None)"

definition completed_op :: "decls \<Rightarrow> bytes \<Rightarrow> mgmt_op option" where
  "completed_op d pl =
     (if length pl < sizeof_mgmt_ev_cmd_complete then None else command_code d (bt_get_le16 pl))"

text \<open>
  The payload of a settings signal: the event \<open>MGMT_EV_NEW_SETTINGS\<close>, or the reply to one
  of the six mode commands, all of which \<open>mgmt_cmd_complete\<close> hands to \<open>mgmt_new_settings\<close>.
\<close>

definition settings_payload :: "decls \<Rightarrow> mgmt_ev \<Rightarrow> bytes \<Rightarrow> bytes option" where
  "settings_payload d ev pl =
     (if ev = MGMT_EV_NEW_SETTINGS then Some pl
      else if ev = MGMT_EV_CMD_COMPLETE \<and>
              completed_op d pl \<in> {Some MGMT_OP_SET_POWERED, Some MGMT_OP_SET_DISCOVERABLE,
                Some MGMT_OP_SET_CONNECTABLE, Some MGMT_OP_SET_PAIRABLE, Some MGMT_OP_SET_SSP,
                Some MGMT_OP_SET_LE}
      then Some (drop sizeof_mgmt_ev_cmd_complete pl)
      else None)"

text \<open>
  The inputs after which the flag \<open>pending_uuid\<close> of the controller \<open>i\<close> may be clear again:
  the reply to an add-UUID or remove-UUID command for \<open>i\<close>; a class-of-device-changed
  event for \<open>i\<close> while \<open>pending_cod_change\<close> is set; a settings signal for \<open>i\<close> that reports
  the power off while the stored settings have it on; an index-added or index-removed
  event for \<open>i\<close>; the reply to read-index-list; \<open>mgmt_cleanup\<close>.
\<close>

definition releases :: "decls \<Rightarrow> mgmt \<Rightarrow> input \<Rightarrow> 16 word \<Rightarrow> bool" where
  "releases d s inp i =
     (inp = Cleanup \<or>
      (case framed d inp of
         None \<Rightarrow> False
       | Some (ev, j, pl) \<Rightarrow>
           (ev = MGMT_EV_CMD_COMPLETE \<and> completed_op d pl = Some MGMT_OP_READ_INDEX_LIST) \<or>
           (j = i \<and>
             (ev = MGMT_EV_INDEX_ADDED \<or> ev = MGMT_EV_INDEX_REMOVED \<or>
              (ev = MGMT_EV_CMD_COMPLETE \<and>
                 (completed_op d pl = Some MGMT_OP_ADD_UUID \<or>
                  completed_op d pl = Some MGMT_OP_REMOVE_UUID)) \<or>
              (ev = MGMT_EV_CLASS_OF_DEV_CHANGED \<and> unat i < length (controllers s) \<and>
                 pending_cod_change (controllers s ! unat i)) \<or>
              (case settings_payload d ev pl of
                 None \<Rightarrow> False
               | Some p \<Rightarrow>
                   unat i < length (controllers s) \<and>
                   mgmt_powered d (current_settings (controllers s ! unat i)) \<and>
                   \<not> mgmt_powered d (bt_get_le32 p))))))"

text \<open>
  The settings word that an input reports for the slot \<open>n\<close>: the payload of a settings
  signal, or the field \<open>current_settings\<close> of a read-info reply, for the index \<open>n\<close>.
\<close>

definition reported_settings :: "decls \<Rightarrow> input \<Rightarrow> nat \<Rightarrow> 32 word option" where
  "reported_settings d inp n =
     (case framed d inp of
        None \<Rightarrow> None
      | Some (ev, i, pl) \<Rightarrow>
          if unat i \<noteq> n then None
          else (case settings_payload d ev pl of
                  Some p \<Rightarrow> Some (bt_get_le32 p)
                | None \<Rightarrow>
                    if ev = MGMT_EV_CMD_COMPLETE \<and> completed_op d pl = Some MGMT_OP_READ_INFO
                    then Some (bt_get_le32 (fld d Mgmt_rp_read_info ''current_settings''
                                 (drop sizeof_mgmt_ev_cmd_complete pl)))
                    else None))"

text \<open>
  The indexes that a reply to read-index-list lists (\<open>rp->index[i]\<close> for \<open>i\<close> below
  \<open>rp->num_controllers\<close>), and the inputs that clear the slot \<open>n\<close> with \<open>memset\<close>: an
  index-added or index-removed event for \<open>n\<close>, and a reply to read-index-list that lists \<open>n\<close>.
\<close>

definition listed_indexes :: "decls \<Rightarrow> bytes \<Rightarrow> 16 word list" where
  "listed_indexes d buf =
     map (\<lambda>k. bt_get_le16 (drop (2 * k) (fld d Mgmt_rp_read_index_list ''index'' buf)))
       [0 ..< unat (bt_get_le16 (fld d Mgmt_rp_read_index_list ''num_controllers'' buf))]"

definition resets :: "decls \<Rightarrow> input \<Rightarrow> nat \<Rightarrow> bool" where
  "resets d inp n =
     (case framed d inp of
        None \<Rightarrow> False
      | Some (ev, i, pl) \<Rightarrow>
          (unat i = n \<and> (ev = MGMT_EV_INDEX_ADDED \<or> ev = MGMT_EV_INDEX_REMOVED)) \<or>
          (ev = MGMT_EV_CMD_COMPLETE \<and> completed_op d pl = Some MGMT_OP_READ_INDEX_LIST \<and>
           n \<in> set (map unat (listed_indexes d (drop sizeof_mgmt_ev_cmd_complete pl)))))"

text \<open>A slot as \<open>memset\<close> leaves it, with the flag \<open>valid\<close> set or not.\<close>

definition cleared :: "controller_info \<Rightarrow> bool" where
  "cleared info = (info = zero_info \<or> info = zero_info\<lparr>valid := True\<rparr>)"

text \<open>
  The table with every flag \<open>valid\<close> put down, and a result with the flags of its table put
  down: two tables with the same \<open>forget_valid\<close> differ in flags \<open>valid\<close> only.
\<close>

definition forget_valid :: "mgmt \<Rightarrow> mgmt" where
  "forget_valid s = s\<lparr>controllers := map (\<lambda>c. c\<lparr>valid := False\<rparr>) (controllers s)\<rparr>"

definition valid_blind :: "(mgmt \<times> effect list) result \<Rightarrow> (mgmt \<times> effect list) result" where
  "valid_blind r =
     (case r of
        Ok (s, tr) \<Rightarrow> Ok (forget_valid s, tr)
      | Abort \<Rightarrow> Abort
      | OutOfBounds \<Rightarrow> OutOfBounds)"

text \<open>
  The decode failures that the handlers test for. For a reply, on the bytes after the
  opcode and the status: the length tests of the handler of the reply, and an opcode
  that has no case in the \<open>switch\<close> of \<open>mgmt_cmd_complete\<close>. For an event, on its payload: the
  length tests of its handler, an unknown opcode in a command-complete event, and the PIN
  length above 16 in a new-link-key event.
\<close>

definition reply_decode_fails :: "decls \<Rightarrow> mgmt_op \<Rightarrow> bytes \<Rightarrow> bool" where
  "reply_decode_fails d op buf =
     (let len = length buf in
      case op of
        MGMT_OP_READ_VERSION \<Rightarrow> len < sizeof d Mgmt_rp_read_version
      | MGMT_OP_READ_INDEX_LIST \<Rightarrow>
          len < sizeof d Mgmt_rp_read_index_list \<or>
          unat (bt_get_le16 (fld d Mgmt_rp_read_index_list ''num_controllers'' buf)) * 2 +
            sizeof d Mgmt_rp_read_index_list \<noteq> len
      | MGMT_OP_READ_INFO \<Rightarrow> len < sizeof d Mgmt_rp_read_info
      | MGMT_OP_SET_POWERED \<Rightarrow> len < 4
      | MGMT_OP_SET_DISCOVERABLE \<Rightarrow> len < 4
      | MGMT_OP_SET_CONNECTABLE \<Rightarrow> len < 4
      | MGMT_OP_SET_PAIRABLE \<Rightarrow> len < 4
      | MGMT_OP_SET_SSP \<Rightarrow> len < 4
      | MGMT_OP_SET_LE \<Rightarrow> len < 4
      | MGMT_OP_ADD_UUID \<Rightarrow> len < sizeof d Mgmt_cod
      | MGMT_OP_REMOVE_UUID \<Rightarrow> len < sizeof d Mgmt_cod
      | MGMT_OP_SET_DEV_CLASS \<Rightarrow> len < sizeof d Mgmt_cod
      | MGMT_OP_DISCONNECT \<Rightarrow> len < sizeof d Mgmt_rp_disconnect
      | MGMT_OP_GET_CONNECTIONS \<Rightarrow>
          len < sizeof d Mgmt_rp_get_connections \<or>
          len < sizeof d Mgmt_rp_get_connections +
                unat (bt_get_le16 (fld d Mgmt_rp_get_connections ''conn_count'' buf)) *
                  sizeof d Bdaddr_t
      | MGMT_OP_PAIR_DEVICE \<Rightarrow> len < sizeof d Mgmt_rp_pair_device
      | MGMT_OP_SET_LOCAL_NAME \<Rightarrow> len < sizeof d Mgmt_cp_set_local_name
      | MGMT_OP_READ_LOCAL_OOB_DATA \<Rightarrow> len \<noteq> sizeof d Mgmt_rp_read_local_oob_data
      | MGMT_OP_START_DISCOVERY \<Rightarrow> len \<noteq> 1
      | MGMT_OP_LOAD_LONG_TERM_KEYS \<Rightarrow> True
      | MGMT_OP_USER_PASSKEY_REPLY \<Rightarrow> True
      | MGMT_OP_USER_PASSKEY_NEG_REPLY \<Rightarrow> True
      | MGMT_OP_CONFIRM_NAME \<Rightarrow> True
      | _ \<Rightarrow> False)"

definition decode_fails :: "decls \<Rightarrow> mgmt_ev \<Rightarrow> bytes \<Rightarrow> bool" where
  "decode_fails d ev pl =
     (let len = length pl in
      case ev of
        MGMT_EV_CMD_COMPLETE \<Rightarrow>
          len < sizeof_mgmt_ev_cmd_complete \<or>
          (case command_code d (bt_get_le16 pl) of
             None \<Rightarrow> True
           | Some op \<Rightarrow> reply_decode_fails d op (drop sizeof_mgmt_ev_cmd_complete pl))
      | MGMT_EV_CMD_STATUS \<Rightarrow> len < sizeof_mgmt_ev_cmd_status
      | MGMT_EV_CONTROLLER_ERROR \<Rightarrow> len < sizeof d Mgmt_ev_controller_error
      | MGMT_EV_INDEX_ADDED \<Rightarrow> False
      | MGMT_EV_INDEX_REMOVED \<Rightarrow> False
      | MGMT_EV_NEW_SETTINGS \<Rightarrow> len < 4
      | MGMT_EV_CLASS_OF_DEV_CHANGED \<Rightarrow> len < sizeof d Mgmt_cod
      | MGMT_EV_LOCAL_NAME_CHANGED \<Rightarrow> len < sizeof d Mgmt_cp_set_local_name
      | MGMT_EV_NEW_LINK_KEY \<Rightarrow>
          len \<noteq> sizeof d Mgmt_ev_new_link_key \<or>
          get_u8 (fld d Mgmt_ev_new_link_key ''key.pin_len'' pl) > 16
      | MGMT_EV_NEW_LONG_TERM_KEY \<Rightarrow> len \<noteq> sizeof d Mgmt_ev_new_long_term_key
      | MGMT_EV_DEVICE_CONNECTED \<Rightarrow>
          len < sizeof d Mgmt_ev_device_connected \<or>
          len < sizeof d Mgmt_ev_device_connected +
                unat (bt_get_le16 (fld d Mgmt_ev_device_connected ''eir_len'' pl))
      | MGMT_EV_DEVICE_DISCONNECTED \<Rightarrow> len < sizeof d Mgmt_addr_info
      | MGMT_EV_CONNECT_FAILED \<Rightarrow> len < sizeof d Mgmt_ev_connect_failed
      | MGMT_EV_PIN_CODE_REQUEST \<Rightarrow> len < sizeof d Mgmt_ev_pin_code_request
      | MGMT_EV_USER_CONFIRM_REQUEST \<Rightarrow> len < sizeof d Mgmt_ev_user_confirm_request
      | MGMT_EV_USER_PASSKEY_REQUEST \<Rightarrow> len < sizeof d Mgmt_ev_user_passkey_request
      | MGMT_EV_AUTH_FAILED \<Rightarrow> len < sizeof d Mgmt_ev_auth_failed
      | MGMT_EV_DEVICE_FOUND \<Rightarrow>
          len < sizeof d Mgmt_ev_device_found \<or>
          len \<noteq> sizeof d Mgmt_ev_device_found +
                unat (bt_get_le16 (fld d Mgmt_ev_device_found ''eir_len'' pl))
      | MGMT_EV_DISCOVERING \<Rightarrow> len < sizeof d Mgmt_ev_discovering
      | MGMT_EV_DEVICE_BLOCKED \<Rightarrow> len < sizeof d Mgmt_ev_device_blocked
      | MGMT_EV_DEVICE_UNBLOCKED \<Rightarrow> len < sizeof d Mgmt_ev_device_unblocked
      | MGMT_EV_DEVICE_UNPAIRED \<Rightarrow> len < sizeof d Mgmt_ev_device_unpaired
      | MGMT_EV_PASSKEY_NOTIFY \<Rightarrow> len < sizeof d Mgmt_ev_passkey_notify)"

text \<open>The table has no more slots than there are 16-bit indexes.\<close>

definition table_ok :: "mgmt \<Rightarrow> bool" where
  "table_ok s = (length (controllers s) \<le> 65536)"

text \<open>
  Two summaries of what a handler for the index \<open>i\<close> returns, used in the proofs.
  \<open>inert\<close>: the globals are as before, no UUID command is among the effects, and for an
  index outside the table the effects are lines of the log only.
  \<open>touches\<close>: when the handler returns, no slot was lost, the table reaches no further than
  \<open>i\<close> if it has grown, and no slot but \<open>i\<close> has changed;
  among the effects there is at most one UUID command, for \<open>i\<close>, and if there is one the
  flag \<open>pending_uuid\<close> of \<open>i\<close> is set afterwards; a flag that was set is still set, with no
  UUID command written, unless \<open>rel\<close> holds; and the settings of the slot are as before,
  or the word \<open>dec\<close>, or those of a cleared slot.
\<close>

definition not_uuid_cmd :: "effect \<Rightarrow> bool" where
  "not_uuid_cmd e =
     (case e of
        Write c \<Rightarrow>
          (case c of Command opc j ps \<Rightarrow> opc \<noteq> MGMT_OP_ADD_UUID \<and> opc \<noteq> MGMT_OP_REMOVE_UUID)
      | WriteFailed c n \<Rightarrow> True | LogError m \<Rightarrow> True | LogWarn m \<Rightarrow> True
      | LogInfo m \<Rightarrow> True | Call f args \<Rightarrow> True)"

definition no_uuid_cmds :: "effect list \<Rightarrow> bool" where
  "no_uuid_cmds tr = list_all not_uuid_cmd tr"

definition inert :: "16 word \<Rightarrow> mgmt \<Rightarrow> (mgmt \<times> effect list) result \<Rightarrow> bool" where
  "inert i s r =
     (\<exists>tr. r = Ok (s, tr) \<and> no_uuid_cmds tr \<and>
           (length (controllers s) \<le> unat i \<longrightarrow> only_logs tr))"

definition touches ::
  "16 word \<Rightarrow> bool \<Rightarrow> 32 word option \<Rightarrow> mgmt \<Rightarrow> (mgmt \<times> effect list) result \<Rightarrow> bool" where
  "touches i rel dec s r =
     (case r of
        Abort \<Rightarrow> True
      | OutOfBounds \<Rightarrow> True
      | Ok (s', tr) \<Rightarrow>
          length (controllers s) \<le> length (controllers s') \<and>
          length (controllers s') \<le> max (length (controllers s)) (Suc (unat i)) \<and>
          (\<forall>n. n \<noteq> unat i \<longrightarrow> n < length (controllers s) \<longrightarrow>
                controllers s' ! n = controllers s ! n) \<and>
          (\<forall>j. j \<noteq> i \<longrightarrow> uuid_writes j tr = []) \<and>
          length (uuid_writes i tr) \<le> 1 \<and>
          (uuid_writes i tr \<noteq> [] \<longrightarrow> in_flight s' i) \<and>
          (in_flight s i \<and> \<not> rel \<longrightarrow> in_flight s' i \<and> uuid_writes i tr = []) \<and>
          (unat i < length (controllers s) \<longrightarrow>
             current_settings (controllers s' ! unat i) =
               current_settings (controllers s ! unat i) \<or>
             Some (current_settings (controllers s' ! unat i)) = dec \<or>
             cleared (controllers s' ! unat i)))"

text \<open>
  Two more summaries, for the stored settings. \<open>unchanged_settings\<close>: when the handler
  returns, the table has the slots it had and \<open>current_settings\<close> is as before in each.
  \<open>keeps\<close>: when it returns, \<open>current_settings\<close> of a slot that is still there is as before,
  or the slot is \<open>i\<close> and it is the word \<open>dec\<close>.
\<close>

definition unchanged_settings :: "mgmt \<Rightarrow> (mgmt \<times> effect list) result \<Rightarrow> bool" where
  "unchanged_settings s r =
     (case r of
        Ok (s', tr) \<Rightarrow>
          map current_settings (controllers s') = map current_settings (controllers s)
      | Abort \<Rightarrow> True
      | OutOfBounds \<Rightarrow> True)"

definition keeps ::
  "16 word \<Rightarrow> 32 word option \<Rightarrow> mgmt \<Rightarrow> (mgmt \<times> effect list) result \<Rightarrow> bool" where
  "keeps i dec s r =
     (case r of
        Ok (s', tr) \<Rightarrow>
          (\<forall>n. n < length (controllers s) \<and> n < length (controllers s') \<longrightarrow>
             current_settings (controllers s' ! n) = current_settings (controllers s ! n) \<or>
             (n = unat i \<and> Some (current_settings (controllers s' ! n)) = dec))
      | Abort \<Rightarrow> True
      | OutOfBounds \<Rightarrow> True)"

subsection \<open>Declarations and answers to run the handlers on\<close>

text \<open>
  The sizes, offsets and numbers of the management interface as the headers of this
  version of the tree give them, and the three functions of lib/sdp.c on a little-endian
  host. They serve to run the handlers on concrete messages; no general statement below
  depends on them.
\<close>

definition kernel_sizeof :: "cstruct \<Rightarrow> nat" where
  "kernel_sizeof c =
     (case c of
        Mgmt_rp_read_version \<Rightarrow> 3 | Mgmt_rp_read_index_list \<Rightarrow> 2 | Mgmt_rp_read_info \<Rightarrow> 280
      | Mgmt_ev_new_link_key \<Rightarrow> 26 | Mgmt_ev_device_connected \<Rightarrow> 13 | Mgmt_addr_info \<Rightarrow> 7
      | Mgmt_ev_device_disconnected \<Rightarrow> 8 | Mgmt_ev_connect_failed \<Rightarrow> 8
      | Mgmt_ev_pin_code_request \<Rightarrow> 8 | Mgmt_ev_user_passkey_request \<Rightarrow> 7
      | Mgmt_ev_passkey_notify \<Rightarrow> 12 | Mgmt_ev_user_confirm_request \<Rightarrow> 12
      | Mgmt_rp_disconnect \<Rightarrow> 7 | Mgmt_rp_pair_device \<Rightarrow> 7 | Mgmt_rp_get_connections \<Rightarrow> 2
      | Bdaddr_t \<Rightarrow> 6 | Mgmt_cp_set_local_name \<Rightarrow> 260 | Mgmt_rp_read_local_oob_data \<Rightarrow> 32
      | Mgmt_cod \<Rightarrow> 3 | Mgmt_ev_controller_error \<Rightarrow> 1 | Mgmt_ev_auth_failed \<Rightarrow> 8
      | Mgmt_ev_device_found \<Rightarrow> 14 | Mgmt_ev_discovering \<Rightarrow> 2 | Mgmt_ev_device_blocked \<Rightarrow> 7
      | Mgmt_ev_device_unblocked \<Rightarrow> 7 | Mgmt_ev_device_unpaired \<Rightarrow> 7
      | Mgmt_ev_new_long_term_key \<Rightarrow> 37)"

definition kernel_layout :: "((cstruct \<times> string) \<times> nat \<times> nat) list" where
  "kernel_layout =
     [((Mgmt_cod, ''val''), 0, 3),
      ((Mgmt_cp_set_local_name, ''name''), 0, 249),
      ((Mgmt_ev_auth_failed, ''addr''), 0, 7),
      ((Mgmt_ev_auth_failed, ''status''), 7, 1),
      ((Mgmt_ev_connect_failed, ''addr''), 0, 7),
      ((Mgmt_ev_connect_failed, ''status''), 7, 1),
      ((Mgmt_ev_device_blocked, ''addr''), 0, 7),
      ((Mgmt_ev_device_connected, ''addr''), 0, 7),
      ((Mgmt_ev_device_connected, ''addr.bdaddr''), 0, 6),
      ((Mgmt_ev_device_connected, ''eir_len''), 11, 2),
      ((Mgmt_ev_device_disconnected, ''addr''), 0, 7),
      ((Mgmt_ev_device_found, ''addr''), 0, 7),
      ((Mgmt_ev_device_found, ''rssi''), 7, 1),
      ((Mgmt_ev_device_found, ''flags''), 8, 4),
      ((Mgmt_ev_device_found, ''eir_len''), 12, 2),
      ((Mgmt_ev_device_unblocked, ''addr''), 0, 7),
      ((Mgmt_ev_device_unpaired, ''addr''), 0, 7),
      ((Mgmt_ev_discovering, ''discovering''), 1, 1),
      ((Mgmt_ev_new_link_key, ''store_hint''), 0, 1),
      ((Mgmt_ev_new_link_key, ''key.addr''), 1, 7),
      ((Mgmt_ev_new_link_key, ''key.type''), 8, 1),
      ((Mgmt_ev_new_link_key, ''key.val''), 9, 16),
      ((Mgmt_ev_new_link_key, ''key.pin_len''), 25, 1),
      ((Mgmt_ev_new_long_term_key, ''store_hint''), 0, 1),
      ((Mgmt_ev_new_long_term_key, ''key''), 1, 36),
      ((Mgmt_ev_new_long_term_key, ''key.addr''), 1, 7),
      ((Mgmt_ev_new_long_term_key, ''key.master''), 9, 1),
      ((Mgmt_ev_passkey_notify, ''addr''), 0, 7),
      ((Mgmt_ev_passkey_notify, ''passkey''), 7, 4),
      ((Mgmt_ev_passkey_notify, ''entered''), 11, 1),
      ((Mgmt_ev_pin_code_request, ''addr''), 0, 7),
      ((Mgmt_ev_pin_code_request, ''addr.bdaddr''), 0, 6),
      ((Mgmt_ev_pin_code_request, ''secure''), 7, 1),
      ((Mgmt_ev_user_confirm_request, ''addr''), 0, 7),
      ((Mgmt_ev_user_confirm_request, ''addr.bdaddr''), 0, 6),
      ((Mgmt_ev_user_confirm_request, ''addr.type''), 6, 1),
      ((Mgmt_ev_user_confirm_request, ''confirm_hint''), 7, 1),
      ((Mgmt_ev_user_confirm_request, ''value''), 8, 4),
      ((Mgmt_ev_user_passkey_request, ''addr''), 0, 7),
      ((Mgmt_ev_user_passkey_request, ''addr.bdaddr''), 0, 6),
      ((Mgmt_ev_user_passkey_request, ''addr.type''), 6, 1),
      ((Mgmt_rp_disconnect, ''addr''), 0, 7),
      ((Mgmt_rp_get_connections, ''conn_count''), 0, 2),
      ((Mgmt_rp_get_connections, ''addr''), 2, 1024),
      ((Mgmt_rp_pair_device, ''addr''), 0, 7),
      ((Mgmt_rp_read_index_list, ''num_controllers''), 0, 2),
      ((Mgmt_rp_read_index_list, ''index''), 2, 1024),
      ((Mgmt_rp_read_info, ''bdaddr''), 0, 6),
      ((Mgmt_rp_read_info, ''supported_settings''), 9, 4),
      ((Mgmt_rp_read_info, ''current_settings''), 13, 4),
      ((Mgmt_rp_read_info, ''name''), 20, 249),
      ((Mgmt_rp_read_local_oob_data, ''hash''), 0, 16),
      ((Mgmt_rp_read_local_oob_data, ''randomizer''), 16, 16),
      ((Mgmt_rp_read_version, ''version''), 0, 1),
      ((Mgmt_rp_read_version, ''revision''), 1, 2)]"

definition kernel_fld :: "cstruct \<Rightarrow> string \<Rightarrow> bytes \<Rightarrow> bytes" where
  "kernel_fld c f buf =
     (case map_of kernel_layout (c, f) of
        None \<Rightarrow> []
      | Some (off, n) \<Rightarrow> take n (drop off buf))"

definition kernel_event_code :: "16 word \<Rightarrow> mgmt_ev option" where
  "kernel_event_code =
     map_of [(0x0001, MGMT_EV_CMD_COMPLETE), (0x0002, MGMT_EV_CMD_STATUS),
       (0x0003, MGMT_EV_CONTROLLER_ERROR), (0x0004, MGMT_EV_INDEX_ADDED),
       (0x0005, MGMT_EV_INDEX_REMOVED), (0x0006, MGMT_EV_NEW_SETTINGS),
       (0x0007, MGMT_EV_CLASS_OF_DEV_CHANGED), (0x0008, MGMT_EV_LOCAL_NAME_CHANGED),
       (0x0009, MGMT_EV_NEW_LINK_KEY), (0x000A, MGMT_EV_NEW_LONG_TERM_KEY),
       (0x000B, MGMT_EV_DEVICE_CONNECTED), (0x000C, MGMT_EV_DEVICE_DISCONNECTED),
       (0x000D, MGMT_EV_CONNECT_FAILED), (0x000E, MGMT_EV_PIN_CODE_REQUEST),
       (0x000F, MGMT_EV_USER_CONFIRM_REQUEST), (0x0010, MGMT_EV_USER_PASSKEY_REQUEST),
       (0x0011, MGMT_EV_AUTH_FAILED), (0x0012, MGMT_EV_DEVICE_FOUND),
       (0x0013, MGMT_EV_DISCOVERING), (0x0014, MGMT_EV_DEVICE_BLOCKED),
       (0x0015, MGMT_EV_DEVICE_UNBLOCKED), (0x0016, MGMT_EV_DEVICE_UNPAIRED),
       (0x0017, MGMT_EV_PASSKEY_NOTIFY)]"

definition kernel_command_code :: "16 word \<Rightarrow> mgmt_op option" where
  "kernel_command_code =
     map_of [(0x0001, MGMT_OP_READ_VERSION), (0x0003, MGMT_OP_READ_INDEX_LIST),
       (0x0004, MGMT_OP_READ_INFO), (0x0005, MGMT_OP_SET_POWERED),
       (0x0006, MGMT_OP_SET_DISCOVERABLE), (0x0007, MGMT_OP_SET_CONNECTABLE),
       (0x0008, MGMT_OP_SET_FAST_CONNECTABLE), (0x0009, MGMT_OP_SET_PAIRABLE),
       (0x000B, MGMT_OP_SET_SSP), (0x000D, MGMT_OP_SET_LE),
       (0x000E, MGMT_OP_SET_DEV_CLASS), (0x000F, MGMT_OP_SET_LOCAL_NAME),
       (0x0010, MGMT_OP_ADD_UUID), (0x0011, MGMT_OP_REMOVE_UUID),
       (0x0012, MGMT_OP_LOAD_LINK_KEYS), (0x0013, MGMT_OP_LOAD_LONG_TERM_KEYS),
       (0x0014, MGMT_OP_DISCONNECT), (0x0015, MGMT_OP_GET_CONNECTIONS),
       (0x0016, MGMT_OP_PIN_CODE_REPLY), (0x0017, MGMT_OP_PIN_CODE_NEG_REPLY),
       (0x0018, MGMT_OP_SET_IO_CAPABILITY), (0x0019, MGMT_OP_PAIR_DEVICE),
       (0x001A, MGMT_OP_CANCEL_PAIR_DEVICE), (0x001B, MGMT_OP_UNPAIR_DEVICE),
       (0x001C, MGMT_OP_USER_CONFIRM_REPLY), (0x001D, MGMT_OP_USER_CONFIRM_NEG_REPLY),
       (0x001E, MGMT_OP_USER_PASSKEY_REPLY), (0x001F, MGMT_OP_USER_PASSKEY_NEG_REPLY),
       (0x0020, MGMT_OP_READ_LOCAL_OOB_DATA), (0x0021, MGMT_OP_ADD_REMOTE_OOB_DATA),
       (0x0022, MGMT_OP_REMOVE_REMOTE_OOB_DATA), (0x0023, MGMT_OP_START_DISCOVERY),
       (0x0024, MGMT_OP_STOP_DISCOVERY), (0x0025, MGMT_OP_CONFIRM_NAME),
       (0x0026, MGMT_OP_BLOCK_DEVICE), (0x0027, MGMT_OP_UNBLOCK_DEVICE),
       (0x0028, MGMT_OP_SET_DEVICE_ID)]"

definition kernel_setting :: "mgmt_setting \<Rightarrow> 32 word" where
  "kernel_setting b =
     (case b of
        POWERED \<Rightarrow> 0x001 | CONNECTABLE \<Rightarrow> 0x002 | FAST_CONNECTABLE \<Rightarrow> 0x004
      | DISCOVERABLE \<Rightarrow> 0x008 | PAIRABLE \<Rightarrow> 0x010 | SSP \<Rightarrow> 0x040 | BREDR \<Rightarrow> 0x080
      | HS \<Rightarrow> 0x100 | LE \<Rightarrow> 0x200)"

definition bluetooth_base_uuid :: bytes where
  "bluetooth_base_uuid =
     [0x00, 0x00, 0x00, 0x00, 0x00, 0x00, 0x10, 0x00, 0x80, 0x00, 0x00, 0x80, 0x5F, 0x9B, 0x34, 0xFB]"

definition lib_sdp_uuid16_to_uuid128 :: "uuid_t \<Rightarrow> uuid_t" where
  "lib_sdp_uuid16_to_uuid128 u =
     \<lparr>uuid_type = SDP_UUID128,
      uuid_value = [0, 0, byte_at (uuid_value u) 1, byte_at (uuid_value u) 0] @
                   drop 4 bluetooth_base_uuid\<rparr>"

definition lib_sdp_uuid32_to_uuid128 :: "uuid_t \<Rightarrow> uuid_t" where
  "lib_sdp_uuid32_to_uuid128 u =
     \<lparr>uuid_type = SDP_UUID128,
      uuid_value = [byte_at (uuid_value u) 3, byte_at (uuid_value u) 2,
                    byte_at (uuid_value u) 1, byte_at (uuid_value u) 0] @
                   drop 4 bluetooth_base_uuid\<rparr>"

definition lib_sdp_uuid128_to_uuid :: "uuid_t \<Rightarrow> int \<times> uuid_t" where
  "lib_sdp_uuid128_to_uuid u =
     (if uuid_type u \<noteq> SDP_UUID128 then (1, u)
      else if drop 4 (take 16 (uuid_value u)) \<noteq> drop 4 bluetooth_base_uuid then (0, u)
      else if byte_at (uuid_value u) 0 = 0 \<and> byte_at (uuid_value u) 1 = 0
      then (1, \<lparr>uuid_type = SDP_UUID16,
                uuid_value = [byte_at (uuid_value u) 3, byte_at (uuid_value u) 2] @
                             drop 2 (uuid_value u)\<rparr>)
      else (1, \<lparr>uuid_type = SDP_UUID32,
                uuid_value = rev (take 4 (uuid_value u)) @ drop 4 (uuid_value u)\<rparr>))"

definition kernel_decls :: decls where
  "kernel_decls =
     \<lparr>sizeof = kernel_sizeof, fld = kernel_fld, event_code = kernel_event_code,
      command_code = kernel_command_code, MGMT_SETTING = kernel_setting,
      MGMT_STATUS_BUSY = 0x0a, MGMT_STATUS_DISCONNECTED = 0x0e,
      MGMT_DEV_DISCONN_UNKNOWN = 0x00, MGMT_DEV_FOUND_CONFIRM_NAME = 1,
      MGMT_DEV_FOUND_LEGACY_PAIRING = 2, BDADDR_BREDR = 0, BDADDR_LE_PUBLIC = 1,
      BDADDR_LE_RANDOM = 2, INVALID_PASSKEY = 0xffffffff,
      sdp_uuid16_to_uuid128 = lib_sdp_uuid16_to_uuid128,
      sdp_uuid32_to_uuid128 = lib_sdp_uuid32_to_uuid128,
      sdp_uuid128_to_uuid = lib_sdp_uuid128_to_uuid\<rparr>"

text \<open>
  An outside where every \<open>write\<close> succeeds, fresh memory is clear, and the adapter
  \<open>0\<close> with the device \<open>0\<close> answers every lookup; and one where no adapter is known.
\<close>

definition env_up :: env where
  "env_up =
     \<lparr>write_errno = (\<lambda>c. 0), heap_junk = (\<lambda>i. zero_info), buf_junk = (\<lambda>i. 0),
      manager_find_adapter = (\<lambda>a. Some 0), manager_find_adapter_by_id = (\<lambda>i. Some 0),
      adapter_get_device = (\<lambda>a b. Some 0), adapter_find_device = (\<lambda>a b. Some 0),
      btd_manager_register_adapter = (\<lambda>i p. Some 0), btd_adapter_get_name = (\<lambda>a. None),
      btd_adapter_get_major_minor = (\<lambda>a. (0, 0)), btd_adapter_get_pin = (\<lambda>a dv. (0, [], False)),
      device_is_bonding = (\<lambda>dv. False), device_is_temporary = (\<lambda>dv. False),
      device_is_connected = (\<lambda>dv. False), device_notify_pincode = (\<lambda>dv. 0),
      device_request_pincode = (\<lambda>dv. 0), device_request_passkey = (\<lambda>dv. 0),
      device_notify_passkey = (\<lambda>dv. 0), device_confirm_passkey = (\<lambda>dv. 0),
      eir_parse = (\<lambda>b. (0, None)), g_try_malloc0_fails = False, socket_errno = 0,
      bind_errno = 0\<rparr>"

definition env_none :: env where
  "env_none = env_up\<lparr>manager_find_adapter := (\<lambda>a. None),
     manager_find_adapter_by_id := (\<lambda>i. None), btd_manager_register_adapter := (\<lambda>i p. None)\<rparr>"

text \<open>Memory that \<open>g_realloc\<close> returns with the flag \<open>valid\<close> of every new slot set.\<close>

definition env_dirty :: env where
  "env_dirty = env_up\<lparr>heap_junk := (\<lambda>i. zero_info\<lparr>valid := True\<rparr>)\<rparr>"

text \<open>A table with one registered controller, index \<open>0\<close>, whose stored settings are \<open>cur\<close>.\<close>

definition one_controller :: "32 word \<Rightarrow> mgmt" where
  "one_controller cur =
     \<lparr>controllers = [zero_info\<lparr>valid := True, current_settings := cur\<rparr>],
      mgmt_version = 1, mgmt_revision = 0\<rparr>"

text \<open>A message: the header for \<open>opcode\<close> and \<open>index\<close>, then the payload.\<close>

definition le16_bytes :: "nat \<Rightarrow> bytes" where
  "le16_bytes n = [word_of_nat (n mod 256), word_of_nat (n div 256 mod 256)]"

definition message :: "nat \<Rightarrow> nat \<Rightarrow> bytes \<Rightarrow> input" where
  "message opcode index pl =
     Event {G_IO_IN} (ReadData (le16_bytes opcode @ le16_bytes index @ le16_bytes (length pl) @ pl))"

text \<open>The 16-bit UUIDs \<open>0x1101\<close> and \<open>0x1105\<close>, and a 128-bit UUID outside the Bluetooth base.\<close>

definition uuid_a :: uuid_t where
  "uuid_a = \<lparr>uuid_type = SDP_UUID16, uuid_value = [0x01, 0x11] @ replicate 14 0\<rparr>"

definition uuid_b :: uuid_t where
  "uuid_b = \<lparr>uuid_type = SDP_UUID16, uuid_value = [0x05, 0x11] @ replicate 14 0\<rparr>"

definition uuid_vendor :: uuid_t where
  "uuid_vendor = \<lparr>uuid_type = SDP_UUID128, uuid_value = replicate 16 0x42\<rparr>"

text \<open>
  The controller \<open>0\<close>, powered, with an add-UUID command in flight and, queued behind it,
  one UUID, a class of device and a power-on.
\<close>

definition queued_controller :: mgmt where
  "queued_controller =
     \<lparr>controllers = [zero_info\<lparr>valid := True, current_settings := 1, pending_uuid := True,
        pending_uuids := [\<lparr>add = True, uuid = uuid_b, svc_hint = 0\<rparr>],
        pending_class := True, major := 1, minor := 4, pending_powered := True\<rparr>],
      mgmt_version = 1, mgmt_revision = 0\<rparr>"

text \<open>
  Two runs for the controller \<open>0\<close>: two UUIDs are added and the reply to the first command
  arrives; a UUID is added, the power goes off, and a second UUID is added.
\<close>

definition two_adds_then_reply :: "(env \<times> input) list" where
  "two_adds_then_reply =
     [(env_up, Add_uuid 0 uuid_a 0), (env_up, Add_uuid 0 uuid_b 0),
      (env_up, message 1 0 [0x10, 0, 0, 0, 0, 0])]"

definition add_power_off_add :: "(env \<times> input) list" where
  "add_power_off_add =
     [(env_up, Add_uuid 0 uuid_a 0), (env_up, message 6 0 [0, 0, 0, 0]),
      (env_up, Add_uuid 0 uuid_b 0)]"

section \<open>Properties\<close>

subsection \<open>Basic facts\<close>

lemma max_index_less [simp]:
  "(max_index s < uint (i::16 word)) = (length (controllers s) \<le> unat i)"
proof -
  have "uint i = int (unat i)" by (rule uint_nat)
  then show ?thesis unfolding max_index_def by linarith
qed

lemma max_index_int [simp]:
  "(index < 0 \<or> max_index s < index) = (\<not> (0 \<le> index \<and> nat index < length (controllers s)))"
  unfolding max_index_def by linarith

lemma controllers_put_info [simp]:
  "controllers (put_info n info s) = (controllers s)[n := info]"
  by (simp add: put_info_def)

lemma put_info_fields [simp]:
  "mgmt_version (put_info n info s) = mgmt_version s"
  "mgmt_revision (put_info n info s) = mgmt_revision s"
  by (simp_all add: put_info_def)

lemma nat_uint16 [simp]: "nat (uint (i::16 word)) = unat i"
  by (rule unat_eq_nat_uint [symmetric])

lemma max_index_le [simp]:
  "(uint (i::16 word) \<le> max_index s) = (unat i < length (controllers s))"
  using max_index_less [of s i] by linarith

text \<open>The definitions that run a handler on one of the concrete messages.\<close>

lemmas fixture_defs =
  kernel_decls_def kernel_sizeof_def kernel_fld_def kernel_layout_def kernel_event_code_def
  kernel_command_code_def kernel_setting_def env_up_def env_none_def env_dirty_def
  one_controller_def queued_controller_def message_def le16_bytes_def zero_info_def

lemmas frame_defs =
  mgmt_event_def dispatch_event_def drop_ret_def MGMT_BUF_SIZE_def MGMT_HDR_SIZE_def
  sizeof_mgmt_ev_cmd_complete_def sizeof_mgmt_ev_cmd_status_def bt_get_le16_def
  bt_get_le32_def byte_at_def get_u8_def max_index_def Let_def

subsection \<open>C7: registering a controller\<close>

text \<open>
  C7 says that \<open>add_controller\<close> grows the table with every new slot cleared, so that after
  registering index 2 in an empty table the index 0 is unknown. The code clears the slot
  \<open>index\<close> only: the slots 0 and 1 hold what \<open>g_realloc\<close> left there. With memory whose
  \<open>valid\<close> flag reads as set, \<open>remove_controller\<close> takes the never registered index 0 for a
  registered controller and reports its removal to the adapter layer. (The slot 2 itself
  is cleared and valid, as C7 says.)
\<close>

theorem add_controller_new_slots_not_cleared:
  "controllers (add_controller env 2 mgmt_init) =
     [heap_junk env 0, heap_junk env 1, zero_info\<lparr>valid := True\<rparr>] \<and>
   snd (remove_controller 0 (add_controller env_dirty 2 mgmt_init)) =
     [Call ''btd_manager_unregister_adapter'' [VInt 0]]"
  by (simp add: add_controller_def mgmt_init_def max_index_def remove_controller_def
      env_dirty_def env_up_def upt_rec)

subsection \<open>C9: UUIDs that are not 16-bit\<close>

text \<open>
  C9: when \<open>is_16bit_uuid\<close> rejects the UUID (it is not the all-zero 128-bit UUID and does
  not reduce to a 16-bit one), \<open>mgmt_add_uuid\<close> and \<open>mgmt_remove_uuid\<close> return 0, write no
  command (the only effect is the warning) and leave the globals, the flag and the queue
  among them, as they were; this holds for every index, in the table or not.
\<close>

theorem non_16bit_uuid_ignored:
  assumes "\<not> is_16bit_uuid d u"
  shows "mgmt_add_uuid env d index u hint s =
           Ok (0, s, [LogWarn ''mgmt_add_uuid: Ignoring non-16-bit UUID'']) \<and>
         mgmt_remove_uuid env d index u s =
           Ok (0, s, [LogWarn ''mgmt_remove_uuid: Ignoring non-16-bit UUID''])"
  using assms by (simp add: mgmt_add_uuid_def mgmt_remove_uuid_def)

lemma vendor_not_16bit: "\<not> is_16bit_uuid kernel_decls uuid_vendor"
  by code_simp

theorem non_16bit_uuid_ignored_witness:
  "\<not> is_16bit_uuid kernel_decls uuid_vendor \<and>
   mgmt_add_uuid env_up kernel_decls 0 uuid_vendor 7 queued_controller =
     Ok (0, queued_controller, [LogWarn ''mgmt_add_uuid: Ignoring non-16-bit UUID'']) \<and>
   mgmt_remove_uuid env_up kernel_decls 0 uuid_vendor queued_controller =
     Ok (0, queued_controller, [LogWarn ''mgmt_remove_uuid: Ignoring non-16-bit UUID''])"
  using non_16bit_uuid_ignored [OF vendor_not_16bit, of env_up 0 7 queued_controller]
    vendor_not_16bit by simp

subsection \<open>C10: power requests\<close>

text \<open>
  C10: for a controller of the table, \<open>mgmt_set_powered\<close> with \<open>powered = FALSE\<close> always
  hands the command to \<open>write\<close>, whatever \<open>pending_uuid\<close> is, and clears \<open>pending_powered\<close>;
  with \<open>powered = TRUE\<close> it writes nothing and sets \<open>pending_powered\<close> exactly when
  \<open>pending_uuid\<close> is set, and otherwise writes the command at once.
\<close>

theorem set_powered_off_is_never_deferred:
  assumes "0 \<le> index" and "index \<le> max_index s"
  shows "mgmt_set_powered env index False s =
           Ok (- write_errno env (Command MGMT_OP_SET_POWERED (word_of_int index) [VByte 0]),
               put_info (nat index) ((controllers s ! nat index)\<lparr>pending_powered := False\<rparr>) s,
               [if write_errno env (Command MGMT_OP_SET_POWERED (word_of_int index) [VByte 0]) = 0
                then Write (Command MGMT_OP_SET_POWERED (word_of_int index) [VByte 0])
                else WriteFailed (Command MGMT_OP_SET_POWERED (word_of_int index) [VByte 0])
                       (write_errno env (Command MGMT_OP_SET_POWERED (word_of_int index) [VByte 0]))]) \<and>
         mgmt_set_powered env index True s =
           (if pending_uuid (controllers s ! nat index)
            then Ok (0, put_info (nat index)
                          ((controllers s ! nat index)\<lparr>pending_powered := True\<rparr>) s, [])
            else Ok (- write_errno env (Command MGMT_OP_SET_POWERED (word_of_int index) [VByte 1]),
                     s,
                     [if write_errno env (Command MGMT_OP_SET_POWERED (word_of_int index) [VByte 1]) = 0
                      then Write (Command MGMT_OP_SET_POWERED (word_of_int index) [VByte 1])
                      else WriteFailed (Command MGMT_OP_SET_POWERED (word_of_int index) [VByte 1])
                             (write_errno env
                                (Command MGMT_OP_SET_POWERED (word_of_int index) [VByte 1]))]))"
proof -
  from assms have "\<not> (index < 0 \<or> max_index s < index)" by simp
  then show ?thesis
    unfolding mgmt_set_powered_def mgmt_set_mode_def mgmt_write_def
    by (simp add: Let_def del: max_index_int)
qed

theorem set_powered_off_is_never_deferred_witness:
  "(0::int) \<le> 0 \<and> 0 \<le> max_index queued_controller \<and>
   pending_uuid (controllers queued_controller ! 0) \<and>
   pending_powered (controllers queued_controller ! 0) \<and>
   mgmt_set_powered env_up 0 False queued_controller =
     Ok (0, put_info 0 ((controllers queued_controller ! 0)\<lparr>pending_powered := False\<rparr>)
              queued_controller,
         [Write (Command MGMT_OP_SET_POWERED 0 [VByte 0])]) \<and>
   mgmt_set_powered env_up 0 True queued_controller =
     Ok (0, put_info 0 ((controllers queued_controller ! 0)\<lparr>pending_powered := True\<rparr>)
              queued_controller, [])"
proof -
  have h: "(0::int) \<le> 0" "0 \<le> max_index queued_controller"
    by (simp_all add: max_index_def queued_controller_def)
  show ?thesis
    using set_powered_off_is_never_deferred [OF h, of env_up] h
    by (simp add: queued_controller_def env_up_def)
qed

subsection \<open>C2: the power goes off\<close>

text \<open>
  C2, as amended: when a settings signal that passes the checks of \<open>mgmt_new_settings\<close>
  (four bytes at least, an index of the table, an adapter for the controller) reports the
  power off while the stored settings have it on, the handler stops the adapter, empties
  the queue of UUIDs and clears \<open>pending_uuid\<close>, \<open>pending_class\<close> and \<open>pending_cod_change\<close>;
  it leaves \<open>pending_powered\<close>, the deferred power-on, as it was.
\<close>

theorem power_off_clears_uuid_and_class_queue:
  assumes "4 \<le> len" and "uint index \<le> max_index s"
    and "manager_find_adapter env (bdaddr (controllers s ! unat index)) = Some adapter"
    and "mgmt_powered d (current_settings (controllers s ! unat index))"
    and "\<not> mgmt_powered d (bt_get_le32 buf)"
  shows "mgmt_new_settings env d index buf len s =
           Ok (put_info (unat index)
                 ((controllers s ! unat index)
                    \<lparr>pending_uuids := [], pending_uuid := False, pending_class := False,
                     pending_cod_change := False, current_settings := bt_get_le32 buf\<rparr>) s,
               [Call ''manager_find_adapter'' [VBytes (bdaddr (controllers s ! unat index))],
                Call ''btd_adapter_stop'' [VAdapter adapter]]) \<and>
         pending_powered
           ((controllers s ! unat index)
              \<lparr>pending_uuids := [], pending_uuid := False, pending_class := False,
               pending_cod_change := False, current_settings := bt_get_le32 buf\<rparr>) =
           pending_powered (controllers s ! unat index)"
proof -
  from assms show ?thesis
    unfolding mgmt_new_settings_def mgmt_update_powered_def
    by (simp add: Let_def)
qed

theorem power_off_clears_uuid_and_class_queue_witness:
  "(4::nat) \<le> 4 \<and> uint (0::16 word) \<le> max_index queued_controller \<and>
   manager_find_adapter env_up (bdaddr (controllers queued_controller ! unat (0::16 word))) = Some 0 \<and>
   mgmt_powered kernel_decls (current_settings (controllers queued_controller ! unat (0::16 word))) \<and>
   \<not> mgmt_powered kernel_decls (bt_get_le32 [0, 0, 0, 0]) \<and>
   mgmt_new_settings env_up kernel_decls 0 [0, 0, 0, 0] 4 queued_controller =
     Ok (\<lparr>controllers = [zero_info\<lparr>valid := True, major := 1, minor := 4,
                            pending_powered := True\<rparr>],
          mgmt_version = 1, mgmt_revision = 0\<rparr>,
         [Call ''manager_find_adapter'' [VBytes (replicate 6 0)],
          Call ''btd_adapter_stop'' [VAdapter 0]])"
proof -
  have h: "(4::nat) \<le> 4" "uint (0::16 word) \<le> max_index queued_controller"
    "manager_find_adapter env_up (bdaddr (controllers queued_controller ! unat (0::16 word))) = Some 0"
    "mgmt_powered kernel_decls (current_settings (controllers queued_controller ! unat (0::16 word)))"
    "\<not> mgmt_powered kernel_decls (bt_get_le32 [0, 0, 0, 0])"
    by (simp_all add: max_index_def queued_controller_def env_up_def mgmt_powered_def
        kernel_decls_def kernel_setting_def bt_get_le32_def byte_at_def zero_info_def)
  show ?thesis
    using power_off_clears_uuid_and_class_queue [OF h] h
    by (simp add: queued_controller_def zero_info_def put_info_def bt_get_le32_def byte_at_def)
qed

text \<open>
  C2 as stated fails: with a UUID, a class and a power-on queued behind a command in
  flight, the settings event that reports the power off leaves \<open>pending_powered\<close> set.
\<close>

theorem power_off_keeps_deferred_power_on:
  "pending_powered (controllers queued_controller ! 0) \<and>
   step env_up kernel_decls (message 6 0 [0, 0, 0, 0]) queued_controller =
     Ok (\<lparr>controllers = [zero_info\<lparr>valid := True, major := 1, minor := 4,
                            pending_powered := True\<rparr>],
          mgmt_version = 1, mgmt_revision = 0\<rparr>,
         [Call ''manager_find_adapter'' [VBytes (replicate 6 0)],
          Call ''btd_adapter_stop'' [VAdapter 0]])"
  by (simp add: fixture_defs frame_defs mgmt_new_settings_def mgmt_update_powered_def
      mgmt_powered_def put_info_def)

subsection \<open>C3: events with a trailing blob\<close>

text \<open>
  C3, as amended: \<open>mgmt_device_found\<close> takes a payload only when its length is the size of
  the struct plus the declared \<open>eir_len\<close>, exactly; with any other length it logs an error
  and returns with no call and no change. \<open>mgmt_device_connected\<close> rejects a payload shorter
  than the size of the struct plus the declared \<open>eir_len\<close> in the same way, and takes every
  payload that is at least that long: bytes after the declared blob do not make it reject
  the event. (A payload that is taken is handled for an index of the table, starting with
  the lookup of the adapter.)
\<close>

theorem device_found_exact_device_connected_at_least:
  "(len \<noteq> sizeof d Mgmt_ev_device_found +
            unat (bt_get_le16 (fld d Mgmt_ev_device_found ''eir_len'' buf)) \<longrightarrow>
      mgmt_device_found env d index buf len s =
        Ok (s, [LogError (if len < sizeof d Mgmt_ev_device_found
                          then ''mgmt_device_found too short (%zu bytes)''
                          else ''mgmt_device_found event size mismatch (%zu != %zu)'')])) \<and>
   (len = sizeof d Mgmt_ev_device_found +
            unat (bt_get_le16 (fld d Mgmt_ev_device_found ''eir_len'' buf)) \<and>
    uint index \<le> max_index s \<longrightarrow>
      (\<exists>tr. mgmt_device_found env d index buf len s =
         Ok (s, Call ''manager_find_adapter'' [VBytes (bdaddr (controllers s ! unat index))] # tr))) \<and>
   (len < sizeof d Mgmt_ev_device_connected +
            unat (bt_get_le16 (fld d Mgmt_ev_device_connected ''eir_len'' buf)) \<longrightarrow>
      mgmt_device_connected env d index buf len s =
        Ok (s, [LogError ''Too small device_connected event''])) \<and>
   (sizeof d Mgmt_ev_device_connected +
      unat (bt_get_le16 (fld d Mgmt_ev_device_connected ''eir_len'' buf)) \<le> len \<and>
    uint index \<le> max_index s \<longrightarrow>
      (\<exists>tr. mgmt_device_connected env d index buf len s =
         Ok (s, Call ''manager_find_adapter'' [VBytes (bdaddr (controllers s ! unat index))] # tr)))"
proof (intro conjI impI)
  assume "len \<noteq> sizeof d Mgmt_ev_device_found +
            unat (bt_get_le16 (fld d Mgmt_ev_device_found ''eir_len'' buf))"
  then show "mgmt_device_found env d index buf len s =
        Ok (s, [LogError (if len < sizeof d Mgmt_ev_device_found
                          then ''mgmt_device_found too short (%zu bytes)''
                          else ''mgmt_device_found event size mismatch (%zu != %zu)'')])"
    by (simp add: mgmt_device_found_def Let_def)
next
  assume "len = sizeof d Mgmt_ev_device_found +
            unat (bt_get_le16 (fld d Mgmt_ev_device_found ''eir_len'' buf)) \<and>
          uint index \<le> max_index s"
  then show "\<exists>tr. mgmt_device_found env d index buf len s =
         Ok (s, Call ''manager_find_adapter'' [VBytes (bdaddr (controllers s ! unat index))] # tr)"
    by (simp add: mgmt_device_found_def Let_def split: option.split)
next
  assume "len < sizeof d Mgmt_ev_device_connected +
            unat (bt_get_le16 (fld d Mgmt_ev_device_connected ''eir_len'' buf))"
  then show "mgmt_device_connected env d index buf len s =
        Ok (s, [LogError ''Too small device_connected event''])"
    by (simp add: mgmt_device_connected_def Let_def)
next
  assume "sizeof d Mgmt_ev_device_connected +
      unat (bt_get_le16 (fld d Mgmt_ev_device_connected ''eir_len'' buf)) \<le> len \<and>
    uint index \<le> max_index s"
  then show "\<exists>tr. mgmt_device_connected env d index buf len s =
         Ok (s, Call ''manager_find_adapter'' [VBytes (bdaddr (controllers s ! unat index))] # tr)"
    by (simp add: mgmt_device_connected_def get_adapter_and_device_def Let_def
        split: option.split prod.split)
qed

lemmas handler_eval =
  mgmt_device_found_def mgmt_device_connected_def get_adapter_and_device_def

theorem device_found_exact_device_connected_at_least_witness:
  "mgmt_device_found env_up kernel_decls 0
     [1, 2, 3, 4, 5, 6, 0, 0, 0, 0, 0, 0, 5, 0, 9, 9, 9] 17 (one_controller 1) =
     Ok (one_controller 1, [LogError ''mgmt_device_found event size mismatch (%zu != %zu)'']) \<and>
   mgmt_device_connected env_up kernel_decls 0
     [1, 2, 3, 4, 5, 6, 0, 0, 0, 0, 0, 5, 0, 9, 9, 9] 16 (one_controller 1) =
     Ok (one_controller 1, [LogError ''Too small device_connected event'']) \<and>
   (\<exists>tr. mgmt_device_found env_up kernel_decls 0
           [1, 2, 3, 4, 5, 6, 0, 0, 0, 0, 0, 0, 3, 0, 9, 9, 9] 17 (one_controller 1) =
      Ok (one_controller 1, Call ''manager_find_adapter'' [VBytes (replicate 6 0)] # tr)) \<and>
   (\<exists>tr. mgmt_device_connected env_up kernel_decls 0
           [1, 2, 3, 4, 5, 6, 0, 0, 0, 0, 0, 3, 0, 9, 9, 9, 9] 17 (one_controller 1) =
      Ok (one_controller 1, Call ''manager_find_adapter'' [VBytes (replicate 6 0)] # tr))"
  using device_found_exact_device_connected_at_least
          [of 17 kernel_decls "[1, 2, 3, 4, 5, 6, 0, 0, 0, 0, 0, 0, 5, 0, 9, 9, 9]" env_up 0
              "one_controller 1"]
        device_found_exact_device_connected_at_least
          [of 16 kernel_decls "[1, 2, 3, 4, 5, 6, 0, 0, 0, 0, 0, 5, 0, 9, 9, 9]" env_up 0
              "one_controller 1"]
        device_found_exact_device_connected_at_least
          [of 17 kernel_decls "[1, 2, 3, 4, 5, 6, 0, 0, 0, 0, 0, 0, 3, 0, 9, 9, 9]" env_up 0
              "one_controller 1"]
        device_found_exact_device_connected_at_least
          [of 17 kernel_decls "[1, 2, 3, 4, 5, 6, 0, 0, 0, 0, 0, 3, 0, 9, 9, 9, 9]" env_up 0
              "one_controller 1"]
  by (simp add: fixture_defs frame_defs)

text \<open>
  C3 as stated fails for the device-connected event: a payload of 14 bytes that declares
  no advertising data (the struct has 13 bytes) is taken and reported to the adapter.
\<close>

theorem device_connected_accepts_trailing_bytes:
  "(14::nat) \<noteq> sizeof kernel_decls Mgmt_ev_device_connected +
      unat (bt_get_le16 (fld kernel_decls Mgmt_ev_device_connected ''eir_len''
              [1, 2, 3, 4, 5, 6, 0, 0, 0, 0, 0, 0, 0, 9])) \<and>
   step env_up kernel_decls (message 0xb 0 [1, 2, 3, 4, 5, 6, 0, 0, 0, 0, 0, 0, 0, 9])
     (one_controller 1) =
     Ok (one_controller 1,
         [Call ''manager_find_adapter'' [VBytes (replicate 6 0)],
          Call ''adapter_get_device'' [VAdapter 0, VBytes [1, 2, 3, 4, 5, 6, 0]],
          Call ''adapter_add_connection'' [VAdapter 0, VDevice (Some 0)],
          Call ''eir_data_free'' []])"
  by (simp add: fixture_defs frame_defs handler_eval)

subsection \<open>The queue of pending UUIDs\<close>

lemma put_info_put_info [simp]:
  "put_info n a (put_info n b s) = put_info n a s"
  by (simp add: put_info_def)

lemma word_of_int_uint16 [simp]: "word_of_int (uint (i::16 word)) = i"
  by simp

lemma mgmt_write_eq: "mgmt_write env c = (- write_errno env c, [write_effect env c])"
  by (simp add: mgmt_write_def write_effect_def)

lemma clear_pending_class: "\<not> pending_class x \<Longrightarrow> x\<lparr>pending_class := False\<rparr> = x"
  by simp

lemma clear_pending_powered: "\<not> pending_powered x \<Longrightarrow> x\<lparr>pending_powered := False\<rparr> = x"
  by simp

text \<open>What the three public functions do for an index of the table.\<close>

lemma mgmt_add_uuid_in_table:
  assumes "unat i < length (controllers s)" and "is_16bit_uuid d u"
  shows "mgmt_add_uuid env d (uint i) u h s =
     (let info = controllers s ! unat i;
          c = uuid_command d i \<lparr>add = True, uuid = u, svc_hint = h\<rparr>
      in if pending_uuid info
         then Ok (0, put_info (unat i)
                       (info\<lparr>pending_uuids := pending_uuids info @
                          [\<lparr>add = True, uuid = u, svc_hint = h\<rparr>]\<rparr>) s, [])
         else if write_errno env c \<noteq> 0 then Ok (- write_errno env c, s, [write_effect env c])
         else Ok (0, put_info (unat i) (info\<lparr>pending_uuid := True\<rparr>) s, [write_effect env c]))"
  using assms
  by (simp add: mgmt_add_uuid_def uuid_command_def write_effect_def Let_def)

lemma mgmt_remove_uuid_in_table:
  assumes "unat i < length (controllers s)" and "is_16bit_uuid d u"
  shows "mgmt_remove_uuid env d (uint i) u s =
     (let info = controllers s ! unat i;
          c = uuid_command d i \<lparr>add = False, uuid = u, svc_hint = 0\<rparr>
      in if pending_uuid info
         then Ok (0, put_info (unat i)
                       (info\<lparr>pending_uuids := pending_uuids info @
                          [\<lparr>add = False, uuid = u, svc_hint = 0\<rparr>]\<rparr>) s, [])
         else if write_errno env c \<noteq> 0 then Ok (- write_errno env c, s, [write_effect env c])
         else Ok (0, put_info (unat i) (info\<lparr>pending_uuid := True\<rparr>) s, [write_effect env c]))"
  using assms
  by (simp add: mgmt_remove_uuid_def uuid_command_def write_effect_def Let_def)

lemma send_pending_class_eq:
  assumes "unat i < length (controllers s)" and "\<not> pending_uuid (controllers s ! unat i)"
  shows "send_pending_class env i s =
     (let info = controllers s ! unat i in
      if pending_class info
      then Ok (put_info (unat i) (info\<lparr>pending_class := False\<rparr>) s,
               [write_effect env (Command MGMT_OP_SET_DEV_CLASS i
                  [VByte (major info), VByte (minor info)])])
      else Ok (s, []))"
  using assms
  by (simp add: send_pending_class_def mgmt_set_dev_class_def mgmt_write_eq Let_def)

lemma send_pending_powered_eq:
  assumes "unat i < length (controllers s)" and "\<not> pending_uuid (controllers s ! unat i)"
  shows "send_pending_powered env i s =
     (let info = controllers s ! unat i in
      if pending_powered info
      then Ok (put_info (unat i) (info\<lparr>pending_powered := False\<rparr>) s,
               [write_effect env (Command MGMT_OP_SET_POWERED i [VByte 1])])
      else Ok (s, []))"
  using assms
  by (simp add: send_pending_powered_def mgmt_set_powered_def mgmt_set_mode_def mgmt_write_eq
      Let_def)

text \<open>
  \<open>handle_pending_uuids\<close> for an index of the table: with an empty queue it clears the flag
  and sends the pending class and the pending power-on; otherwise it pops the head of the
  queue and hands its command to \<open>write\<close>, and the flag is set again exactly when the
  write succeeded.
\<close>

lemma handle_pending_uuids_empty:
  assumes "unat i < length (controllers s)" and "pending_uuids (controllers s ! unat i) = []"
  shows "handle_pending_uuids env d i s =
     (let info = controllers s ! unat i in
      Ok (put_info (unat i)
            (info\<lparr>pending_uuid := False, pending_class := False, pending_powered := False\<rparr>) s,
          (if pending_class info
           then [write_effect env (Command MGMT_OP_SET_DEV_CLASS i
                   [VByte (major info), VByte (minor info)])]
           else []) @
          (if pending_powered info
           then [write_effect env (Command MGMT_OP_SET_POWERED i [VByte 1])]
           else [])))"
proof -
  let ?info = "(controllers s ! unat i)\<lparr>pending_uuid := False\<rparr>"
  let ?s1 = "put_info (unat i) ?info s"
  have l1: "unat i < length (controllers ?s1)" using assms(1) by simp
  have n1: "controllers ?s1 ! unat i = ?info" using assms(1) by simp
  have f1: "\<not> pending_uuid (controllers ?s1 ! unat i)" using n1 by simp
  note c = send_pending_class_eq [OF l1 f1, of env]
  show ?thesis
  proof (cases "pending_class (controllers s ! unat i)")
    case True
    let ?s2 = "put_info (unat i) (?info\<lparr>pending_class := False\<rparr>) s"
    have c2: "send_pending_class env i ?s1 =
        Ok (?s2, [write_effect env (Command MGMT_OP_SET_DEV_CLASS i
                  [VByte (major (controllers s ! unat i)), VByte (minor (controllers s ! unat i))])])"
      using c True assms(1) by (simp add: Let_def)
    have l2: "unat i < length (controllers ?s2)" using assms(1) by simp
    have f2: "\<not> pending_uuid (controllers ?s2 ! unat i)" using assms(1) by simp
    note p = send_pending_powered_eq [OF l2 f2, of env]
    show ?thesis
      using assms True c2 p
      by (simp add: handle_pending_uuids_def Let_def clear_pending_powered)
  next
    case False
    have c2: "send_pending_class env i ?s1 = Ok (?s1, [])"
      using c False assms(1) by (simp add: Let_def)
    note p = send_pending_powered_eq [OF l1 f1, of env]
    show ?thesis
      using assms False c2 p
      by (simp add: handle_pending_uuids_def Let_def clear_pending_powered clear_pending_class)
  qed
qed

lemma handle_pending_uuids_head:
  assumes "unat i < length (controllers s)"
    and "pending_uuids (controllers s ! unat i) = p # ps"
    and "is_16bit_uuid d (uuid p)"
  shows "handle_pending_uuids env d i s =
     (let info = controllers s ! unat i in
      Ok (put_info (unat i)
            (info\<lparr>pending_uuid := (write_errno env (uuid_command d i p) = 0),
                  pending_uuids := ps\<rparr>) s,
          [write_effect env (uuid_command d i p)]))"
proof -
  let ?info = "(controllers s ! unat i)\<lparr>pending_uuid := False\<rparr>"
  let ?s1 = "put_info (unat i) ?info s"
  have l1: "unat i < length (controllers ?s1)" using assms(1) by simp
  have n1: "controllers ?s1 ! unat i = ?info" using assms(1) by simp
  show ?thesis
  proof (cases "add p")
    case True
    have pe: "\<lparr>add = True, uuid = uuid p, svc_hint = svc_hint p\<rparr> = p" using True by simp
    show ?thesis
      using assms True mgmt_add_uuid_in_table [OF l1 assms(3), of env "svc_hint p"] n1
      by (simp add: handle_pending_uuids_def Let_def pe)
  next
    case False
    have uc: "uuid_command d i \<lparr>add = False, uuid = uuid p, svc_hint = 0\<rparr> = uuid_command d i p"
      using False by (simp add: uuid_command_def)
    show ?thesis
      using assms False mgmt_remove_uuid_in_table [OF l1 assms(3), of env] n1
      by (simp add: handle_pending_uuids_def Let_def uc)
  qed
qed

lemma handle_pending_uuids_head_ignored:
  assumes "unat i < length (controllers s)"
    and "pending_uuids (controllers s ! unat i) = p # ps"
    and "\<not> is_16bit_uuid d (uuid p)"
  shows "handle_pending_uuids env d i s =
     Ok (put_info (unat i)
           ((controllers s ! unat i)\<lparr>pending_uuid := False, pending_uuids := ps\<rparr>) s,
         [LogWarn (if add p then ''mgmt_add_uuid: Ignoring non-16-bit UUID''
                   else ''mgmt_remove_uuid: Ignoring non-16-bit UUID'')])"
  using assms
  by (simp add: handle_pending_uuids_def mgmt_add_uuid_def mgmt_remove_uuid_def Let_def)

lemma mgmt_update_cod_in_table:
  assumes "unat i < length (controllers s)"
  shows "\<exists>tr. mgmt_update_cod env d i buf len s = Ok (s, tr) \<and> uuid_writes j tr = []"
  using assms
  by (simp add: mgmt_update_cod_def Let_def uuid_writes_def is_uuid_write_def
      split: option.split)

subsection \<open>C8: a busy status for add-UUID\<close>

text \<open>
  C8: a command-status event for add-UUID with the status ``busy'', for a controller of
  the table, sets \<open>pending_cod_change\<close> of that controller and does nothing else: no
  effect, no other change. When a class-of-device-changed event then arrives for the
  controller while the flag is set, \<open>mgmt_cod_changed\<close> clears the flag and runs
  \<open>handle_pending_uuids\<close>: with an empty queue \<open>pending_uuid\<close> ends clear and no UUID command
  is written; otherwise the head of the queue is popped, its command is the first effect
  and the only UUID command, and \<open>pending_uuid\<close> ends set exactly when the write succeeded.
\<close>

theorem add_uuid_busy_then_cod_changed_resumes:
  "(sizeof_mgmt_ev_cmd_status \<le> len \<and>
    command_code d (bt_get_le16 buf) = Some MGMT_OP_ADD_UUID \<and>
    byte_at buf 2 = MGMT_STATUS_BUSY d \<and> MGMT_STATUS_BUSY d \<noteq> 0 \<and>
    uint index \<le> max_index s \<longrightarrow>
      mgmt_cmd_status env d index buf len s =
        Ok (put_info (unat index)
              ((controllers s ! unat index)\<lparr>pending_cod_change := True\<rparr>) s, [])) \<and>
   (uint index \<le> max_index s \<and> pending_cod_change (controllers s ! unat index) \<longrightarrow>
      (\<exists>s' tr. mgmt_cod_changed env d index buf len s = Ok (s', tr) \<and>
         length (controllers s') = length (controllers s) \<and>
         \<not> pending_cod_change (controllers s' ! unat index) \<and>
         (pending_uuids (controllers s ! unat index) = [] \<longrightarrow>
            \<not> pending_uuid (controllers s' ! unat index) \<and> uuid_writes index tr = []) \<and>
         (\<forall>p ps. pending_uuids (controllers s ! unat index) = p # ps \<and>
                  is_16bit_uuid d (uuid p) \<longrightarrow>
            pending_uuids (controllers s' ! unat index) = ps \<and>
            take 1 tr = [write_effect env (uuid_command d index p)] \<and>
            uuid_writes index (drop 1 tr) = [] \<and>
            pending_uuid (controllers s' ! unat index) =
              (write_errno env (uuid_command d index p) = 0))))"
proof (intro conjI impI)
  assume "sizeof_mgmt_ev_cmd_status \<le> len \<and>
    command_code d (bt_get_le16 buf) = Some MGMT_OP_ADD_UUID \<and>
    byte_at buf 2 = MGMT_STATUS_BUSY d \<and> MGMT_STATUS_BUSY d \<noteq> 0 \<and>
    uint index \<le> max_index s"
  then show "mgmt_cmd_status env d index buf len s =
        Ok (put_info (unat index)
              ((controllers s ! unat index)\<lparr>pending_cod_change := True\<rparr>) s, [])"
    by (simp add: mgmt_cmd_status_def mgmt_add_uuid_busy_def Let_def)
next
  assume a: "uint index \<le> max_index s \<and> pending_cod_change (controllers s ! unat index)"
  let ?n = "unat index"
  let ?info = "(controllers s ! ?n)\<lparr>pending_cod_change := False\<rparr>"
  let ?s1 = "put_info ?n ?info s"
  from a have l: "?n < length (controllers s)" by simp
  have l1: "?n < length (controllers ?s1)" using l by simp
  have n1: "controllers ?s1 ! ?n = ?info" using l by simp
  have cc: "mgmt_cod_changed env d index buf len s =
      and_then (handle_pending_uuids env d index ?s1) (mgmt_update_cod env d index buf len)"
    using a l by (simp add: mgmt_cod_changed_def Let_def)
  show "\<exists>s' tr. mgmt_cod_changed env d index buf len s = Ok (s', tr) \<and>
         length (controllers s') = length (controllers s) \<and>
         \<not> pending_cod_change (controllers s' ! unat index) \<and>
         (pending_uuids (controllers s ! unat index) = [] \<longrightarrow>
            \<not> pending_uuid (controllers s' ! unat index) \<and> uuid_writes index tr = []) \<and>
         (\<forall>p ps. pending_uuids (controllers s ! unat index) = p # ps \<and>
                  is_16bit_uuid d (uuid p) \<longrightarrow>
            pending_uuids (controllers s' ! unat index) = ps \<and>
            take 1 tr = [write_effect env (uuid_command d index p)] \<and>
            uuid_writes index (drop 1 tr) = [] \<and>
            pending_uuid (controllers s' ! unat index) =
              (write_errno env (uuid_command d index p) = 0))"
  proof (cases "pending_uuids (controllers s ! ?n)")
    case Nil
    then have q: "pending_uuids (controllers ?s1 ! ?n) = []" using n1 by simp
    let ?s2 = "put_info ?n
          (?info\<lparr>pending_uuid := False, pending_class := False, pending_powered := False\<rparr>) s"
    have l2: "?n < length (controllers ?s2)" using l by simp
    obtain trc where trc: "mgmt_update_cod env d index buf len ?s2 = Ok (?s2, trc)"
        "uuid_writes index trc = []"
      using mgmt_update_cod_in_table [OF l2] by blast
    show ?thesis
      using cc handle_pending_uuids_empty [OF l1 q, of env d] n1 trc l Nil
      by (simp add: and_then_def Let_def uuid_writes_def is_uuid_write_def write_effect_def)
  next
    case (Cons p ps)
    then have q: "pending_uuids (controllers ?s1 ! ?n) = p # ps" using n1 by simp
    show ?thesis
    proof (cases "is_16bit_uuid d (uuid p)")
      case True
      let ?s2 = "put_info ?n
          (?info\<lparr>pending_uuid := (write_errno env (uuid_command d index p) = 0),
                  pending_uuids := ps\<rparr>) s"
      have l2: "?n < length (controllers ?s2)" using l by simp
      obtain trc where trc: "mgmt_update_cod env d index buf len ?s2 = Ok (?s2, trc)"
          "uuid_writes index trc = []"
        using mgmt_update_cod_in_table [OF l2] by blast
      show ?thesis
        using cc handle_pending_uuids_head [OF l1 q True, of env] n1 trc l Cons
        by (simp add: and_then_def Let_def)
    next
      case False
      let ?s2 = "put_info ?n (?info\<lparr>pending_uuid := False, pending_uuids := ps\<rparr>) s"
      have l2: "?n < length (controllers ?s2)" using l by simp
      obtain trc where trc: "mgmt_update_cod env d index buf len ?s2 = Ok (?s2, trc)"
          "uuid_writes index trc = []"
        using mgmt_update_cod_in_table [OF l2] by blast
      show ?thesis
        using cc handle_pending_uuids_head_ignored [OF l1 q False, of env] n1 trc l Cons False
        by (simp add: and_then_def Let_def)
    qed
  qed
qed
lemma uuid_b_16bit: "is_16bit_uuid kernel_decls uuid_b"
  by code_simp

lemma uuid_b_command:
  "uuid_command kernel_decls 0 \<lparr>add = True, uuid = uuid_b, svc_hint = 0\<rparr> =
     Command MGMT_OP_ADD_UUID 0
       [VBytes [251, 52, 155, 95, 128, 0, 0, 128, 0, 16, 0, 0, 5, 17, 0, 0], VByte 0]"
  by (simp add: uuid_command_def uuid_to_uuid128_def uuid_b_def kernel_decls_def
      lib_sdp_uuid16_to_uuid128_def bluetooth_base_uuid_def byte_at_def)

theorem add_uuid_busy_then_cod_changed_resumes_witness:
  "sizeof_mgmt_ev_cmd_status \<le> 3 \<and>
   command_code kernel_decls (bt_get_le16 [0x10, 0, 0x0a]) = Some MGMT_OP_ADD_UUID \<and>
   byte_at [0x10, 0, 0x0a] 2 = MGMT_STATUS_BUSY kernel_decls \<and>
   MGMT_STATUS_BUSY kernel_decls \<noteq> 0 \<and>
   uint (0::16 word) \<le> max_index queued_controller \<and>
   mgmt_cmd_status env_up kernel_decls 0 [0x10, 0, 0x0a] 3 queued_controller =
     Ok (put_info 0 ((controllers queued_controller ! 0)\<lparr>pending_cod_change := True\<rparr>)
           queued_controller, []) \<and>
   pending_cod_change
     (controllers (put_info 0 ((controllers queued_controller ! 0)\<lparr>pending_cod_change := True\<rparr>)
        queued_controller) ! 0) \<and>
   (\<exists>s' tr.
      mgmt_cod_changed env_up kernel_decls 0 [0, 0, 0] 3
        (put_info 0 ((controllers queued_controller ! 0)\<lparr>pending_cod_change := True\<rparr>)
           queued_controller) = Ok (s', tr) \<and>
      \<not> pending_cod_change (controllers s' ! 0) \<and>
      pending_uuids (controllers s' ! 0) = [] \<and>
      take 1 tr =
        [Write (Command MGMT_OP_ADD_UUID 0
           [VBytes [251, 52, 155, 95, 128, 0, 0, 128, 0, 16, 0, 0, 5, 17, 0, 0], VByte 0])] \<and>
      pending_uuid (controllers s' ! 0))"
proof -
  let ?s1 = "put_info 0 ((controllers queued_controller ! 0)\<lparr>pending_cod_change := True\<rparr>)
               queued_controller"
  let ?p = "\<lparr>add = True, uuid = uuid_b, svc_hint = 0\<rparr>"
  have a: "sizeof_mgmt_ev_cmd_status \<le> 3 \<and>
      command_code kernel_decls (bt_get_le16 [0x10, 0, 0x0a]) = Some MGMT_OP_ADD_UUID \<and>
      byte_at [0x10, 0, 0x0a] 2 = MGMT_STATUS_BUSY kernel_decls \<and>
      MGMT_STATUS_BUSY kernel_decls \<noteq> 0 \<and>
      uint (0::16 word) \<le> max_index queued_controller"
    by (simp add: fixture_defs frame_defs)
  have b: "uint (0::16 word) \<le> max_index ?s1 \<and> pending_cod_change (controllers ?s1 ! unat (0::16 word))"
    by (simp add: fixture_defs frame_defs put_info_def)
  have q: "pending_uuids (controllers ?s1 ! unat (0::16 word)) = ?p # [] \<and>
           is_16bit_uuid kernel_decls (uuid ?p)"
    using uuid_b_16bit by (simp add: fixture_defs put_info_def)
  have w: "write_effect env_up (uuid_command kernel_decls 0 ?p) =
      Write (Command MGMT_OP_ADD_UUID 0
           [VBytes [251, 52, 155, 95, 128, 0, 0, 128, 0, 16, 0, 0, 5, 17, 0, 0], VByte 0])"
      "write_errno env_up (uuid_command kernel_decls 0 ?p) = 0"
    by (simp_all add: uuid_b_command write_effect_def env_up_def)
  note t1 = add_uuid_busy_then_cod_changed_resumes
              [of 3 kernel_decls "[0x10, 0, 0x0a]" 0 queued_controller env_up]
  note t2 = add_uuid_busy_then_cod_changed_resumes
              [of 3 kernel_decls "[0, 0, 0]" 0 ?s1 env_up]
  from t2 b obtain s' tr where r:
      "mgmt_cod_changed env_up kernel_decls 0 [0, 0, 0] 3 ?s1 = Ok (s', tr)"
      "\<not> pending_cod_change (controllers s' ! unat (0::16 word))"
      "\<forall>p ps. pending_uuids (controllers ?s1 ! unat (0::16 word)) = p # ps \<and>
               is_16bit_uuid kernel_decls (uuid p) \<longrightarrow>
         pending_uuids (controllers s' ! unat (0::16 word)) = ps \<and>
         take 1 tr = [write_effect env_up (uuid_command kernel_decls 0 p)] \<and>
         uuid_writes 0 (drop 1 tr) = [] \<and>
         pending_uuid (controllers s' ! unat (0::16 word)) =
           (write_errno env_up (uuid_command kernel_decls 0 p) = 0)"
    by blast
  from r(3) q have r3: "pending_uuids (controllers s' ! unat (0::16 word)) = [] \<and>
         take 1 tr = [write_effect env_up (uuid_command kernel_decls 0 ?p)] \<and>
         pending_uuid (controllers s' ! unat (0::16 word)) =
           (write_errno env_up (uuid_command kernel_decls 0 ?p) = 0)"
    by blast
  have c1: "mgmt_cmd_status env_up kernel_decls 0 [0x10, 0, 0x0a] 3 queued_controller =
     Ok (put_info 0 ((controllers queued_controller ! 0)\<lparr>pending_cod_change := True\<rparr>)
           queued_controller, [])"
    using t1 a by simp
  have c2: "pending_cod_change (controllers ?s1 ! 0)" using b by simp
  have c3: "\<exists>s' tr.
      mgmt_cod_changed env_up kernel_decls 0 [0, 0, 0] 3 ?s1 = Ok (s', tr) \<and>
      \<not> pending_cod_change (controllers s' ! 0) \<and>
      pending_uuids (controllers s' ! 0) = [] \<and>
      take 1 tr =
        [Write (Command MGMT_OP_ADD_UUID 0
           [VBytes [251, 52, 155, 95, 128, 0, 0, 128, 0, 16, 0, 0, 5, 17, 0, 0], VByte 0])] \<and>
      pending_uuid (controllers s' ! 0)"
    using r(1) r(2) r3 w by auto
  show ?thesis using a c1 c2 c3 by blast
qed

subsection \<open>Handlers that leave the globals alone\<close>

lemma not_uuid_cmd_simps [simp]:
  "not_uuid_cmd (Write (Command opc j ps)) = (opc \<noteq> MGMT_OP_ADD_UUID \<and> opc \<noteq> MGMT_OP_REMOVE_UUID)"
  "not_uuid_cmd (WriteFailed c n)"
  "not_uuid_cmd (LogError m)"
  "not_uuid_cmd (LogWarn m)"
  "not_uuid_cmd (LogInfo m)"
  "not_uuid_cmd (Call f args)"
  by (simp_all add: not_uuid_cmd_def)

lemma no_uuid_cmds_simps [simp]:
  "no_uuid_cmds []"
  "no_uuid_cmds (e # tr) = (not_uuid_cmd e \<and> no_uuid_cmds tr)"
  "no_uuid_cmds (tr @ tr') = (no_uuid_cmds tr \<and> no_uuid_cmds tr')"
  by (simp_all add: no_uuid_cmds_def)

lemma is_log_simps [simp]:
  "\<not> is_log (Write c)"
  "\<not> is_log (WriteFailed c n)"
  "is_log (LogError m)"
  "is_log (LogWarn m)"
  "is_log (LogInfo m)"
  "\<not> is_log (Call f args)"
  by (simp_all add: is_log_def)

lemma only_logs_simps [simp]:
  "only_logs []"
  "only_logs (e # tr) = (is_log e \<and> only_logs tr)"
  "only_logs (tr @ tr') = (only_logs tr \<and> only_logs tr')"
  by (simp_all add: only_logs_def)

lemma is_uuid_write_simps [simp]:
  "is_uuid_write i (Write (Command opc j ps)) =
     (j = i \<and> (opc = MGMT_OP_ADD_UUID \<or> opc = MGMT_OP_REMOVE_UUID))"
  "\<not> is_uuid_write i (WriteFailed c n)"
  "\<not> is_uuid_write i (LogError m)"
  "\<not> is_uuid_write i (LogWarn m)"
  "\<not> is_uuid_write i (LogInfo m)"
  "\<not> is_uuid_write i (Call f args)"
  by (simp_all add: is_uuid_write_def)

lemma uuid_writes_simps [simp]:
  "uuid_writes i [] = []"
  "uuid_writes i (e # tr) = (if is_uuid_write i e then e # uuid_writes i tr else uuid_writes i tr)"
  "uuid_writes i (tr @ tr') = uuid_writes i tr @ uuid_writes i tr'"
  by (simp_all add: uuid_writes_def)

lemma not_uuid_cmd_not_write: "not_uuid_cmd e \<Longrightarrow> \<not> is_uuid_write i e"
  by (cases e) (auto simp: not_uuid_cmd_def is_uuid_write_def split: command.splits)

lemma no_uuid_cmds_writes [simp]: "no_uuid_cmds tr \<Longrightarrow> uuid_writes i tr = []"
  by (induction tr) (auto simp: not_uuid_cmd_not_write)

lemma only_logs_no_uuid: "only_logs tr \<Longrightarrow> no_uuid_cmds tr"
  by (induction tr) (auto simp: is_log_def split: effect.splits)

text \<open>The helpers write no UUID command.\<close>

lemma write_effect_quiet [simp]:
  "not_uuid_cmd (write_effect env (Command opc j ps)) =
     (write_errno env (Command opc j ps) = 0 \<longrightarrow>
        opc \<noteq> MGMT_OP_ADD_UUID \<and> opc \<noteq> MGMT_OP_REMOVE_UUID)"
  by (simp add: write_effect_def)

lemma write_or_log_quiet [simp]:
  "opc \<noteq> MGMT_OP_ADD_UUID \<Longrightarrow> opc \<noteq> MGMT_OP_REMOVE_UUID \<Longrightarrow>
     no_uuid_cmds (write_or_log env (Command opc j ps) m)"
  by (simp add: write_or_log_def)

lemma mgmt_write_quiet [simp]:
  "opc \<noteq> MGMT_OP_ADD_UUID \<Longrightarrow> opc \<noteq> MGMT_OP_REMOVE_UUID \<Longrightarrow>
     no_uuid_cmds (snd (mgmt_write env (Command opc j ps)))"
  by (simp add: mgmt_write_def)

lemma helpers_quiet [simp]:
  "no_uuid_cmds (read_info env i)"
  "no_uuid_cmds (get_connections env i)"
  "no_uuid_cmds (update_settings d adapter settings)"
  "no_uuid_cmds (bonding_complete env info addr status)"
  "no_uuid_cmds (store_link_key adapter device key t n)"
  "no_uuid_cmds (store_longtermkey local key)"
  "no_uuid_cmds (snd (mgmt_pincode_reply env d index bd pin pin_len))"
  "no_uuid_cmds (snd (mgmt_confirm_reply env index bd bt success))"
  "no_uuid_cmds (snd (mgmt_passkey_reply env d index bd bt passkey))"
  "no_uuid_cmds (snd (mgmt_set_name env index name))"
  "no_uuid_cmds (snd (mgmt_set_pairable env index b))"
  "no_uuid_cmds (snd (mgmt_set_ssp env index b))"
  "no_uuid_cmds (snd (mgmt_set_low_energy env index b))"
  by (simp_all add: read_info_def get_connections_def update_settings_def bonding_complete_def
      store_link_key_def store_longtermkey_def mgmt_pincode_reply_def mgmt_confirm_reply_def
      mgmt_passkey_reply_def mgmt_set_name_def mgmt_set_pairable_def mgmt_set_ssp_def
      mgmt_set_low_energy_def mgmt_set_mode_def split: option.split)

lemma get_adapter_and_device_quiet:
  "get_adapter_and_device env src addr c = (x, tr) \<Longrightarrow> no_uuid_cmds tr"
  by (auto simp: get_adapter_and_device_def Let_def split: option.splits if_splits)

lemma read_local_oob_data_failed_quiet [simp]:
  "no_uuid_cmds (read_local_oob_data_failed env i s)"
  by (simp add: read_local_oob_data_failed_def split: option.split)

lemma read_local_oob_data_failed_dropped:
  "length (controllers s) \<le> unat i \<Longrightarrow> only_logs (read_local_oob_data_failed env i s)"
  by (simp add: read_local_oob_data_failed_def)

text \<open>The handlers that only report to the adapter and device layer.\<close>

lemma inert_mgmt_new_link_key: "inert i s (mgmt_new_link_key env d i buf len s)"
  unfolding inert_def mgmt_new_link_key_def
  by (auto simp: Let_def split: prod.splits option.splits dest: get_adapter_and_device_quiet)

lemma inert_mgmt_device_connected: "inert i s (mgmt_device_connected env d i buf len s)"
  unfolding inert_def mgmt_device_connected_def
  by (auto simp: Let_def split: prod.splits option.splits dest: get_adapter_and_device_quiet)

lemma inert_mgmt_device_disconnected: "inert i s (mgmt_device_disconnected env d i buf len s)"
  unfolding inert_def mgmt_device_disconnected_def
  by (auto simp: Let_def split: prod.splits option.splits dest: get_adapter_and_device_quiet)

lemma inert_mgmt_connect_failed: "inert i s (mgmt_connect_failed env d i buf len s)"
  unfolding inert_def mgmt_connect_failed_def
  by (auto simp: Let_def split: prod.splits option.splits dest: get_adapter_and_device_quiet)

lemma inert_mgmt_pin_code_request: "inert i s (mgmt_pin_code_request env d i buf len s)"
  unfolding inert_def mgmt_pin_code_request_def
  by (auto simp: Let_def split: prod.splits option.splits dest: get_adapter_and_device_quiet)

lemma inert_mgmt_passkey_request: "inert i s (mgmt_passkey_request env d i buf len s)"
  unfolding inert_def mgmt_passkey_request_def
  by (auto simp: Let_def split: prod.splits option.splits dest: get_adapter_and_device_quiet)

lemma inert_mgmt_passkey_notify: "inert i s (mgmt_passkey_notify env d i buf len s)"
  unfolding inert_def mgmt_passkey_notify_def
  by (auto simp: Let_def split: prod.splits option.splits dest: get_adapter_and_device_quiet)

lemma inert_mgmt_user_confirm_request: "inert i s (mgmt_user_confirm_request env d i buf len s)"
  unfolding inert_def mgmt_user_confirm_request_def
  by (auto simp: Let_def split: prod.splits option.splits dest: get_adapter_and_device_quiet)

lemma inert_disconnect_complete: "inert i s (disconnect_complete env d i status buf len s)"
  unfolding inert_def disconnect_complete_def
  by (auto simp: Let_def split: prod.splits option.splits dest: get_adapter_and_device_quiet)

lemma inert_pair_device_complete: "inert i s (pair_device_complete env d i status buf len s)"
  unfolding inert_def pair_device_complete_def by simp

lemma inert_set_local_name_complete: "inert i s (set_local_name_complete env d i buf len s)"
  unfolding inert_def set_local_name_complete_def
  by (simp add: Let_def split: option.split)

lemma inert_read_local_oob_data_complete:
  "inert i s (read_local_oob_data_complete env d i buf len s)"
  unfolding inert_def read_local_oob_data_complete_def
  by (simp add: Let_def split: option.split)

lemma inert_start_discovery_complete:
  "inert i s (start_discovery_complete env i status buf len s)"
  unfolding inert_def start_discovery_complete_def
  by (simp add: Let_def split: option.split)

lemma inert_mgmt_controller_error: "inert i s (mgmt_controller_error d i buf len s)"
  unfolding inert_def mgmt_controller_error_def by simp

lemma inert_mgmt_auth_failed: "inert i s (mgmt_auth_failed env d i buf len s)"
  unfolding inert_def mgmt_auth_failed_def by simp

lemma inert_mgmt_local_name_changed: "inert i s (mgmt_local_name_changed env d i buf len s)"
  unfolding inert_def mgmt_local_name_changed_def
  by (simp add: Let_def split: option.split)

lemma inert_mgmt_device_found: "inert i s (mgmt_device_found env d i buf len s)"
  unfolding inert_def mgmt_device_found_def
  by (simp add: Let_def split: option.split)

lemma inert_mgmt_discovering: "inert i s (mgmt_discovering env d i buf len s)"
  unfolding inert_def mgmt_discovering_def
  by (simp add: Let_def split: option.split)

lemma inert_mgmt_device_blocked: "inert i s (mgmt_device_blocked env d i buf len s)"
  unfolding inert_def mgmt_device_blocked_def
  by (auto simp: Let_def split: prod.splits option.splits dest: get_adapter_and_device_quiet)

lemma inert_mgmt_device_unblocked: "inert i s (mgmt_device_unblocked env d i buf len s)"
  unfolding inert_def mgmt_device_unblocked_def
  by (auto simp: Let_def split: prod.splits option.splits dest: get_adapter_and_device_quiet)

lemma inert_mgmt_device_unpaired: "inert i s (mgmt_device_unpaired env d i buf len s)"
  unfolding inert_def mgmt_device_unpaired_def
  by (auto simp: Let_def split: prod.splits option.splits dest: get_adapter_and_device_quiet)

lemma inert_mgmt_new_ltk: "inert i s (mgmt_new_ltk env d i buf len s)"
  unfolding inert_def mgmt_new_ltk_def
  by (auto simp: Let_def split: prod.splits option.splits dest: get_adapter_and_device_quiet)

lemma inert_logged: "only_logs tr \<Longrightarrow> inert i s (Ok (s, tr))"
  by (simp add: inert_def only_logs_no_uuid)

lemma inert_same [simp]: "inert i s (Ok (s, []))"
  by (simp add: inert_def)

lemma inert_error [simp]: "inert i s (Ok (s, [LogError m]))"
  by (simp add: inert_def)

lemmas inert_handlers =
  inert_mgmt_new_link_key inert_mgmt_device_connected inert_mgmt_device_disconnected
  inert_mgmt_connect_failed inert_mgmt_pin_code_request inert_mgmt_passkey_request
  inert_mgmt_passkey_notify inert_mgmt_user_confirm_request inert_disconnect_complete
  inert_pair_device_complete inert_set_local_name_complete inert_read_local_oob_data_complete
  inert_start_discovery_complete inert_mgmt_controller_error inert_mgmt_auth_failed
  inert_mgmt_local_name_changed inert_mgmt_device_found inert_mgmt_discovering
  inert_mgmt_device_blocked inert_mgmt_device_unblocked inert_mgmt_device_unpaired
  inert_mgmt_new_ltk

subsection \<open>Handlers that change one slot\<close>

lemma touches_weaken:
  assumes "touches i rel dec s r" and "rel \<Longrightarrow> rel'" and "dec = None \<or> dec = dec'"
  shows "touches i rel' dec' s r"
  using assms by (cases r) (auto simp: touches_def)

lemma inert_touches: "inert i s r \<Longrightarrow> touches i rel dec s r"
  by (auto simp: inert_def touches_def)

lemma inert_returns: "inert i s r \<Longrightarrow> \<exists>s' tr. r = Ok (s', tr)"
  by (auto simp: inert_def)

lemma in_flight_put_info [simp]:
  "in_flight (put_info n info s) i =
     (unat i < length (controllers s) \<and>
      (if unat i = n then pending_uuid info else pending_uuid (controllers s ! unat i)))"
  by (auto simp: in_flight_def)

lemma touches_mgmt_new_settings:
  "touches i (mgmt_powered d (current_settings (controllers s ! unat i)) \<and>
              \<not> mgmt_powered d (bt_get_le32 buf))
     (Some (bt_get_le32 buf)) s (mgmt_new_settings env d i buf len s)"
  unfolding touches_def mgmt_new_settings_def mgmt_update_powered_def
  by (auto simp: Let_def in_flight_def split: option.splits)

lemma outside_mgmt_new_settings:
  "length (controllers s) \<le> unat i \<Longrightarrow> inert i s (mgmt_new_settings env d i buf len s)"
  by (simp add: inert_def mgmt_new_settings_def)

lemma returns_mgmt_new_settings: "\<exists>s' tr. mgmt_new_settings env d i buf len s = Ok (s', tr)"
  by (simp add: mgmt_new_settings_def mgmt_update_powered_def Let_def split: option.split)

lemma touches_get_connections_complete:
  "touches i False None s (get_connections_complete env d i buf len s)"
  unfolding touches_def get_connections_complete_def
  by (auto simp: Let_def in_flight_def)

lemma outside_get_connections_complete:
  "length (controllers s) \<le> unat i \<Longrightarrow> inert i s (get_connections_complete env d i buf len s)"
  by (simp add: inert_def get_connections_complete_def Let_def)

lemma get_connections_complete_not_abort:
  "get_connections_complete env d i buf len s \<noteq> Abort"
  by (simp add: get_connections_complete_def Let_def)

lemma touches_mgmt_update_cod: "touches i False None s (mgmt_update_cod env d i buf len s)"
  unfolding touches_def mgmt_update_cod_def
  by (auto simp: Let_def split: option.splits)

lemma mgmt_update_cod_not_abort: "mgmt_update_cod env d i buf len s \<noteq> Abort"
  by (simp add: mgmt_update_cod_def Let_def split: option.split)

lemma touches_read_version_complete:
  "touches i False None s (read_version_complete env d buf len s)"
  unfolding touches_def read_version_complete_def
  by (auto simp: Let_def in_flight_def MGMT_INDEX_NONE_def)

lemma touches_mgmt_cmd_status: "touches i False None s (mgmt_cmd_status env d i buf len s)"
  unfolding touches_def mgmt_cmd_status_def mgmt_add_uuid_busy_def
  by (auto simp: Let_def in_flight_def)

lemma mgmt_cmd_status_not_abort: "mgmt_cmd_status env d i buf len s \<noteq> Abort"
  by (simp add: mgmt_cmd_status_def mgmt_add_uuid_busy_def Let_def)

lemma outside_mgmt_cmd_status:
  assumes "length (controllers s) \<le> unat i"
    and "\<not> (sizeof_mgmt_ev_cmd_status \<le> len \<and>
             command_code d (bt_get_le16 buf) = Some MGMT_OP_ADD_UUID \<and>
             byte_at buf 2 = MGMT_STATUS_BUSY d \<and> byte_at buf 2 \<noteq> 0)"
  shows "inert i s (mgmt_cmd_status env d i buf len s)"
  using assms
  by (auto simp: inert_def mgmt_cmd_status_def Let_def read_local_oob_data_failed_dropped)

lemma cleared_zero [simp]: "cleared zero_info" "cleared (zero_info\<lparr>valid := True\<rparr>)"
  by (simp_all add: cleared_def)

lemma touches_mgmt_index_removed: "touches i True None s (Ok (mgmt_index_removed i s))"
  unfolding touches_def mgmt_index_removed_def remove_controller_def
  by (auto simp: in_flight_def)

lemma outside_mgmt_index_removed:
  "length (controllers s) \<le> unat i \<Longrightarrow> inert i s (Ok (mgmt_index_removed i s))"
  by (simp add: inert_def mgmt_index_removed_def remove_controller_def)

lemma touches_mgmt_index_added: "touches i True None s (Ok (mgmt_index_added env i s))"
  unfolding touches_def mgmt_index_added_def add_controller_def
  by (auto simp: Let_def in_flight_def nth_append)

lemma touches_transfer:
  assumes "touches i rel dec s1 r"
    and "length (controllers s1) = length (controllers s)"
    and "\<forall>n. n \<noteq> unat i \<longrightarrow> controllers s1 ! n = controllers s ! n"
    and "unat i < length (controllers s) \<longrightarrow>
           current_settings (controllers s1 ! unat i) = current_settings (controllers s ! unat i)"
    and "in_flight s i \<and> \<not> rel \<longrightarrow> in_flight s1 i"
  shows "touches i rel dec s r"
  using assms by (cases r) (auto simp: touches_def)

lemma touches_after_quiet:
  assumes "r1 = Ok (s, tr1)" and "no_uuid_cmds tr1" and "touches i rel dec s (f s)"
  shows "touches i rel dec s (and_then r1 f)"
  using assms by (cases "f s") (auto simp: touches_def and_then_def)

lemma touches_then_quiet:
  assumes "touches i rel dec s r1"
    and "\<And>s1. f s1 = OutOfBounds \<or> (\<exists>tr. f s1 = Ok (s1, tr) \<and> no_uuid_cmds tr)"
  shows "touches i rel dec s (and_then r1 f)"
proof (cases r1)
  case (Ok x)
  obtain s1 tr1 where x: "x = (s1, tr1)" by (cases x)
  from assms(2) [of s1] show ?thesis
  proof
    assume "f s1 = OutOfBounds"
    then show ?thesis using Ok x by (simp add: touches_def and_then_def)
  next
    assume "\<exists>tr. f s1 = Ok (s1, tr) \<and> no_uuid_cmds tr"
    then obtain tr where "f s1 = Ok (s1, tr)" "no_uuid_cmds tr" by blast
    then show ?thesis using Ok x assms(1) by (simp add: touches_def and_then_def)
  qed
next
  case Abort
  then show ?thesis by (simp add: touches_def and_then_def)
next
  case OutOfBounds
  then show ?thesis by (simp add: touches_def and_then_def)
qed

lemma mgmt_update_cod_cases:
  "mgmt_update_cod env d i buf len s = OutOfBounds \<or>
   (\<exists>tr. mgmt_update_cod env d i buf len s = Ok (s, tr) \<and> no_uuid_cmds tr)"
  by (simp add: mgmt_update_cod_def Let_def split: option.split)

lemma uuid_command_index [simp]:
  "is_uuid_write j (write_effect env (uuid_command d i p)) =
     (j = i \<and> write_errno env (uuid_command d i p) = 0)"
  by (auto simp: write_effect_def uuid_command_def)

lemma touches_handle_pending_uuids:
  "touches i True None s (handle_pending_uuids env d i s)"
proof (cases "unat i < length (controllers s)")
  case False
  then show ?thesis by (simp add: handle_pending_uuids_def touches_def)
next
  case l: True
  show ?thesis
  proof (cases "pending_uuids (controllers s ! unat i)")
    case Nil
    show ?thesis
      using handle_pending_uuids_empty [OF l Nil, of env d] l
      by (auto simp: touches_def Let_def write_effect_def)
  next
    case (Cons p ps)
    show ?thesis
    proof (cases "is_16bit_uuid d (uuid p)")
      case True
      show ?thesis
        using handle_pending_uuids_head [OF l Cons True, of env] l
        by (auto simp: touches_def Let_def)
    next
      case False
      show ?thesis
        using handle_pending_uuids_head_ignored [OF l Cons False, of env] l
        by (auto simp: touches_def Let_def)
    qed
  qed
qed

lemma returns_handle_pending_uuids:
  assumes "unat i < length (controllers s)"
  shows "\<exists>s' tr. handle_pending_uuids env d i s = Ok (s', tr) \<and>
           length (controllers s') = length (controllers s)"
proof (cases "pending_uuids (controllers s ! unat i)")
  case Nil
  show ?thesis
    using handle_pending_uuids_empty [OF assms Nil, of env d] by (simp add: Let_def)
next
  case (Cons p ps)
  show ?thesis
  proof (cases "is_16bit_uuid d (uuid p)")
    case True
    show ?thesis
      using handle_pending_uuids_head [OF assms Cons True, of env] by (simp add: Let_def)
  next
    case False
    show ?thesis
      using handle_pending_uuids_head_ignored [OF assms Cons False, of env] by simp
  qed
qed

lemma mgmt_update_cod_quiet:
  assumes "unat i < length (controllers s)"
  shows "\<exists>tr. mgmt_update_cod env d i buf len s = Ok (s, tr) \<and> no_uuid_cmds tr"
  using assms by (simp add: mgmt_update_cod_def Let_def split: option.split)

lemma touches_cod_then_pending:
  assumes "unat i < length (controllers s)"
  shows "touches i True None s
           (and_then (mgmt_update_cod env d i buf len s) (handle_pending_uuids env d i))"
proof -
  from mgmt_update_cod_quiet [OF assms, of env d buf len]
  obtain tr where tr: "mgmt_update_cod env d i buf len s = Ok (s, tr)" and q: "no_uuid_cmds tr"
    by blast
  have "touches i True None s (handle_pending_uuids env d i s)"
    by (rule touches_handle_pending_uuids)
  with tr q show ?thesis by (rule touches_after_quiet)
qed

lemma returns_cod_then_pending:
  assumes "unat i < length (controllers s)"
  shows "\<exists>s' tr. and_then (mgmt_update_cod env d i buf len s) (handle_pending_uuids env d i)
           = Ok (s', tr)"
proof -
  from mgmt_update_cod_quiet [OF assms, of env d buf len]
  obtain tr where tr: "mgmt_update_cod env d i buf len s = Ok (s, tr)" by blast
  from returns_handle_pending_uuids [OF assms, of env d]
  obtain s' tr' where "handle_pending_uuids env d i s = Ok (s', tr')" by blast
  with tr show ?thesis by (simp add: and_then_def)
qed

lemma touches_mgmt_add_uuid_complete:
  "touches i True None s (mgmt_add_uuid_complete env d i buf len s)"
  using touches_cod_then_pending [of i s env d buf len]
  by (cases "unat i < length (controllers s)")
     (simp_all add: mgmt_add_uuid_complete_def touches_def)

lemma touches_mgmt_remove_uuid_complete:
  "touches i True None s (mgmt_remove_uuid_complete env d i buf len s)"
  using touches_cod_then_pending [of i s env d buf len]
  by (cases "unat i < length (controllers s)")
     (simp_all add: mgmt_remove_uuid_complete_def touches_def)

lemma outside_mgmt_add_uuid_complete:
  "length (controllers s) \<le> unat i \<Longrightarrow> inert i s (mgmt_add_uuid_complete env d i buf len s)"
  by (simp add: inert_def mgmt_add_uuid_complete_def)

lemma outside_mgmt_remove_uuid_complete:
  "length (controllers s) \<le> unat i \<Longrightarrow> inert i s (mgmt_remove_uuid_complete env d i buf len s)"
  by (simp add: inert_def mgmt_remove_uuid_complete_def)

lemma returns_mgmt_add_uuid_complete:
  "\<exists>s' tr. mgmt_add_uuid_complete env d i buf len s = Ok (s', tr)"
  using returns_cod_then_pending [of i s env d buf len]
  by (cases "unat i < length (controllers s)") (simp_all add: mgmt_add_uuid_complete_def)

lemma returns_mgmt_remove_uuid_complete:
  "\<exists>s' tr. mgmt_remove_uuid_complete env d i buf len s = Ok (s', tr)"
  using returns_cod_then_pending [of i s env d buf len]
  by (cases "unat i < length (controllers s)") (simp_all add: mgmt_remove_uuid_complete_def)

lemma touches_mgmt_cod_changed:
  "touches i (unat i < length (controllers s) \<and> pending_cod_change (controllers s ! unat i))
     None s (mgmt_cod_changed env d i buf len s)"
proof (cases "unat i < length (controllers s)")
  case False
  then show ?thesis by (simp add: mgmt_cod_changed_def touches_def)
next
  case l: True
  show ?thesis
  proof (cases "pending_cod_change (controllers s ! unat i)")
    case False
    from mgmt_update_cod_cases [of env d i buf len s] show ?thesis
      using l False by (auto simp: mgmt_cod_changed_def and_then_def touches_def Let_def)
  next
    case True
    let ?s1 = "put_info (unat i) ((controllers s ! unat i)\<lparr>pending_cod_change := False\<rparr>) s"
    have "touches i True None ?s1 (handle_pending_uuids env d i ?s1)"
      by (rule touches_handle_pending_uuids)
    then have "touches i True None s (handle_pending_uuids env d i ?s1)"
      by (rule touches_transfer) (use l in auto)
    then have "touches i True None s
        (and_then (handle_pending_uuids env d i ?s1) (mgmt_update_cod env d i buf len))"
      by (rule touches_then_quiet) (rule mgmt_update_cod_cases)
    then show ?thesis using l True by (simp add: mgmt_cod_changed_def Let_def)
  qed
qed

lemma outside_mgmt_cod_changed:
  "length (controllers s) \<le> unat i \<Longrightarrow> inert i s (mgmt_cod_changed env d i buf len s)"
  by (simp add: inert_def mgmt_cod_changed_def)

lemma returns_mgmt_cod_changed: "\<exists>s' tr. mgmt_cod_changed env d i buf len s = Ok (s', tr)"
proof (cases "unat i < length (controllers s)")
  case False
  then show ?thesis by (simp add: mgmt_cod_changed_def)
next
  case l: True
  show ?thesis
  proof (cases "pending_cod_change (controllers s ! unat i)")
    case False
    from mgmt_update_cod_quiet [OF l, of env d buf len] show ?thesis
      using l False by (auto simp: mgmt_cod_changed_def and_then_def Let_def)
  next
    case True
    let ?s1 = "put_info (unat i) ((controllers s ! unat i)\<lparr>pending_cod_change := False\<rparr>) s"
    have l1: "unat i < length (controllers ?s1)" using l by simp
    from returns_handle_pending_uuids [OF l1, of env d]
    obtain s' tr' where h: "handle_pending_uuids env d i ?s1 = Ok (s', tr')"
        "length (controllers s') = length (controllers ?s1)" by blast
    then have l2: "unat i < length (controllers s')" using l by simp
    from mgmt_update_cod_quiet [OF l2, of env d buf len]
    obtain tr where "mgmt_update_cod env d i buf len s' = Ok (s', tr)" by blast
    with h l True show ?thesis by (simp add: mgmt_cod_changed_def and_then_def Let_def)
  qed
qed

lemma uuid_any_16bit [simp]: "is_16bit_uuid d uuid_any"
  by (simp add: is_16bit_uuid_def uuid_any_def)

lemma read_info_tail_quiet [simp]: "no_uuid_cmds (read_info_tail env d i info adapter)"
  by (simp add: read_info_tail_def)

lemma mgmt_set_dev_class_in_table:
  assumes "unat i < length (controllers s)"
  shows "mgmt_set_dev_class env (uint i) mj mn s =
     (let info = controllers s ! unat i in
      if pending_uuid info
      then Ok (0, put_info (unat i) (info\<lparr>major := mj, minor := mn, pending_class := True\<rparr>) s, [])
      else Ok (fst (mgmt_write env (Command MGMT_OP_SET_DEV_CLASS i [VByte mj, VByte mn])), s,
               snd (mgmt_write env (Command MGMT_OP_SET_DEV_CLASS i [VByte mj, VByte mn]))))"
  using assms by (simp add: mgmt_set_dev_class_def Let_def split: prod.split)

lemma touches_read_info_complete:
  "touches i False (Some (bt_get_le32 (fld d Mgmt_rp_read_info ''current_settings'' buf))) s
     (read_info_complete env d i buf len s)"
proof (cases "unat i < length (controllers s)")
  case False
  then show ?thesis by (simp add: read_info_complete_def touches_def)
next
  case True
  then show ?thesis
    unfolding read_info_complete_def clear_uuids_def touches_def
    by (auto simp: mgmt_remove_uuid_in_table mgmt_set_dev_class_in_table Let_def in_flight_def
        no_uuid_cmds_writes split: option.split prod.split)
qed

lemma outside_read_info_complete:
  "length (controllers s) \<le> unat i \<Longrightarrow> inert i s (read_info_complete env d i buf len s)"
  by (simp add: inert_def read_info_complete_def)

lemma returns_read_info_complete:
  "\<exists>s' tr. read_info_complete env d i buf len s = Ok (s', tr)"
proof (cases "unat i < length (controllers s)")
  case False
  then show ?thesis by (simp add: read_info_complete_def)
next
  case True
  then show ?thesis
    unfolding read_info_complete_def clear_uuids_def
    by (auto simp: mgmt_remove_uuid_in_table mgmt_set_dev_class_in_table Let_def
        split: option.split prod.split)
qed

subsection \<open>The dispatcher\<close>

lemma touches_same: "no_uuid_cmds tr \<Longrightarrow> touches i rel dec s (Ok (s, tr))"
  by (simp add: touches_def no_uuid_cmds_writes)

lemmas touches_inert =
  inert_mgmt_new_link_key [THEN inert_touches]
  inert_mgmt_device_connected [THEN inert_touches]
  inert_mgmt_device_disconnected [THEN inert_touches]
  inert_mgmt_connect_failed [THEN inert_touches]
  inert_mgmt_pin_code_request [THEN inert_touches]
  inert_mgmt_passkey_request [THEN inert_touches]
  inert_mgmt_passkey_notify [THEN inert_touches]
  inert_mgmt_user_confirm_request [THEN inert_touches]
  inert_disconnect_complete [THEN inert_touches]
  inert_pair_device_complete [THEN inert_touches]
  inert_set_local_name_complete [THEN inert_touches]
  inert_read_local_oob_data_complete [THEN inert_touches]
  inert_start_discovery_complete [THEN inert_touches]
  inert_mgmt_controller_error [THEN inert_touches]
  inert_mgmt_auth_failed [THEN inert_touches]
  inert_mgmt_local_name_changed [THEN inert_touches]
  inert_mgmt_device_found [THEN inert_touches]
  inert_mgmt_discovering [THEN inert_touches]
  inert_mgmt_device_blocked [THEN inert_touches]
  inert_mgmt_device_unblocked [THEN inert_touches]
  inert_mgmt_device_unpaired [THEN inert_touches]
  inert_mgmt_new_ltk [THEN inert_touches]

lemma touches_settings_signal:
  "touches i (unat i < length (controllers s) \<and>
              mgmt_powered d (current_settings (controllers s ! unat i)) \<and>
              \<not> mgmt_powered d (bt_get_le32 buf))
     (Some (bt_get_le32 buf)) s (mgmt_new_settings env d i buf len s)"
proof (cases "unat i < length (controllers s)")
  case True
  then show ?thesis using touches_mgmt_new_settings [of i d s buf env len] by simp
next
  case False
  then show ?thesis by (simp add: inert_touches outside_mgmt_new_settings)
qed

lemma touches_any:
  "touches i rel dec s (get_connections_complete env d i buf len s)"
  "touches i rel dec s (mgmt_update_cod env d i buf len s)"
  "touches i rel dec s (read_version_complete env d buf len s)"
  "touches i rel dec s (mgmt_cmd_status env d i buf len s)"
  by (rule touches_weaken [OF touches_get_connections_complete], simp, simp)
     (rule touches_weaken [OF touches_mgmt_update_cod], simp, simp,
      rule touches_weaken [OF touches_read_version_complete], simp, simp,
      rule touches_weaken [OF touches_mgmt_cmd_status], simp, simp)

lemma touches_released:
  "touches i True dec s (mgmt_add_uuid_complete env d i buf len s)"
  "touches i True dec s (mgmt_remove_uuid_complete env d i buf len s)"
  "touches i True dec s (Ok (mgmt_index_added env i s))"
  "touches i True dec s (Ok (mgmt_index_removed i s))"
  by (rule touches_weaken [OF touches_mgmt_add_uuid_complete], simp, simp)
     (rule touches_weaken [OF touches_mgmt_remove_uuid_complete], simp, simp,
      rule touches_weaken [OF touches_mgmt_index_added], simp, simp,
      rule touches_weaken [OF touches_mgmt_index_removed], simp, simp)

lemma touches_mgmt_cmd_complete:
  assumes f: "framed d inp = Some (MGMT_EV_CMD_COMPLETE, i, pl)"
    and n: "completed_op d pl \<noteq> Some MGMT_OP_READ_INDEX_LIST"
  shows "touches i (releases d s inp i) (reported_settings d inp (unat i)) s
           (mgmt_cmd_complete env d i pl (length pl) s)"
proof (cases "completed_op d pl")
  case None
  then show ?thesis
    by (auto simp: mgmt_cmd_complete_def completed_op_def Let_def touches_same
        split: if_splits)
next
  case (Some op)
  then have l: "\<not> length pl < sizeof_mgmt_ev_cmd_complete"
    and c: "command_code d (bt_get_le16 pl) = Some op"
    by (simp_all add: completed_op_def split: if_splits)
  from f have nc: "inp \<noteq> Cleanup" by (auto simp: framed_def)
  from n Some have "op \<noteq> MGMT_OP_READ_INDEX_LIST" by simp
  then show ?thesis
    using f Some l c nc
    by (cases op)
       (simp_all add: mgmt_cmd_complete_def releases_def reported_settings_def
          settings_payload_def Let_def touches_same touches_inert touches_any
          touches_released touches_settings_signal touches_read_info_complete)
qed

lemma touches_dispatch_event:
  assumes f: "framed d inp = Some (ev, i, pl)"
    and n: "\<not> (ev = MGMT_EV_CMD_COMPLETE \<and> completed_op d pl = Some MGMT_OP_READ_INDEX_LIST)"
    and c: "event_code d opcode = Some ev"
  shows "touches i (releases d s inp i) (reported_settings d inp (unat i)) s
           (dispatch_event env d opcode i pl (length pl) s)"
proof (cases "ev = MGMT_EV_CMD_COMPLETE")
  case True
  with f n c show ?thesis
    using touches_mgmt_cmd_complete [of d inp i pl s env]
    by (simp add: dispatch_event_def)
next
  case False
  from f have nc: "inp \<noteq> Cleanup" by (auto simp: framed_def)
  show ?thesis
  proof (cases "ev = MGMT_EV_CLASS_OF_DEV_CHANGED")
    case True
    show ?thesis
      using f c nc True
      by (simp add: dispatch_event_def releases_def reported_settings_def
          settings_payload_def)
         (rule touches_weaken [OF touches_mgmt_cod_changed], simp, simp)
  next
    case cod: False
    show ?thesis
      using f c nc False cod
      by (cases ev)
         (simp_all add: dispatch_event_def releases_def reported_settings_def
            settings_payload_def touches_inert touches_any touches_released
            touches_settings_signal)
  qed
qed

subsection \<open>One input\<close>

lemma framed_mgmt_event:
  assumes "framed d (Event cond rd) = Some (ev, i, pl)"
  shows "\<exists>opcode. event_code d opcode = Some ev \<and>
           mgmt_event env d cond rd s =
             (case dispatch_event env d opcode i pl (length pl) s of
                Ok (s1, tr) \<Rightarrow> Ok (True, s1, tr)
              | Abort \<Rightarrow> Abort
              | OutOfBounds \<Rightarrow> OutOfBounds)"
  using assms
  by (auto simp: framed_def mgmt_event_def Let_def split: read_result.splits if_splits
      option.splits)

lemma unframed_mgmt_event:
  assumes "framed d (Event cond rd) = None"
  shows "\<exists>b tr. mgmt_event env d cond rd s = Ok (b, s, tr) \<and> only_logs tr"
  using assms
  by (auto simp: framed_def mgmt_event_def dispatch_event_def Let_def
      split: read_result.splits if_splits option.splits)

lemma touches_drop_ret:
  "touches i rel dec s (drop_ret (case r of Ok (s1, tr) \<Rightarrow> Ok (True, s1, tr)
       | Abort \<Rightarrow> Abort | OutOfBounds \<Rightarrow> OutOfBounds)) = touches i rel dec s r"
  by (cases r) (auto simp: drop_ret_def touches_def)

lemma touches_step_event:
  assumes f: "framed d (Event cond rd) = Some (ev, i, pl)"
    and n: "\<not> (ev = MGMT_EV_CMD_COMPLETE \<and> completed_op d pl = Some MGMT_OP_READ_INDEX_LIST)"
  shows "touches i (releases d s (Event cond rd) i) (reported_settings d (Event cond rd) (unat i))
           s (step env d (Event cond rd) s)"
proof -
  from framed_mgmt_event [OF f, of env s]
  obtain opcode where c: "event_code d opcode = Some ev"
    and e: "mgmt_event env d cond rd s =
             (case dispatch_event env d opcode i pl (length pl) s of
                Ok (s1, tr) \<Rightarrow> Ok (True, s1, tr)
              | Abort \<Rightarrow> Abort
              | OutOfBounds \<Rightarrow> OutOfBounds)" by blast
  from touches_dispatch_event [OF f n c, of s env] show ?thesis
    by (simp add: e touches_drop_ret)
qed

text \<open>
  The public functions take the index as an \<open>int\<close> and send it as 16 bits; for an index of
  a table with at most 65536 slots the two name the same slot.
\<close>

lemma word_index:
  assumes "0 \<le> idx" and "nat idx < length (controllers s)" and "table_ok s"
  shows "unat (word_of_int idx :: 16 word) = nat idx" and "uint (word_of_int idx :: 16 word) = idx"
proof -
  from assms have b: "idx < 2 ^ 16" by (simp add: table_ok_def)
  have "uint (word_of_int idx :: 16 word) = take_bit 16 idx"
    by (simp add: uint_word_of_int_eq)
  also have "\<dots> = idx" using assms(1) b by (simp add: take_bit_int_eq_self)
  finally show u: "uint (word_of_int idx :: 16 word) = idx" .
  have "unat (word_of_int idx :: 16 word) = nat (uint (word_of_int idx :: 16 word))"
    by (rule unat_eq_nat_uint)
  with u show "unat (word_of_int idx :: 16 word) = nat idx" by simp
qed

lemma touches_out_of_table [simp]:
  "touches i rel dec s (drop_ret OutOfBounds)"
  "touches i rel dec s OutOfBounds"
  "touches i rel dec s Abort"
  by (simp_all add: touches_def drop_ret_def)

lemma drop_ret_Ok [simp]: "drop_ret (Ok (x, s, tr)) = Ok (s, tr)"
  by (simp add: drop_ret_def)

lemma touches_mgmt_add_uuid:
  assumes "table_ok s"
  shows "touches (word_of_int idx) False None s (drop_ret (mgmt_add_uuid env d idx u h s))"
proof (cases "is_16bit_uuid d u")
  case False
  then show ?thesis by (simp add: mgmt_add_uuid_def touches_same)
next
  case u: True
  show ?thesis
  proof (cases "0 \<le> idx \<and> nat idx < length (controllers s)")
    case False
    then show ?thesis using u by (simp add: mgmt_add_uuid_def)
  next
    case True
    let ?i = "word_of_int idx :: 16 word"
    from True assms have w: "unat ?i = nat idx" "uint ?i = idx"
      using word_index [of idx s] by simp_all
    with True have l: "unat ?i < length (controllers s)" by simp
    from mgmt_add_uuid_in_table [OF l u, of env h] w l
    show ?thesis by (auto simp: touches_def Let_def in_flight_def)
  qed
qed

lemma touches_mgmt_remove_uuid:
  assumes "table_ok s"
  shows "touches (word_of_int idx) False None s (drop_ret (mgmt_remove_uuid env d idx u s))"
proof (cases "is_16bit_uuid d u")
  case False
  then show ?thesis by (simp add: mgmt_remove_uuid_def touches_same)
next
  case u: True
  show ?thesis
  proof (cases "0 \<le> idx \<and> nat idx < length (controllers s)")
    case False
    then show ?thesis using u by (simp add: mgmt_remove_uuid_def)
  next
    case True
    let ?i = "word_of_int idx :: 16 word"
    from True assms have w: "unat ?i = nat idx" "uint ?i = idx"
      using word_index [of idx s] by simp_all
    with True have l: "unat ?i < length (controllers s)" by simp
    from mgmt_remove_uuid_in_table [OF l u, of env] w l
    show ?thesis by (auto simp: touches_def Let_def in_flight_def)
  qed
qed

lemma touches_slot_ops:
  assumes "table_ok s"
  shows "touches (word_of_int idx) False None s (drop_ret (mgmt_set_powered env idx b s))"
    and "touches (word_of_int idx) False None s (drop_ret (mgmt_set_dev_class env idx mj mn s))"
    and "touches (word_of_int idx) False None s (drop_ret (mgmt_start_discovery env d idx s))"
    and "touches (word_of_int idx) False None s (drop_ret (mgmt_start_le_scanning env d idx s))"
    and "touches (word_of_int idx) False None s (drop_ret (mgmt_stop_discovery env idx s))"
    and "touches (word_of_int idx) False None s
           (case mgmt_get_conn_list idx s of
              Ok (r, l, s1) \<Rightarrow> Ok (s1, []) | Abort \<Rightarrow> Abort | OutOfBounds \<Rightarrow> OutOfBounds)"
proof -
  have w: "0 \<le> idx \<and> nat idx < length (controllers s) \<Longrightarrow>
           unat (word_of_int idx :: 16 word) = nat idx"
    using assms word_index(1) [of idx s] by simp
  show "touches (word_of_int idx) False None s (drop_ret (mgmt_set_powered env idx b s))"
    using w
    by (auto simp: mgmt_set_powered_def mgmt_set_mode_def touches_def drop_ret_def Let_def in_flight_def
        no_uuid_cmds_writes split_beta)
  show "touches (word_of_int idx) False None s (drop_ret (mgmt_set_dev_class env idx mj mn s))"
    using w
    by (auto simp: mgmt_set_dev_class_def touches_def drop_ret_def Let_def in_flight_def
        no_uuid_cmds_writes split_beta)
  show "touches (word_of_int idx) False None s (drop_ret (mgmt_start_discovery env d idx s))"
    using w
    by (auto simp: mgmt_start_discovery_def touches_def drop_ret_def Let_def in_flight_def)
  show "touches (word_of_int idx) False None s (drop_ret (mgmt_start_le_scanning env d idx s))"
    using w
    by (auto simp: mgmt_start_le_scanning_def touches_def drop_ret_def Let_def in_flight_def)
  show "touches (word_of_int idx) False None s (drop_ret (mgmt_stop_discovery env idx s))"
    using w
    by (auto simp: mgmt_stop_discovery_def touches_def drop_ret_def Let_def in_flight_def
        no_uuid_cmds_writes split_beta)
  show "touches (word_of_int idx) False None s
           (case mgmt_get_conn_list idx s of
              Ok (r, l, s1) \<Rightarrow> Ok (s1, []) | Abort \<Rightarrow> Abort | OutOfBounds \<Rightarrow> OutOfBounds)"
    using w
    by (auto simp: mgmt_get_conn_list_def touches_def drop_ret_def Let_def in_flight_def)
qed

lemma commands_quiet [simp]:
  "no_uuid_cmds (snd (mgmt_setup env))"
  "no_uuid_cmds (snd (mgmt_set_connectable env idx b))"
  "no_uuid_cmds (snd (mgmt_set_discoverable env idx b t))"
  "no_uuid_cmds (snd (mgmt_set_fast_connectable env idx b))"
  "no_uuid_cmds (snd (mgmt_block_device env idx bd bt))"
  "no_uuid_cmds (snd (mgmt_unblock_device env idx bd bt))"
  "no_uuid_cmds (snd (mgmt_disconnect env idx bd bt))"
  "no_uuid_cmds (snd (mgmt_unpair_device env idx bd bt))"
  "no_uuid_cmds (snd (mgmt_set_did env idx v p ver src))"
  "no_uuid_cmds (snd (mgmt_load_link_keys env d idx ks dbg))"
  "no_uuid_cmds (snd (mgmt_set_io_capability env idx c))"
  "no_uuid_cmds (snd (mgmt_create_bonding env idx bd bt c))"
  "no_uuid_cmds (snd (mgmt_cancel_bonding env idx bd))"
  "no_uuid_cmds (snd (mgmt_read_local_oob_data env idx))"
  "no_uuid_cmds (snd (mgmt_add_remote_oob_data env idx bd hash r))"
  "no_uuid_cmds (snd (mgmt_remove_remote_oob_data env idx bd))"
  "no_uuid_cmds (snd (mgmt_confirm_name env idx bd bt b))"
  "no_uuid_cmds (snd (mgmt_load_ltks env idx ltks))"
  by (simp_all add: mgmt_setup_def mgmt_set_connectable_def mgmt_set_discoverable_def
      mgmt_set_fast_connectable_def mgmt_block_device_def mgmt_unblock_device_def
      mgmt_disconnect_def mgmt_unpair_device_def mgmt_set_did_def mgmt_load_link_keys_def
      mgmt_set_io_capability_def mgmt_create_bonding_def mgmt_cancel_bonding_def
      mgmt_read_local_oob_data_def mgmt_add_remote_oob_data_def
      mgmt_remove_remote_oob_data_def mgmt_confirm_name_def mgmt_load_ltks_def
      mgmt_set_mode_def MGMT_INDEX_NONE_def Let_def)

text \<open>
  Every input but \<open>mgmt_cleanup\<close> and the reply to read-index-list works on one slot: the
  one its index names.
\<close>

lemma step_touches:
  assumes t: "table_ok s" and c: "inp \<noteq> Cleanup"
    and r: "\<forall>ev i pl. framed d inp = Some (ev, i, pl) \<longrightarrow>
              \<not> (ev = MGMT_EV_CMD_COMPLETE \<and> completed_op d pl = Some MGMT_OP_READ_INDEX_LIST)"
  shows "\<exists>j. touches j (releases d s inp j) (reported_settings d inp (unat j)) s
               (step env d inp s)"
proof (cases inp)
  case (Event cond rd)
  show ?thesis
  proof (cases "framed d inp")
    case None
    with unframed_mgmt_event [of d cond rd env s] Event
    obtain b tr where "mgmt_event env d cond rd s = Ok (b, s, tr)" "only_logs tr" by auto
    then have "touches 0 (releases d s inp 0) (reported_settings d inp (unat (0::16 word))) s
                 (step env d inp s)"
      using Event by (simp add: touches_same only_logs_no_uuid)
    then show ?thesis ..
  next
    case (Some x)
    obtain ev i pl where x: "x = (ev, i, pl)" by (cases x)
    with Some r have
      "\<not> (ev = MGMT_EV_CMD_COMPLETE \<and> completed_op d pl = Some MGMT_OP_READ_INDEX_LIST)"
      by simp
    with touches_step_event [of d cond rd ev i pl s env] Some x Event
    have "touches i (releases d s inp i) (reported_settings d inp (unat i)) s (step env d inp s)"
      by simp
    then show ?thesis ..
  qed
next
  case Cleanup
  with c show ?thesis by simp
next
  case (Add_uuid idx u h)
  then show ?thesis
    using touches_mgmt_add_uuid [OF t, of idx env d u h]
    by (auto simp: releases_def reported_settings_def framed_def)
next
  case (Remove_uuid idx u)
  then show ?thesis
    using touches_mgmt_remove_uuid [OF t, of idx env d u]
    by (auto simp: releases_def reported_settings_def framed_def)
next
  case (Set_powered idx b)
  then show ?thesis
    using touches_slot_ops(1) [OF t, of idx env b]
    by (auto simp: releases_def reported_settings_def framed_def)
next
  case (Set_dev_class idx mj mn)
  then show ?thesis
    using touches_slot_ops(2) [OF t, of idx env mj mn]
    by (auto simp: releases_def reported_settings_def framed_def)
next
  case (Start_discovery idx)
  then show ?thesis
    using touches_slot_ops(3) [OF t, of idx env d]
    by (auto simp: releases_def reported_settings_def framed_def)
next
  case (Start_le_scanning idx)
  then show ?thesis
    using touches_slot_ops(4) [OF t, of idx env d]
    by (auto simp: releases_def reported_settings_def framed_def)
next
  case (Stop_discovery idx)
  then show ?thesis
    using touches_slot_ops(5) [OF t, of idx env]
    by (auto simp: releases_def reported_settings_def framed_def)
next
  case (Get_conn_list idx)
  then show ?thesis
    using touches_slot_ops(6) [OF t, of idx]
    by (auto simp: releases_def reported_settings_def framed_def)
next
  case (Read_bdaddr idx)
  then show ?thesis
    by (auto simp: no_state_def mgmt_read_bdaddr_def Let_def touches_same)
next
  case (Ssp_enabled idx)
  then show ?thesis
    by (auto simp: mgmt_ssp_enabled_def touches_same)
qed (auto simp: touches_same)

subsection \<open>The index list and the clean-up\<close>

lemma add_controller_length [simp]:
  "length (controllers (add_controller env j s)) = max (length (controllers s)) (Suc (unat j))"
  by (auto simp: add_controller_def Let_def)

lemma add_controller_slot:
  assumes "n < length (controllers s)"
  shows "controllers (add_controller env j s) ! n =
           (if n = unat j then zero_info\<lparr>valid := True\<rparr> else controllers s ! n)"
  using assms by (auto simp: add_controller_def Let_def nth_append)

lemma table_ok_add_controller: "table_ok s \<Longrightarrow> table_ok (add_controller env j s)"
proof -
  assume "table_ok s"
  moreover have "unat j < 2 ^ 16" using unsigned_less [of j] by simp
  ultimately show ?thesis by (simp add: table_ok_def)
qed

lemma add_controllers_frame:
  assumes "add_controllers env js s = (s', tr)"
  shows "no_uuid_cmds tr \<and> length (controllers s) \<le> length (controllers s') \<and>
         (table_ok s \<longrightarrow> table_ok s') \<and>
         (\<forall>n < length (controllers s).
            controllers s' ! n = controllers s ! n \<or> cleared (controllers s' ! n))"
  using assms
proof (induction js arbitrary: s s' tr)
  case Nil
  then show ?case by simp
next
  case (Cons j js)
  obtain s1 tr1 where r: "add_controllers env js (add_controller env j s) = (s1, tr1)"
    by (cases "add_controllers env js (add_controller env j s)")
  with Cons.prems have e: "s' = s1" "tr = read_info env j @ tr1" by simp_all
  from Cons.IH [OF r] have ih:
    "no_uuid_cmds tr1"
    "length (controllers (add_controller env j s)) \<le> length (controllers s1)"
    "table_ok (add_controller env j s) \<longrightarrow> table_ok s1"
    "\<forall>n < length (controllers (add_controller env j s)).
       controllers s1 ! n = controllers (add_controller env j s) ! n \<or>
       cleared (controllers s1 ! n)"
    by simp_all
  have "\<forall>n < length (controllers s).
          controllers s1 ! n = controllers s ! n \<or> cleared (controllers s1 ! n)"
  proof (intro allI impI)
    fix n assume n: "n < length (controllers s)"
    then have "n < length (controllers (add_controller env j s))" by simp
    with ih(4) have "controllers s1 ! n = controllers (add_controller env j s) ! n \<or>
       cleared (controllers s1 ! n)" by blast
    then show "controllers s1 ! n = controllers s ! n \<or> cleared (controllers s1 ! n)"
      using add_controller_slot [OF n, of env j] by (auto split: if_splits)
  qed
  with ih e show ?case
    using table_ok_add_controller [of s env j] by auto
qed

lemma read_index_list_complete_frame:
  "\<exists>s' tr. read_index_list_complete env d buf len s = Ok (s', tr) \<and>
     no_uuid_cmds tr \<and> length (controllers s) \<le> length (controllers s') \<and>
     (table_ok s \<longrightarrow> table_ok s') \<and>
     (\<forall>n < length (controllers s).
        controllers s' ! n = controllers s ! n \<or> cleared (controllers s' ! n))"
proof -
  let ?js = "map (\<lambda>i. bt_get_le16 (drop (2 * i) (fld d Mgmt_rp_read_index_list ''index'' buf)))
               [0 ..< unat (bt_get_le16 (fld d Mgmt_rp_read_index_list ''num_controllers'' buf))]"
  obtain s1 tr1 where r: "add_controllers env ?js s = (s1, tr1)"
    by (cases "add_controllers env ?js s")
  from add_controllers_frame [OF r] r show ?thesis
    by (simp add: read_index_list_complete_def Let_def)
qed

text \<open>
  The two inputs that work on the whole table: no UUID command is written, and a slot
  that is still there is as before or cleared.
\<close>

lemma step_whole_table:
  assumes "inp = Cleanup \<or>
           (\<exists>i pl. framed d inp = Some (MGMT_EV_CMD_COMPLETE, i, pl) \<and>
                    completed_op d pl = Some MGMT_OP_READ_INDEX_LIST)"
  shows "\<exists>s' tr. step env d inp s = Ok (s', tr) \<and> no_uuid_cmds tr \<and>
           (table_ok s \<longrightarrow> table_ok s') \<and>
           (\<forall>n. n < length (controllers s) \<and> n < length (controllers s') \<longrightarrow>
              controllers s' ! n = controllers s ! n \<or> cleared (controllers s' ! n))"
  using assms
proof
  assume "inp = Cleanup"
  then show ?thesis by (simp add: mgmt_cleanup_def table_ok_def)
next
  assume "\<exists>i pl. framed d inp = Some (MGMT_EV_CMD_COMPLETE, i, pl) \<and>
                  completed_op d pl = Some MGMT_OP_READ_INDEX_LIST"
  then obtain i pl where f: "framed d inp = Some (MGMT_EV_CMD_COMPLETE, i, pl)"
    and c: "completed_op d pl = Some MGMT_OP_READ_INDEX_LIST" by blast
  from f obtain cond rd where inp: "inp = Event cond rd"
    by (cases inp) (simp_all add: framed_def)
  from framed_mgmt_event [OF f [unfolded inp], of env s]
  obtain opcode where o: "event_code d opcode = Some MGMT_EV_CMD_COMPLETE"
    and e: "mgmt_event env d cond rd s =
             (case dispatch_event env d opcode i pl (length pl) s of
                Ok (s1, tr) \<Rightarrow> Ok (True, s1, tr)
              | Abort \<Rightarrow> Abort
              | OutOfBounds \<Rightarrow> OutOfBounds)" by blast
  from c have "dispatch_event env d opcode i pl (length pl) s =
      read_index_list_complete env d (drop sizeof_mgmt_ev_cmd_complete pl)
        (length pl - sizeof_mgmt_ev_cmd_complete) s"
    using o by (simp add: dispatch_event_def mgmt_cmd_complete_def completed_op_def Let_def
        split: if_splits)
  with read_index_list_complete_frame [of env d "drop sizeof_mgmt_ev_cmd_complete pl"
      "length pl - sizeof_mgmt_ev_cmd_complete" s] e inp
  show ?thesis by auto
qed

subsection \<open>What one input does to the flag of a controller\<close>

lemma word16_unat_eq: "unat (i::16 word) = unat j \<Longrightarrow> i = j"
  by (simp add: word_unat_eq_iff)

lemma touches_flight:
  assumes "touches j rel dec s (Ok (s', tr))"
  shows "length (uuid_writes i tr) \<le> 1"
    and "uuid_writes i tr \<noteq> [] \<longrightarrow> in_flight s' i"
    and "in_flight s i \<and> \<not> (i = j \<and> rel) \<longrightarrow> in_flight s' i \<and> uuid_writes i tr = []"
    and "table_ok s \<longrightarrow> table_ok s'"
proof -
  have b: "unat j < 2 ^ 16" using unsigned_less [of j] by simp
  show "length (uuid_writes i tr) \<le> 1" using assms by (cases "i = j") (auto simp: touches_def)
  show "uuid_writes i tr \<noteq> [] \<longrightarrow> in_flight s' i"
    using assms by (cases "i = j") (auto simp: touches_def)
  show "in_flight s i \<and> \<not> (i = j \<and> rel) \<longrightarrow> in_flight s' i \<and> uuid_writes i tr = []"
  proof (cases "i = j")
    case True
    then show ?thesis using assms by (auto simp: touches_def)
  next
    case False
    then have "unat i \<noteq> unat j" using word16_unat_eq by blast
    then show ?thesis using assms False by (auto simp: touches_def in_flight_def)
  qed
  show "table_ok s \<longrightarrow> table_ok s'" using assms b by (auto simp: touches_def table_ok_def)
qed

lemma step_flight:
  assumes t: "table_ok s" and r: "step env d inp s = Ok (s', tr)"
  shows "table_ok s'"
    and "length (uuid_writes i tr) \<le> 1"
    and "uuid_writes i tr \<noteq> [] \<Longrightarrow> in_flight s' i"
    and "in_flight s i \<Longrightarrow> \<not> releases d s inp i \<Longrightarrow> in_flight s' i \<and> uuid_writes i tr = []"
proof -
  let ?whole = "inp = Cleanup \<or>
           (\<exists>i pl. framed d inp = Some (MGMT_EV_CMD_COMPLETE, i, pl) \<and>
                    completed_op d pl = Some MGMT_OP_READ_INDEX_LIST)"
  have "table_ok s' \<and> length (uuid_writes i tr) \<le> 1 \<and>
        (uuid_writes i tr \<noteq> [] \<longrightarrow> in_flight s' i) \<and>
        (in_flight s i \<and> \<not> releases d s inp i \<longrightarrow> in_flight s' i \<and> uuid_writes i tr = [])"
  proof (cases ?whole)
    case True
    then have rel: "releases d s inp i" by (auto simp: releases_def)
    from step_whole_table [OF True, of env s] r t rel show ?thesis
      by (auto simp: no_uuid_cmds_writes)
  next
    case False
    then have "inp \<noteq> Cleanup"
      and "\<forall>ev i pl. framed d inp = Some (ev, i, pl) \<longrightarrow>
              \<not> (ev = MGMT_EV_CMD_COMPLETE \<and> completed_op d pl = Some MGMT_OP_READ_INDEX_LIST)"
      by auto
    from step_touches [OF t this, of env] r
    obtain j where tj: "touches j (releases d s inp j) (reported_settings d inp (unat j)) s
                          (Ok (s', tr))" by auto
    from touches_flight(1-3) [OF tj, of i] touches_flight(4) [OF tj] t show ?thesis by auto
  qed
  then show "table_ok s'" and "length (uuid_writes i tr) \<le> 1"
    and "uuid_writes i tr \<noteq> [] \<Longrightarrow> in_flight s' i"
    and "in_flight s i \<Longrightarrow> \<not> releases d s inp i \<Longrightarrow> in_flight s' i \<and> uuid_writes i tr = []"
    by simp_all
qed

subsection \<open>Runs\<close>

lemma run_Cons_Ok:
  "step env d inp s = Ok (s1, tr) \<Longrightarrow>
     run d ((env, inp) # rest) s = (s, inp, tr) # run d rest s1"
  by simp

lemma run_nonempty:
  assumes "k < length (run d ((env, inp) # rest) s)"
  obtains s1 tr where "step env d inp s = Ok (s1, tr)"
  using assms by (cases "step env d inp s") auto

lemma run_in_flight:
  assumes "table_ok s" and "in_flight s i" and "k < length (run d steps s)"
    and "uuid_writes i (snd (snd (run d steps s ! k))) \<noteq> []"
  shows "\<exists>m\<le>k. releases d (fst (run d steps s ! m)) (fst (snd (run d steps s ! m))) i"
  using assms
proof (induction steps arbitrary: s k)
  case Nil
  then show ?case by simp
next
  case (Cons a rest)
  obtain env inp where a: "a = (env, inp)" by (cases a)
  from Cons.prems(3) obtain s1 tr where st: "step env d inp s = Ok (s1, tr)"
    unfolding a by (rule run_nonempty)
  have run: "run d (a # rest) s = (s, inp, tr) # run d rest s1"
    unfolding a using st by simp
  show ?case
  proof (cases "releases d s inp i")
    case True
    then show ?thesis using run by (intro exI [of _ 0]) simp
  next
    case False
    from step_flight(4) [OF Cons.prems(1) st Cons.prems(2) False]
    have f1: "in_flight s1 i" and w0: "uuid_writes i tr = []" by simp_all
    from step_flight(1) [OF Cons.prems(1) st] have t1: "table_ok s1" .
    from Cons.prems(4) w0 run obtain k' where k: "k = Suc k'" by (cases k) auto
    with Cons.prems(3,4) run have "k' < length (run d rest s1)"
      and "uuid_writes i (snd (snd (run d rest s1 ! k'))) \<noteq> []" by simp_all
    from Cons.IH [OF t1 f1 this]
    obtain m where "m \<le> k'"
      and "releases d (fst (run d rest s1 ! m)) (fst (snd (run d rest s1 ! m))) i" by blast
    then show ?thesis using run k by (intro exI [of _ "Suc m"]) simp
  qed
qed

lemma run_single_flight:
  assumes "table_ok s" and "j < k" and "k < length (run d steps s)"
    and "uuid_writes i (snd (snd (run d steps s ! j))) \<noteq> []"
    and "uuid_writes i (snd (snd (run d steps s ! k))) \<noteq> []"
  shows "\<exists>m. j < m \<and> m \<le> k \<and>
           releases d (fst (run d steps s ! m)) (fst (snd (run d steps s ! m))) i"
  using assms
proof (induction steps arbitrary: s j k)
  case Nil
  then show ?case by simp
next
  case (Cons a rest)
  obtain env inp where a: "a = (env, inp)" by (cases a)
  from Cons.prems(3) obtain s1 tr where st: "step env d inp s = Ok (s1, tr)"
    unfolding a by (rule run_nonempty)
  have run: "run d (a # rest) s = (s, inp, tr) # run d rest s1"
    unfolding a using st by simp
  from step_flight(1) [OF Cons.prems(1) st] have t1: "table_ok s1" .
  from Cons.prems(2) obtain k' where k: "k = Suc k'" by (cases k) auto
  with Cons.prems(3,5) run have k': "k' < length (run d rest s1)"
    "uuid_writes i (snd (snd (run d rest s1 ! k'))) \<noteq> []" by simp_all
  show ?case
  proof (cases j)
    case 0
    with Cons.prems(4) run have "uuid_writes i tr \<noteq> []" by simp
    from step_flight(3) [OF Cons.prems(1) st this] have f1: "in_flight s1 i" .
    from run_in_flight [OF t1 f1 k']
    obtain m where "m \<le> k'"
      and "releases d (fst (run d rest s1 ! m)) (fst (snd (run d rest s1 ! m))) i" by blast
    then show ?thesis using run k 0 by (intro exI [of _ "Suc m"]) simp
  next
    case (Suc j')
    with Cons.prems(2,4) run k have "j' < k'"
      "uuid_writes i (snd (snd (run d rest s1 ! j'))) \<noteq> []" by simp_all
    from Cons.IH [OF t1 this(1) k'(1) this(2) k'(2)]
    obtain m where "j' < m" "m \<le> k'"
      and "releases d (fst (run d rest s1 ! m)) (fst (snd (run d rest s1 ! m))) i" by blast
    then show ?thesis using run k Suc by (intro exI [of _ "Suc m"]) simp
  qed
qed

lemma run_one_write:
  assumes "table_ok s" and "k < length (run d steps s)"
  shows "length (uuid_writes i (snd (snd (run d steps s ! k)))) \<le> 1"
  using assms
proof (induction steps arbitrary: s k)
  case Nil
  then show ?case by simp
next
  case (Cons a rest)
  obtain env inp where a: "a = (env, inp)" by (cases a)
  from Cons.prems(2) obtain s1 tr where st: "step env d inp s = Ok (s1, tr)"
    unfolding a by (rule run_nonempty)
  have run: "run d (a # rest) s = (s, inp, tr) # run d rest s1"
    unfolding a using st by simp
  from step_flight(1) [OF Cons.prems(1) st] have t1: "table_ok s1" .
  show ?case
  proof (cases k)
    case 0
    then show ?thesis using run step_flight(2) [OF Cons.prems(1) st, of i] by simp
  next
    case (Suc k')
    with Cons.prems(2) run have "k' < length (run d rest s1)" by simp
    from Cons.IH [OF t1 this] show ?thesis using run Suc by simp
  qed
qed

subsection \<open>What one input does to the stored settings\<close>

lemma unchanged_settings_same [simp]: "unchanged_settings s (Ok (s, tr))"
  by (simp add: unchanged_settings_def)

lemma unchanged_settings_fail [simp]:
  "unchanged_settings s Abort" "unchanged_settings s OutOfBounds"
  by (simp_all add: unchanged_settings_def)

lemma settings_put_info:
  assumes "current_settings info = current_settings (controllers s ! n)"
  shows "map current_settings (controllers (put_info n info s)) =
           map current_settings (controllers s)"
proof (cases "n < length (controllers s)")
  case True
  with assms show ?thesis by (auto simp: list_eq_iff_nth_eq nth_list_update)
next
  case False
  then have "(controllers s)[n := info] = controllers s" by (simp add: list_update_beyond)
  then show ?thesis by simp
qed

lemma unchanged_settings_put_info [simp]:
  "current_settings info = current_settings (controllers s ! n) \<Longrightarrow>
     unchanged_settings s (Ok (put_info n info s, tr))"
  by (simp add: unchanged_settings_def settings_put_info del: controllers_put_info)

lemma unchanged_settings_and_then:
  assumes "unchanged_settings s r" and "\<And>t. unchanged_settings t (f t)"
  shows "unchanged_settings s (and_then r f)"
proof (cases r)
  case (Ok x)
  obtain s1 tr1 where x: "x = (s1, tr1)" by (cases x)
  from assms(2) [of s1] assms(1) Ok x show ?thesis
    by (cases "f s1") (auto simp: unchanged_settings_def and_then_def)
qed (simp_all add: and_then_def)

lemma unchanged_settings_transfer:
  assumes "unchanged_settings s1 r"
    and "map current_settings (controllers s1) = map current_settings (controllers s)"
  shows "unchanged_settings s r"
  using assms by (cases r) (auto simp: unchanged_settings_def)

lemma unchanged_settings_keeps: "unchanged_settings s r \<Longrightarrow> keeps i dec s r"
proof (cases r)
  case (Ok x)
  assume u: "unchanged_settings s r"
  obtain s1 tr1 where x: "x = (s1, tr1)" by (cases x)
  from u Ok x have m: "map current_settings (controllers s1) = map current_settings (controllers s)"
    by (simp add: unchanged_settings_def)
  have "\<And>n. n < length (controllers s) \<Longrightarrow> n < length (controllers s1) \<Longrightarrow>
          current_settings (controllers s1 ! n) = current_settings (controllers s ! n)"
  proof -
    fix n assume n: "n < length (controllers s)" "n < length (controllers s1)"
    have "current_settings (controllers s1 ! n) = map current_settings (controllers s1) ! n"
      using n by simp
    also have "\<dots> = map current_settings (controllers s) ! n" by (simp only: m)
    also have "\<dots> = current_settings (controllers s ! n)" using n by simp
    finally show "current_settings (controllers s1 ! n) = current_settings (controllers s ! n)" .
  qed
  then show ?thesis using Ok x by (simp add: keeps_def)
qed (simp_all add: keeps_def)

lemma inert_unchanged: "inert i s r \<Longrightarrow> unchanged_settings s r"
  by (auto simp: inert_def)

lemma unchanged_handlers:
  "unchanged_settings s (get_connections_complete env d i buf len s)"
  "unchanged_settings s (mgmt_update_cod env d i buf len s)"
  "unchanged_settings s (read_version_complete env d buf len s)"
  "unchanged_settings s (mgmt_cmd_status env d i buf len s)"
  by (auto simp: get_connections_complete_def mgmt_update_cod_def read_version_complete_def
      mgmt_cmd_status_def mgmt_add_uuid_busy_def Let_def unchanged_settings_def
      settings_put_info simp del: controllers_put_info split: option.split)

lemma unchanged_handle_pending_uuids:
  "unchanged_settings s (handle_pending_uuids env d i s)"
proof (cases "unat i < length (controllers s)")
  case False
  then show ?thesis by (simp add: handle_pending_uuids_def)
next
  case l: True
  show ?thesis
  proof (cases "pending_uuids (controllers s ! unat i)")
    case Nil
    show ?thesis
      using handle_pending_uuids_empty [OF l Nil, of env d] by (simp add: Let_def)
  next
    case (Cons p ps)
    show ?thesis
    proof (cases "is_16bit_uuid d (uuid p)")
      case True
      show ?thesis
        using handle_pending_uuids_head [OF l Cons True, of env] by (simp add: Let_def)
    next
      case False
      show ?thesis
        using handle_pending_uuids_head_ignored [OF l Cons False, of env] by simp
    qed
  qed
qed

lemma unchanged_uuid_replies:
  "unchanged_settings s (mgmt_add_uuid_complete env d i buf len s)"
  "unchanged_settings s (mgmt_remove_uuid_complete env d i buf len s)"
  by (simp_all add: mgmt_add_uuid_complete_def mgmt_remove_uuid_complete_def
      unchanged_settings_and_then unchanged_handlers unchanged_handle_pending_uuids)

lemma unchanged_mgmt_cod_changed:
  "unchanged_settings s (mgmt_cod_changed env d i buf len s)"
proof (cases "unat i < length (controllers s)")
  case False
  then show ?thesis by (simp add: mgmt_cod_changed_def)
next
  case True
  let ?s1 = "put_info (unat i) ((controllers s ! unat i)\<lparr>pending_cod_change := False\<rparr>) s"
  have "unchanged_settings ?s1 (handle_pending_uuids env d i ?s1)"
    by (rule unchanged_handle_pending_uuids)
  then have "unchanged_settings s (handle_pending_uuids env d i ?s1)"
    by (rule unchanged_settings_transfer) (simp add: settings_put_info del: controllers_put_info)
  then show ?thesis
    using True
    by (simp add: mgmt_cod_changed_def Let_def unchanged_settings_and_then unchanged_handlers)
qed

lemma keeps_mgmt_new_settings:
  "keeps i (Some (bt_get_le32 buf)) s (mgmt_new_settings env d i buf len s)"
  unfolding keeps_def mgmt_new_settings_def mgmt_update_powered_def
  by (auto simp: Let_def nth_list_update split: option.splits)

lemma keeps_read_info_complete:
  "keeps i (Some (bt_get_le32 (fld d Mgmt_rp_read_info ''current_settings'' buf))) s
     (read_info_complete env d i buf len s)"
proof (cases "unat i < length (controllers s)")
  case False
  then show ?thesis by (simp add: read_info_complete_def keeps_def)
next
  case True
  then show ?thesis
    unfolding read_info_complete_def clear_uuids_def keeps_def
    by (auto simp: mgmt_remove_uuid_in_table mgmt_set_dev_class_in_table Let_def nth_list_update
        split: option.split prod.split)
qed

lemmas unchanged_inert = inert_handlers [THEN inert_unchanged]

lemmas keeps_unchanged =
  unchanged_inert [THEN unchanged_settings_keeps]
  unchanged_handlers [THEN unchanged_settings_keeps]
  unchanged_uuid_replies [THEN unchanged_settings_keeps]
  unchanged_mgmt_cod_changed [THEN unchanged_settings_keeps]

lemma keeps_same [simp]: "keeps i dec s (Ok (s, tr))"
  by (simp add: keeps_def)

lemma keeps_mgmt_cmd_complete:
  assumes f: "framed d inp = Some (MGMT_EV_CMD_COMPLETE, i, pl)"
    and n: "completed_op d pl \<noteq> Some MGMT_OP_READ_INDEX_LIST"
  shows "keeps i (reported_settings d inp (unat i)) s
           (mgmt_cmd_complete env d i pl (length pl) s)"
proof (cases "completed_op d pl")
  case None
  then show ?thesis
    by (auto simp: mgmt_cmd_complete_def completed_op_def Let_def split: if_splits)
next
  case (Some op)
  then have l: "\<not> length pl < sizeof_mgmt_ev_cmd_complete"
    and c: "command_code d (bt_get_le16 pl) = Some op"
    by (simp_all add: completed_op_def split: if_splits)
  from n Some have "op \<noteq> MGMT_OP_READ_INDEX_LIST" by simp
  then show ?thesis
    using f Some l c
    by (cases op)
       (simp_all add: mgmt_cmd_complete_def reported_settings_def settings_payload_def Let_def
          keeps_unchanged keeps_mgmt_new_settings keeps_read_info_complete)
qed

lemma keeps_dispatch_event:
  assumes f: "framed d inp = Some (ev, i, pl)"
    and n: "\<not> (ev = MGMT_EV_CMD_COMPLETE \<and> completed_op d pl = Some MGMT_OP_READ_INDEX_LIST)"
    and a: "ev \<noteq> MGMT_EV_INDEX_ADDED" "ev \<noteq> MGMT_EV_INDEX_REMOVED"
    and c: "event_code d opcode = Some ev"
  shows "keeps i (reported_settings d inp (unat i)) s
           (dispatch_event env d opcode i pl (length pl) s)"
proof (cases "ev = MGMT_EV_CMD_COMPLETE")
  case True
  with f n c show ?thesis
    using keeps_mgmt_cmd_complete [of d inp i pl s env] by (simp add: dispatch_event_def)
next
  case False
  then show ?thesis
    using f c a
    by (cases ev)
       (simp_all add: dispatch_event_def reported_settings_def settings_payload_def
          keeps_unchanged keeps_mgmt_new_settings)
qed

lemma keeps_drop_ret:
  "keeps i dec s (drop_ret (case r of Ok (s1, tr) \<Rightarrow> Ok (True, s1, tr)
       | Abort \<Rightarrow> Abort | OutOfBounds \<Rightarrow> OutOfBounds)) = keeps i dec s r"
  by (cases r) (auto simp: drop_ret_def keeps_def)

lemma unchanged_commands:
  "unchanged_settings s (drop_ret (mgmt_add_uuid env d idx u h s))"
  "unchanged_settings s (drop_ret (mgmt_remove_uuid env d idx u s))"
  "unchanged_settings s (drop_ret (mgmt_set_powered env idx b s))"
  "unchanged_settings s (drop_ret (mgmt_set_dev_class env idx mj mn s))"
  "unchanged_settings s (drop_ret (mgmt_start_discovery env d idx s))"
  "unchanged_settings s (drop_ret (mgmt_start_le_scanning env d idx s))"
  "unchanged_settings s (drop_ret (mgmt_stop_discovery env idx s))"
  "unchanged_settings s (no_state (mgmt_read_bdaddr idx s) s)"
  "unchanged_settings s
     (case mgmt_get_conn_list idx s of
        Ok (r, l, s1) \<Rightarrow> Ok (s1, []) | Abort \<Rightarrow> Abort | OutOfBounds \<Rightarrow> OutOfBounds)"
  "unchanged_settings s
     (case mgmt_ssp_enabled d idx s of
        Ok b \<Rightarrow> Ok (s, []) | Abort \<Rightarrow> Abort | OutOfBounds \<Rightarrow> OutOfBounds)"
  by (auto simp: drop_ret_def no_state_def mgmt_add_uuid_def mgmt_remove_uuid_def
      mgmt_set_powered_def mgmt_set_dev_class_def mgmt_start_discovery_def
      mgmt_start_le_scanning_def mgmt_stop_discovery_def mgmt_read_bdaddr_def
      mgmt_get_conn_list_def mgmt_ssp_enabled_def Let_def split_beta
      unchanged_settings_def settings_put_info simp del: controllers_put_info)

text \<open>The slots that \<open>add_controllers\<close> changes are those of the indexes it is given.\<close>

lemma add_controllers_slot:
  assumes "add_controllers env js s = (s', tr)" and "n < length (controllers s)"
  shows "n < length (controllers s') \<and>
         (if n \<in> set (map unat js) then cleared (controllers s' ! n)
          else controllers s' ! n = controllers s ! n)"
  using assms
proof (induction js arbitrary: s s' tr)
  case Nil
  then show ?case by simp
next
  case (Cons j js)
  obtain s1 tr1 where r: "add_controllers env js (add_controller env j s) = (s1, tr1)"
    by (cases "add_controllers env js (add_controller env j s)")
  with Cons.prems have e: "s' = s1" by simp
  have n1: "n < length (controllers (add_controller env j s))" using Cons.prems(2) by simp
  from Cons.IH [OF r n1] have ih: "n < length (controllers s1)"
    "if n \<in> set (map unat js) then cleared (controllers s1 ! n)
     else controllers s1 ! n = controllers (add_controller env j s) ! n" by simp_all
  show ?case
    using ih e add_controller_slot [OF Cons.prems(2), of env j]
    by (auto split: if_splits)
qed

lemma read_index_list_complete_slot:
  assumes "read_index_list_complete env d buf len s = Ok (s', tr)"
    and "n < length (controllers s)"
  shows "controllers s' ! n = controllers s ! n \<or>
         (n \<in> set (map unat (listed_indexes d buf)) \<and> cleared (controllers s' ! n))"
proof (cases "len < sizeof d Mgmt_rp_read_index_list \<or>
    unat (bt_get_le16 (fld d Mgmt_rp_read_index_list ''num_controllers'' buf)) * 2 +
      sizeof d Mgmt_rp_read_index_list \<noteq> len")
  case True
  with assms(1) have "s' = s"
    unfolding read_index_list_complete_def Let_def by (auto split: if_splits)
  then show ?thesis by simp
next
  case False
  with assms(1) have "add_controllers env (listed_indexes d buf) s = (s', tr)"
    unfolding read_index_list_complete_def listed_indexes_def Let_def
    by (auto split: if_splits)
  from add_controllers_slot [OF this assms(2)] show ?thesis by (auto split: if_splits)
qed

text \<open>
  Over every input: \<open>current_settings\<close> of a slot that is in the table before and after is
  as before, or the word that the input reports for the slot, or the slot was cleared by
  an input that registers or removes its index.
\<close>

lemma step_keeps:
  assumes r: "step env d inp s = Ok (s1, tr1)"
    and n: "n < length (controllers s)" "n < length (controllers s1)"
  shows "current_settings (controllers s1 ! n) = current_settings (controllers s ! n) \<or>
         Some (current_settings (controllers s1 ! n)) = reported_settings d inp n \<or>
         (resets d inp n \<and> cleared (controllers s1 ! n))"
proof -
  have k: "\<And>j dec. keeps j dec s (step env d inp s) \<Longrightarrow>
             current_settings (controllers s1 ! n) = current_settings (controllers s ! n) \<or>
             (n = unat j \<and> Some (current_settings (controllers s1 ! n)) = dec)"
    using r n by (simp add: keeps_def)
  have u: "unchanged_settings s (step env d inp s) \<Longrightarrow> ?thesis"
    using k [OF unchanged_settings_keeps, of 0 None] by simp
  show ?thesis
  proof (cases inp)
    case (Event cond rd)
    show ?thesis
    proof (cases "framed d inp")
      case None
      from unframed_mgmt_event [OF None [unfolded Event], of env s] Event
      have "unchanged_settings s (step env d inp s)" by auto
      then show ?thesis by (rule u)
    next
      case (Some x)
      obtain ev i pl where x: "x = (ev, i, pl)" by (cases x)
      note f = Some [unfolded x]
      from framed_mgmt_event [OF f [unfolded Event], of env s]
      obtain opcode where o: "event_code d opcode = Some ev"
        and e: "mgmt_event env d cond rd s =
             (case dispatch_event env d opcode i pl (length pl) s of
                Ok (s1, tr) \<Rightarrow> Ok (True, s1, tr)
              | Abort \<Rightarrow> Abort
              | OutOfBounds \<Rightarrow> OutOfBounds)" by blast
      consider (added) "ev = MGMT_EV_INDEX_ADDED" | (removed) "ev = MGMT_EV_INDEX_REMOVED"
        | (list) "ev = MGMT_EV_CMD_COMPLETE" "completed_op d pl = Some MGMT_OP_READ_INDEX_LIST"
        | (other) "ev \<noteq> MGMT_EV_INDEX_ADDED" "ev \<noteq> MGMT_EV_INDEX_REMOVED"
            "\<not> (ev = MGMT_EV_CMD_COMPLETE \<and> completed_op d pl = Some MGMT_OP_READ_INDEX_LIST)"
        by blast
      then show ?thesis
      proof cases
        case added
        with e o r Event have s1: "s1 = add_controller env i s"
          by (simp add: dispatch_event_def mgmt_index_added_def drop_ret_def)
        show ?thesis
          using add_controller_slot [OF n(1), of env i] f added s1
          by (auto simp: resets_def)
      next
        case removed
        with e o r Event have s1: "s1 = fst (remove_controller i s)"
          by (simp add: dispatch_event_def mgmt_index_removed_def drop_ret_def)
        show ?thesis
          using n f removed s1
          by (auto simp: resets_def remove_controller_def nth_list_update split: if_splits)
      next
        case list
        then have l: "\<not> length pl < sizeof_mgmt_ev_cmd_complete"
          and c: "command_code d (bt_get_le16 pl) = Some MGMT_OP_READ_INDEX_LIST"
          by (simp_all add: completed_op_def split: if_splits)
        from e o r Event list l c
        have "read_index_list_complete env d (drop sizeof_mgmt_ev_cmd_complete pl)
                (length pl - sizeof_mgmt_ev_cmd_complete) s = Ok (s1, tr1)"
          by (auto simp: dispatch_event_def mgmt_cmd_complete_def Let_def drop_ret_def
              split: result.splits)
        from read_index_list_complete_slot [OF this n(1)] f list show ?thesis
          by (auto simp: resets_def)
      next
        case other
        from keeps_dispatch_event [OF f other(3) other(1) other(2) o, of s env] e Event
        have "keeps i (reported_settings d inp (unat i)) s (step env d inp s)"
          by (simp add: keeps_drop_ret)
        from k [OF this] show ?thesis by auto
      qed
    qed
  next
    case Cleanup
    with r n show ?thesis by (auto simp: mgmt_cleanup_def)
  qed (rule u, simp add: unchanged_commands)+
qed

subsection \<open>The flag \<open>valid\<close>\<close>

lemma forget_valid_simps [simp]:
  "controllers (forget_valid s) = map (\<lambda>c. c\<lparr>valid := False\<rparr>) (controllers s)"
  "mgmt_version (forget_valid s) = mgmt_version s"
  "mgmt_revision (forget_valid s) = mgmt_revision s"
  "max_index (forget_valid s) = max_index s"
  by (simp_all add: forget_valid_def max_index_def)

lemma forget_valid_idem [simp]: "forget_valid (forget_valid s) = forget_valid s"
  by (simp add: forget_valid_def)

lemma forget_valid_put_info [simp]:
  "forget_valid (put_info n info s) = put_info n (info\<lparr>valid := False\<rparr>) (forget_valid s)"
  by (simp add: forget_valid_def put_info_def map_update)

lemma valid_blind_simps [simp]:
  "valid_blind (Ok (s, tr)) = Ok (forget_valid s, tr)"
  "valid_blind Abort = Abort"
  "valid_blind OutOfBounds = OutOfBounds"
  by (simp_all add: valid_blind_def)

lemma blind_mgmt_new_settings:
  "valid_blind (mgmt_new_settings env d i buf len (forget_valid s)) =
   valid_blind (mgmt_new_settings env d i buf len s)"
  by (auto simp: mgmt_new_settings_def mgmt_update_powered_def Let_def split: option.splits)

lemma blind_handlers:
  "valid_blind (mgmt_new_link_key env d i buf len (forget_valid s)) =
   valid_blind (mgmt_new_link_key env d i buf len s)"
  "valid_blind (mgmt_device_connected env d i buf len (forget_valid s)) =
   valid_blind (mgmt_device_connected env d i buf len s)"
  "valid_blind (mgmt_device_disconnected env d i buf len (forget_valid s)) =
   valid_blind (mgmt_device_disconnected env d i buf len s)"
  "valid_blind (mgmt_connect_failed env d i buf len (forget_valid s)) =
   valid_blind (mgmt_connect_failed env d i buf len s)"
  "valid_blind (mgmt_pin_code_request env d i buf len (forget_valid s)) =
   valid_blind (mgmt_pin_code_request env d i buf len s)"
  "valid_blind (mgmt_passkey_request env d i buf len (forget_valid s)) =
   valid_blind (mgmt_passkey_request env d i buf len s)"
  "valid_blind (mgmt_passkey_notify env d i buf len (forget_valid s)) =
   valid_blind (mgmt_passkey_notify env d i buf len s)"
  "valid_blind (mgmt_user_confirm_request env d i buf len (forget_valid s)) =
   valid_blind (mgmt_user_confirm_request env d i buf len s)"
  "valid_blind (mgmt_auth_failed env d i buf len (forget_valid s)) =
   valid_blind (mgmt_auth_failed env d i buf len s)"
  "valid_blind (mgmt_local_name_changed env d i buf len (forget_valid s)) =
   valid_blind (mgmt_local_name_changed env d i buf len s)"
  "valid_blind (mgmt_device_found env d i buf len (forget_valid s)) =
   valid_blind (mgmt_device_found env d i buf len s)"
  "valid_blind (mgmt_discovering env d i buf len (forget_valid s)) =
   valid_blind (mgmt_discovering env d i buf len s)"
  "valid_blind (mgmt_device_blocked env d i buf len (forget_valid s)) =
   valid_blind (mgmt_device_blocked env d i buf len s)"
  "valid_blind (mgmt_device_unblocked env d i buf len (forget_valid s)) =
   valid_blind (mgmt_device_unblocked env d i buf len s)"
  "valid_blind (mgmt_device_unpaired env d i buf len (forget_valid s)) =
   valid_blind (mgmt_device_unpaired env d i buf len s)"
  "valid_blind (mgmt_new_ltk env d i buf len (forget_valid s)) =
   valid_blind (mgmt_new_ltk env d i buf len s)"
  "valid_blind (set_local_name_complete env d i buf len (forget_valid s)) =
   valid_blind (set_local_name_complete env d i buf len s)"
  "valid_blind (read_local_oob_data_complete env d i buf len (forget_valid s)) =
   valid_blind (read_local_oob_data_complete env d i buf len s)"
  "valid_blind (get_connections_complete env d i buf len (forget_valid s)) =
   valid_blind (get_connections_complete env d i buf len s)"
  "valid_blind (mgmt_update_cod env d i buf len (forget_valid s)) =
   valid_blind (mgmt_update_cod env d i buf len s)"
  "valid_blind (mgmt_cmd_status env d i buf len (forget_valid s)) =
   valid_blind (mgmt_cmd_status env d i buf len s)"
  "valid_blind (disconnect_complete env d i status buf len (forget_valid s)) =
   valid_blind (disconnect_complete env d i status buf len s)"
  "valid_blind (pair_device_complete env d i status buf len (forget_valid s)) =
   valid_blind (pair_device_complete env d i status buf len s)"
  "valid_blind (start_discovery_complete env i status buf len (forget_valid s)) =
   valid_blind (start_discovery_complete env i status buf len s)"
  "valid_blind (mgmt_controller_error d i buf len (forget_valid s)) =
   valid_blind (mgmt_controller_error d i buf len s)"
  "valid_blind (read_version_complete env d buf len (forget_valid s)) =
   valid_blind (read_version_complete env d buf len s)"
  by (auto simp: mgmt_new_link_key_def mgmt_device_connected_def mgmt_device_disconnected_def mgmt_connect_failed_def mgmt_pin_code_request_def mgmt_passkey_request_def mgmt_passkey_notify_def mgmt_user_confirm_request_def mgmt_auth_failed_def mgmt_local_name_changed_def mgmt_device_found_def mgmt_discovering_def mgmt_device_blocked_def mgmt_device_unblocked_def mgmt_device_unpaired_def mgmt_new_ltk_def set_local_name_complete_def read_local_oob_data_complete_def get_connections_complete_def mgmt_update_cod_def mgmt_cmd_status_def disconnect_complete_def pair_device_complete_def start_discovery_complete_def mgmt_controller_error_def read_version_complete_def
      bonding_complete_def mgmt_add_uuid_busy_def read_local_oob_data_failed_def
      forget_valid_def [of "s\<lparr>mgmt_revision := r, mgmt_version := v\<rparr>" for r v]
      Let_def split: option.splits prod.splits)

text \<open>The update of \<open>valid\<close> is moved outside the other updates of a slot.\<close>

lemma valid_last:
  "(r\<lparr>valid := b\<rparr>)\<lparr>bdaddr := x0\<rparr> = (r\<lparr>bdaddr := x0\<rparr>)\<lparr>valid := b\<rparr>"
  "(r\<lparr>valid := b\<rparr>)\<lparr>supported_settings := x1\<rparr> = (r\<lparr>supported_settings := x1\<rparr>)\<lparr>valid := b\<rparr>"
  "(r\<lparr>valid := b\<rparr>)\<lparr>current_settings := x2\<rparr> = (r\<lparr>current_settings := x2\<rparr>)\<lparr>valid := b\<rparr>"
  "(r\<lparr>valid := b\<rparr>)\<lparr>connections := x3\<rparr> = (r\<lparr>connections := x3\<rparr>)\<lparr>valid := b\<rparr>"
  "(r\<lparr>valid := b\<rparr>)\<lparr>discov_type := x4\<rparr> = (r\<lparr>discov_type := x4\<rparr>)\<lparr>valid := b\<rparr>"
  "(r\<lparr>valid := b\<rparr>)\<lparr>pending_uuid := x5\<rparr> = (r\<lparr>pending_uuid := x5\<rparr>)\<lparr>valid := b\<rparr>"
  "(r\<lparr>valid := b\<rparr>)\<lparr>pending_uuids := x6\<rparr> = (r\<lparr>pending_uuids := x6\<rparr>)\<lparr>valid := b\<rparr>"
  "(r\<lparr>valid := b\<rparr>)\<lparr>pending_class := x7\<rparr> = (r\<lparr>pending_class := x7\<rparr>)\<lparr>valid := b\<rparr>"
  "(r\<lparr>valid := b\<rparr>)\<lparr>major := x8\<rparr> = (r\<lparr>major := x8\<rparr>)\<lparr>valid := b\<rparr>"
  "(r\<lparr>valid := b\<rparr>)\<lparr>minor := x9\<rparr> = (r\<lparr>minor := x9\<rparr>)\<lparr>valid := b\<rparr>"
  "(r\<lparr>valid := b\<rparr>)\<lparr>pending_powered := x10\<rparr> = (r\<lparr>pending_powered := x10\<rparr>)\<lparr>valid := b\<rparr>"
  "(r\<lparr>valid := b\<rparr>)\<lparr>pending_cod_change := x11\<rparr> = (r\<lparr>pending_cod_change := x11\<rparr>)\<lparr>valid := b\<rparr>"
  for r :: controller_info
  by simp_all

lemma read_info_tail_valid [simp]:
  "read_info_tail env d i (info\<lparr>valid := b\<rparr>) adapter = read_info_tail env d i info adapter"
  by (simp add: read_info_tail_def)

lemma forget_valid_nth:
  "n < length (controllers s) \<Longrightarrow>
     controllers (forget_valid s) ! n = (controllers s ! n)\<lparr>valid := False\<rparr>"
  by simp

lemma blind_handle_pending_uuids:
  "valid_blind (handle_pending_uuids env d i (forget_valid s)) =
   valid_blind (handle_pending_uuids env d i s)"
proof (cases "unat i < length (controllers s)")
  case False
  then show ?thesis by (simp add: handle_pending_uuids_def)
next
  case l: True
  then have l': "unat i < length (controllers (forget_valid s))" by simp
  note n = forget_valid_nth [OF l]
  show ?thesis
  proof (cases "pending_uuids (controllers s ! unat i)")
    case Nil
    then have q: "pending_uuids (controllers (forget_valid s) ! unat i) = []"
      using n by simp
    show ?thesis
      using handle_pending_uuids_empty [OF l Nil, of env d]
        handle_pending_uuids_empty [OF l' q, of env d] l
      by (simp add: Let_def)
  next
    case (Cons p ps)
    then have q: "pending_uuids (controllers (forget_valid s) ! unat i) = p # ps"
      using n by simp
    show ?thesis
    proof (cases "is_16bit_uuid d (uuid p)")
      case True
      show ?thesis
        using handle_pending_uuids_head [OF l Cons True, of env]
          handle_pending_uuids_head [OF l' q True, of env] l
        by (simp add: Let_def)
    next
      case False
      show ?thesis
        using handle_pending_uuids_head_ignored [OF l Cons False, of env]
          handle_pending_uuids_head_ignored [OF l' q False, of env] l
        by simp
    qed
  qed
qed

lemma valid_blind_and_then:
  "valid_blind (and_then (Ok (t, tr)) f) =
     (case valid_blind (f t) of
        Ok (u, tr2) \<Rightarrow> Ok (u, tr @ tr2)
      | Abort \<Rightarrow> Abort
      | OutOfBounds \<Rightarrow> OutOfBounds)"
  by (cases "f t") (auto simp: and_then_def)

lemma blind_and_then:
  assumes "valid_blind r1 = valid_blind r2"
    and "\<And>t. valid_blind (f (forget_valid t)) = valid_blind (f t)"
  shows "valid_blind (and_then r1 f) = valid_blind (and_then r2 f)"
proof (cases r1)
  case (Ok x)
  obtain t1 tr1 where x: "x = (t1, tr1)" by (cases x)
  from assms(1) Ok x obtain t2 where r2: "r2 = Ok (t2, tr1)"
    and e: "forget_valid t1 = forget_valid t2"
    by (cases r2) (auto simp: valid_blind_def)
  have "valid_blind (f t1) = valid_blind (f (forget_valid t1))" by (simp only: assms(2))
  also have "\<dots> = valid_blind (f (forget_valid t2))" by (simp only: e)
  also have "\<dots> = valid_blind (f t2)" by (rule assms(2))
  finally show ?thesis using Ok x r2 by (simp add: valid_blind_and_then)
next
  case Abort
  with assms(1) have "r2 = Abort" by (cases r2) (auto simp: valid_blind_def)
  with Abort show ?thesis by simp
next
  case OutOfBounds
  with assms(1) have "r2 = OutOfBounds" by (cases r2) (auto simp: valid_blind_def)
  with OutOfBounds show ?thesis by simp
qed

lemma blind_cod_then_pending:
  "valid_blind (and_then (mgmt_update_cod env d i buf len (forget_valid s))
                  (handle_pending_uuids env d i)) =
   valid_blind (and_then (mgmt_update_cod env d i buf len s) (handle_pending_uuids env d i))"
  by (rule blind_and_then) (rule blind_handlers, rule blind_handle_pending_uuids)

lemma blind_uuid_replies:
  "valid_blind (mgmt_add_uuid_complete env d i buf len (forget_valid s)) =
   valid_blind (mgmt_add_uuid_complete env d i buf len s)"
  "valid_blind (mgmt_remove_uuid_complete env d i buf len (forget_valid s)) =
   valid_blind (mgmt_remove_uuid_complete env d i buf len s)"
  by (simp_all add: mgmt_add_uuid_complete_def mgmt_remove_uuid_complete_def
      blind_cod_then_pending)

lemma blind_mgmt_cod_changed:
  "valid_blind (mgmt_cod_changed env d i buf len (forget_valid s)) =
   valid_blind (mgmt_cod_changed env d i buf len s)"
proof (cases "unat i < length (controllers s)")
  case False
  then show ?thesis by (simp add: mgmt_cod_changed_def)
next
  case l: True
  show ?thesis
  proof (cases "pending_cod_change (controllers s ! unat i)")
    case False
    have "valid_blind (and_then (Ok (forget_valid s, [])) (mgmt_update_cod env d i buf len)) =
          valid_blind (and_then (Ok (s, [])) (mgmt_update_cod env d i buf len))"
      by (rule blind_and_then) (simp, rule blind_handlers)
    then show ?thesis using l False by (simp add: mgmt_cod_changed_def Let_def)
  next
    case True
    let ?s1 = "put_info (unat i) ((controllers s ! unat i)\<lparr>pending_cod_change := False\<rparr>) s"
    let ?t1 = "put_info (unat i)
                 ((controllers (forget_valid s) ! unat i)\<lparr>pending_cod_change := False\<rparr>)
                 (forget_valid s)"
    have e: "?t1 = forget_valid ?s1" using l by (simp add: valid_last)
    have "valid_blind (handle_pending_uuids env d i ?t1) =
          valid_blind (handle_pending_uuids env d i ?s1)"
      unfolding e by (rule blind_handle_pending_uuids)
    then have "valid_blind (and_then (handle_pending_uuids env d i ?t1)
                 (mgmt_update_cod env d i buf len)) =
               valid_blind (and_then (handle_pending_uuids env d i ?s1)
                 (mgmt_update_cod env d i buf len))"
      by (rule blind_and_then) (rule blind_handlers)
    moreover have "mgmt_cod_changed env d i buf len (forget_valid s) =
        and_then (handle_pending_uuids env d i ?t1) (mgmt_update_cod env d i buf len)"
      using l True by (simp add: mgmt_cod_changed_def Let_def del: forget_valid_put_info)
    moreover have "mgmt_cod_changed env d i buf len s =
        and_then (handle_pending_uuids env d i ?s1) (mgmt_update_cod env d i buf len)"
      using l True by (simp add: mgmt_cod_changed_def Let_def)
    ultimately show ?thesis by simp
  qed
qed

lemma blind_add_controller:
  "forget_valid (add_controller env j (forget_valid s)) = forget_valid (add_controller env j s)"
  by (simp add: add_controller_def forget_valid_def Let_def map_update max_index_def o_def)

lemma blind_add_controllers:
  assumes "forget_valid s = forget_valid t"
  shows "forget_valid (fst (add_controllers env js s)) =
           forget_valid (fst (add_controllers env js t)) \<and>
         snd (add_controllers env js s) = snd (add_controllers env js t)"
  using assms
proof (induction js arbitrary: s t)
  case Nil
  then show ?case by simp
next
  case (Cons j js)
  have "forget_valid (add_controller env j s) = forget_valid (add_controller env j t)"
    using blind_add_controller [of env j s] blind_add_controller [of env j t] Cons.prems
    by simp
  from Cons.IH [OF this] show ?case by (simp add: split_beta)
qed

lemma blind_read_index_list_complete:
  "valid_blind (read_index_list_complete env d buf len (forget_valid s)) =
   valid_blind (read_index_list_complete env d buf len s)"
proof -
  have "forget_valid (forget_valid s) = forget_valid s" by simp
  from blind_add_controllers [OF this, of env] show ?thesis
    by (simp add: read_index_list_complete_def Let_def valid_blind_def split_beta)
qed

lemma blind_read_info_complete:
  "valid_blind (read_info_complete env d i buf len (forget_valid s)) =
   valid_blind (read_info_complete env d i buf len s)"
proof (cases "unat i < length (controllers s)")
  case False
  then show ?thesis by (simp add: read_info_complete_def)
next
  case True
  then show ?thesis
    unfolding read_info_complete_def clear_uuids_def
    by (simp add: mgmt_remove_uuid_in_table mgmt_set_dev_class_in_table Let_def valid_last
        split: option.split prod.split)
qed


lemma blind_mgmt_cmd_complete:
  "valid_blind (mgmt_cmd_complete env d i buf len (forget_valid s)) =
   valid_blind (mgmt_cmd_complete env d i buf len s)"
proof (cases "len < sizeof_mgmt_ev_cmd_complete")
  case True
  then show ?thesis by (simp add: mgmt_cmd_complete_def)
next
  case l: False
  show ?thesis
  proof (cases "command_code d (bt_get_le16 buf)")
    case None
    with l show ?thesis by (simp add: mgmt_cmd_complete_def Let_def)
  next
    case (Some op)
    with l show ?thesis
      by (cases op)
         (simp_all add: mgmt_cmd_complete_def Let_def blind_handlers blind_mgmt_new_settings
            blind_uuid_replies blind_read_info_complete blind_read_index_list_complete)
  qed
qed

lemma blind_dispatch_event:
  assumes "event_code d opcode \<noteq> Some MGMT_EV_INDEX_REMOVED"
  shows "valid_blind (dispatch_event env d opcode i pl len (forget_valid s)) =
         valid_blind (dispatch_event env d opcode i pl len s)"
proof (cases "event_code d opcode")
  case None
  then show ?thesis by (simp add: dispatch_event_def)
next
  case (Some ev)
  with assms have "ev \<noteq> MGMT_EV_INDEX_REMOVED" by simp
  then show ?thesis
    using Some
    by (cases ev)
       (simp_all add: dispatch_event_def blind_handlers blind_mgmt_new_settings
          blind_mgmt_cmd_complete blind_mgmt_cod_changed mgmt_index_added_def
          blind_add_controller)
qed

lemma framed_step:
  assumes "framed d inp = Some (ev, i, pl)"
  shows "\<exists>opcode. event_code d opcode = Some ev \<and>
           (\<forall>env s. step env d inp s = dispatch_event env d opcode i pl (length pl) s)"
proof -
  from assms obtain cond rd where inp: "inp = Event cond rd"
    by (cases inp) (simp_all add: framed_def)
  from assms obtain msg where rd: "rd = ReadData msg"
    unfolding inp by (cases rd) (simp_all add: framed_def)
  let ?buf = "take MGMT_BUF_SIZE msg"
  from assms have c: "G_IO_NVAL \<notin> cond" "G_IO_ERR \<notin> cond" "G_IO_HUP \<notin> cond"
    and l: "\<not> length ?buf < MGMT_HDR_SIZE"
      "length ?buf = MGMT_HDR_SIZE + unat (bt_get_le16 (drop 4 ?buf))"
    and o: "event_code d (bt_get_le16 ?buf) = Some ev"
    and e: "i = bt_get_le16 (drop 2 ?buf)" "pl = drop MGMT_HDR_SIZE ?buf"
    unfolding inp rd
    by (auto simp: framed_def Let_def split: if_splits option.splits)
  from l e have n: "unat (bt_get_le16 (drop 4 ?buf)) = length pl" by simp
  have "\<forall>env s. step env d inp s =
          dispatch_event env d (bt_get_le16 ?buf) i pl (length pl) s"
  proof (intro allI)
    fix env s
    show "step env d inp s = dispatch_event env d (bt_get_le16 ?buf) i pl (length pl) s"
      using c l e n unfolding inp rd
      by (cases "dispatch_event env d (bt_get_le16 ?buf) i pl (length pl) s")
         (auto simp: mgmt_event_def Let_def drop_ret_def)
  qed
  with o show ?thesis by blast
qed

text \<open>
  No handler of an event but that of the index-removed event reads the flag \<open>valid\<close>: on two
  tables that differ in these flags only, the effects are the same and the tables that
  result differ in these flags only.
\<close>

lemma step_valid_blind:
  assumes f: "framed d inp = Some (ev, i, pl)" and n: "ev \<noteq> MGMT_EV_INDEX_REMOVED"
    and e: "forget_valid s = forget_valid t"
  shows "valid_blind (step env d inp s) = valid_blind (step env d inp t)"
proof -
  from framed_step [OF f]
  obtain opcode where o: "event_code d opcode = Some ev"
    and st: "\<And>env s. step env d inp s = dispatch_event env d opcode i pl (length pl) s"
    by blast
  from o n have x: "event_code d opcode \<noteq> Some MGMT_EV_INDEX_REMOVED" by simp
  have "valid_blind (step env d inp s) =
        valid_blind (dispatch_event env d opcode i pl (length pl) (forget_valid s))"
    by (simp only: st blind_dispatch_event [OF x])
  also have "\<dots> = valid_blind (dispatch_event env d opcode i pl (length pl) (forget_valid t))"
    by (simp only: e)
  also have "\<dots> = valid_blind (step env d inp t)"
    by (simp only: st blind_dispatch_event [OF x])
  finally show ?thesis .
qed

subsection \<open>C4: events for an index outside the table\<close>

lemmas outside_handlers =
  outside_mgmt_new_settings outside_get_connections_complete outside_read_info_complete
  outside_mgmt_add_uuid_complete outside_mgmt_remove_uuid_complete outside_mgmt_cod_changed
  outside_mgmt_index_removed

lemma outside_mgmt_cmd_complete:
  assumes o: "length (controllers s) \<le> unat i"
    and n: "completed_op d pl \<noteq> Some MGMT_OP_READ_VERSION"
      "completed_op d pl \<noteq> Some MGMT_OP_READ_INDEX_LIST"
      "completed_op d pl \<noteq> Some MGMT_OP_SET_DEV_CLASS"
  shows "inert i s (mgmt_cmd_complete env d i pl (length pl) s)"
proof (cases "completed_op d pl")
  case None
  then show ?thesis
    by (auto simp: mgmt_cmd_complete_def completed_op_def Let_def split: if_splits)
next
  case (Some op)
  then have l: "\<not> length pl < sizeof_mgmt_ev_cmd_complete"
    and c: "command_code d (bt_get_le16 pl) = Some op"
    by (simp_all add: completed_op_def split: if_splits)
  from n Some have "op \<noteq> MGMT_OP_READ_VERSION" "op \<noteq> MGMT_OP_READ_INDEX_LIST"
    "op \<noteq> MGMT_OP_SET_DEV_CLASS" by simp_all
  then show ?thesis
    using l c o
    by (cases op) (simp_all add: mgmt_cmd_complete_def Let_def inert_handlers outside_handlers)
qed

lemma outside_dispatch_event:
  assumes o: "length (controllers s) \<le> unat i"
    and c: "event_code d opcode = Some ev"
    and a: "ev \<noteq> MGMT_EV_INDEX_ADDED"
    and n: "\<not> (ev = MGMT_EV_CMD_COMPLETE \<and>
               completed_op d pl \<in> {Some MGMT_OP_READ_VERSION, Some MGMT_OP_READ_INDEX_LIST,
                                     Some MGMT_OP_SET_DEV_CLASS})"
    and b: "\<not> (ev = MGMT_EV_CMD_STATUS \<and> sizeof_mgmt_ev_cmd_status \<le> length pl \<and>
               command_code d (bt_get_le16 pl) = Some MGMT_OP_ADD_UUID \<and>
               byte_at pl 2 = MGMT_STATUS_BUSY d \<and> byte_at pl 2 \<noteq> 0)"
  shows "inert i s (dispatch_event env d opcode i pl (length pl) s)"
proof (cases "ev = MGMT_EV_CMD_COMPLETE \<or> ev = MGMT_EV_CMD_STATUS")
  case True
  then show ?thesis
    using o c n b outside_mgmt_cmd_complete [of s i d pl env]
      outside_mgmt_cmd_status [of s i "length pl" d pl env]
    by (auto simp: dispatch_event_def)
next
  case False
  then show ?thesis
    using o c a
    by (cases ev) (simp_all add: dispatch_event_def inert_handlers outside_handlers)
qed

text \<open>
  C4, as amended. The handlers compare the index of an event with \<open>max_index\<close> and with
  nothing else. For an index above \<open>max_index\<close> the message is dropped: \<open>mgmt_event\<close> returns
  with the globals as they were, and every effect is a line of the log, so no
  collaborator is called and nothing is written to the socket. This holds for every
  event that \<open>mgmt_event\<close> hands to a handler but: the index-added event, which registers
  the index; the replies to read-version and to read-index-list, which name no
  controller; and the reply to set-dev-class and the command status ``busy'' for
  add-UUID, whose handlers use the index with no test and are left out of this
  statement.

  The flag \<open>valid\<close> of a slot is read by the handler of the index-removed event and by no
  other: for an index above \<open>max_index\<close> or a slot whose flag is not set, the index-removed
  event does nothing; for every other event, on two tables that differ in the flags
  \<open>valid\<close> only, the effects are the same and the tables that result differ in these flags
  only. So an event for an index up to \<open>max_index\<close> that was never registered, or was
  removed, is handled as it is for a registered one.
\<close>

theorem index_tested_against_max_index_only:
  "(framed d inp = Some (ev, i, pl) \<and> uint i > max_index s \<and> ev \<noteq> MGMT_EV_INDEX_ADDED \<and>
    \<not> (ev = MGMT_EV_CMD_COMPLETE \<and>
        completed_op d pl \<in> {Some MGMT_OP_READ_VERSION, Some MGMT_OP_READ_INDEX_LIST,
                              Some MGMT_OP_SET_DEV_CLASS}) \<and>
    \<not> (ev = MGMT_EV_CMD_STATUS \<and> sizeof_mgmt_ev_cmd_status \<le> length pl \<and>
        command_code d (bt_get_le16 pl) = Some MGMT_OP_ADD_UUID \<and>
        byte_at pl 2 = MGMT_STATUS_BUSY d \<and> byte_at pl 2 \<noteq> 0) \<longrightarrow>
      (\<exists>tr. step env d inp s = Ok (s, tr) \<and> only_logs tr)) \<and>
   (framed d inp = Some (ev, i, pl) \<and> ev \<noteq> MGMT_EV_INDEX_REMOVED \<and>
    forget_valid s = forget_valid t \<longrightarrow>
      valid_blind (step env d inp s) = valid_blind (step env d inp t)) \<and>
   (framed d inp = Some (MGMT_EV_INDEX_REMOVED, i, pl) \<and>
    (uint i > max_index s \<or> \<not> valid (controllers s ! unat i)) \<longrightarrow>
      step env d inp s = Ok (s, []))"
proof (intro conjI impI)
  assume a: "framed d inp = Some (ev, i, pl) \<and> uint i > max_index s \<and>
    ev \<noteq> MGMT_EV_INDEX_ADDED \<and>
    \<not> (ev = MGMT_EV_CMD_COMPLETE \<and>
        completed_op d pl \<in> {Some MGMT_OP_READ_VERSION, Some MGMT_OP_READ_INDEX_LIST,
                              Some MGMT_OP_SET_DEV_CLASS}) \<and>
    \<not> (ev = MGMT_EV_CMD_STATUS \<and> sizeof_mgmt_ev_cmd_status \<le> length pl \<and>
        command_code d (bt_get_le16 pl) = Some MGMT_OP_ADD_UUID \<and>
        byte_at pl 2 = MGMT_STATUS_BUSY d \<and> byte_at pl 2 \<noteq> 0)"
  then have f: "framed d inp = Some (ev, i, pl)"
    and o: "length (controllers s) \<le> unat i" by simp_all
  from framed_step [OF f]
  obtain opcode where c: "event_code d opcode = Some ev"
    and e: "step env d inp s = dispatch_event env d opcode i pl (length pl) s" by blast
  from a have "inert i s (dispatch_event env d opcode i pl (length pl) s)"
    by (intro outside_dispatch_event [OF o c]) simp_all
  then obtain tr where "dispatch_event env d opcode i pl (length pl) s = Ok (s, tr)"
    "only_logs tr"
    using o by (auto simp: inert_def)
  then show "\<exists>tr. step env d inp s = Ok (s, tr) \<and> only_logs tr" using e by simp
next
  assume "framed d inp = Some (ev, i, pl) \<and> ev \<noteq> MGMT_EV_INDEX_REMOVED \<and>
    forget_valid s = forget_valid t"
  then show "valid_blind (step env d inp s) = valid_blind (step env d inp t)"
    using step_valid_blind [of d inp ev i pl s t env] by blast
next
  assume a: "framed d inp = Some (MGMT_EV_INDEX_REMOVED, i, pl) \<and>
    (uint i > max_index s \<or> \<not> valid (controllers s ! unat i))"
  then have f: "framed d inp = Some (MGMT_EV_INDEX_REMOVED, i, pl)" by simp
  from framed_step [OF f]
  obtain opcode where c: "event_code d opcode = Some MGMT_EV_INDEX_REMOVED"
    and e: "step env d inp s = dispatch_event env d opcode i pl (length pl) s" by blast
  from a show "step env d inp s = Ok (s, [])"
    using e c by (auto simp: dispatch_event_def mgmt_index_removed_def remove_controller_def)
qed

text \<open>The table of \<open>one_controller\<close> with the flag \<open>valid\<close> of its slot put down.\<close>

lemma unmarked_examples:
  "framed kernel_decls (message 6 5 [1, 0, 0, 0]) = Some (MGMT_EV_NEW_SETTINGS, 5, [1, 0, 0, 0])"
  "uint (5::16 word) > max_index (one_controller 1)"
  "framed kernel_decls (message 6 0 [1, 0, 0, 0]) = Some (MGMT_EV_NEW_SETTINGS, 0, [1, 0, 0, 0])"
  "forget_valid (one_controller 1) = forget_valid (forget_valid (one_controller 1))"
  "framed kernel_decls (message 5 0 []) = Some (MGMT_EV_INDEX_REMOVED, 0, [])"
  "\<not> valid (controllers (forget_valid (one_controller 1)) ! unat (0::16 word))"
  by (simp_all add: framed_def fixture_defs frame_defs forget_valid_def)

theorem index_tested_against_max_index_only_witness:
  "framed kernel_decls (message 6 5 [1, 0, 0, 0]) = Some (MGMT_EV_NEW_SETTINGS, 5, [1, 0, 0, 0]) \<and>
   uint (5::16 word) > max_index (one_controller 1) \<and>
   (\<exists>tr. step env_up kernel_decls (message 6 5 [1, 0, 0, 0]) (one_controller 1) =
            Ok (one_controller 1, tr) \<and> only_logs tr) \<and>
   framed kernel_decls (message 6 0 [1, 0, 0, 0]) = Some (MGMT_EV_NEW_SETTINGS, 0, [1, 0, 0, 0]) \<and>
   forget_valid (one_controller 1) = forget_valid (forget_valid (one_controller 1)) \<and>
   valid_blind (step env_up kernel_decls (message 6 0 [1, 0, 0, 0]) (one_controller 1)) =
     valid_blind (step env_up kernel_decls (message 6 0 [1, 0, 0, 0])
                    (forget_valid (one_controller 1))) \<and>
   framed kernel_decls (message 5 0 []) = Some (MGMT_EV_INDEX_REMOVED, 0, []) \<and>
   \<not> valid (controllers (forget_valid (one_controller 1)) ! unat (0::16 word)) \<and>
   step env_up kernel_decls (message 5 0 []) (forget_valid (one_controller 1)) =
     Ok (forget_valid (one_controller 1), [])"
proof -
  note t1 = index_tested_against_max_index_only
              [where d = kernel_decls and inp = "message 6 5 [1, 0, 0, 0]"
                 and ev = MGMT_EV_NEW_SETTINGS and i = 5 and pl = "[1, 0, 0, 0]"
                 and s = "one_controller 1" and env = env_up and t = "one_controller 1"]
  note t2 = index_tested_against_max_index_only
              [where d = kernel_decls and inp = "message 6 0 [1, 0, 0, 0]"
                 and ev = MGMT_EV_NEW_SETTINGS and i = 0 and pl = "[1, 0, 0, 0]"
                 and s = "one_controller 1" and env = env_up
                 and t = "forget_valid (one_controller 1)"]
  note t3 = index_tested_against_max_index_only
              [where d = kernel_decls and inp = "message 5 0 []"
                 and ev = MGMT_EV_INDEX_REMOVED and i = 0 and pl = "[]"
                 and s = "forget_valid (one_controller 1)" and env = env_up
                 and t = "one_controller 1"]
  note x = unmarked_examples
  from t1 x(1,2)
  have a: "\<exists>tr. step env_up kernel_decls (message 6 5 [1, 0, 0, 0]) (one_controller 1) =
            Ok (one_controller 1, tr) \<and> only_logs tr" by simp
  from t2 x(3,4)
  have b: "valid_blind (step env_up kernel_decls (message 6 0 [1, 0, 0, 0]) (one_controller 1)) =
     valid_blind (step env_up kernel_decls (message 6 0 [1, 0, 0, 0])
                    (forget_valid (one_controller 1)))" by simp
  from t3 x(5,6)
  have c: "step env_up kernel_decls (message 5 0 []) (forget_valid (one_controller 1)) =
     Ok (forget_valid (one_controller 1), [])" by blast
  from a b c x show ?thesis by blast
qed

text \<open>
  C4 as stated fails for a slot that is in the table and not valid. After the index 2 is
  registered in the empty table, the index 0 was never registered and its slot is not
  valid; the reply to read-info for the index 0 is handled all the same: a remove-UUID
  command is written for it and the adapter layer is asked to register it.
\<close>

theorem never_registered_index_is_handled:
  "valid (controllers (add_controller env_none 2 mgmt_init) ! 0) = False \<and>
   (\<exists>s'. step env_none kernel_decls (message 1 0 ([4, 0, 0] @ replicate 280 0))
            (add_controller env_none 2 mgmt_init) =
      Ok (s', [Write (Command MGMT_OP_REMOVE_UUID 0 [VBytes (replicate 16 0)]),
               Call ''btd_manager_register_adapter'' [VInt 0, VBool False],
               LogError ''mgmt: unable to register adapter'']))"
  by (simp add: fixture_defs frame_defs add_controller_def mgmt_init_def upt_rec
      mgmt_cmd_complete_def read_info_complete_def clear_uuids_def mgmt_remove_uuid_def
      is_16bit_uuid_def uuid_any_def uuid_to_uuid128_def put_info_def mgmt_powered_def)

subsection \<open>C5: what ends the process\<close>

lemma inert_not_abort: "inert i s r \<Longrightarrow> r \<noteq> Abort"
  by (auto simp: inert_def)

lemma returns_not_abort: "\<exists>s' tr. r = Ok (s', tr) \<Longrightarrow> r \<noteq> Abort"
  by auto

lemmas not_abort =
  inert_handlers [THEN inert_not_abort]
  returns_mgmt_new_settings [THEN returns_not_abort]
  returns_read_info_complete [THEN returns_not_abort]
  returns_mgmt_add_uuid_complete [THEN returns_not_abort]
  returns_mgmt_remove_uuid_complete [THEN returns_not_abort]
  returns_mgmt_cod_changed [THEN returns_not_abort]
  mgmt_update_cod_not_abort mgmt_cmd_status_not_abort get_connections_complete_not_abort

lemma read_index_list_complete_not_abort:
  "read_index_list_complete env d buf len s \<noteq> Abort"
  using read_index_list_complete_frame [of env d buf len s] by auto

lemma read_version_complete_abort:
  "(read_version_complete env d buf len s = Abort) =
     (len < sizeof d Mgmt_rp_read_version \<or>
      get_u8 (fld d Mgmt_rp_read_version ''version'' buf) < 1)"
  by (simp add: read_version_complete_def Let_def)

lemma mgmt_cmd_complete_abort:
  "(mgmt_cmd_complete env d i pl (length pl) s = Abort) =
     (completed_op d pl = Some MGMT_OP_READ_VERSION \<and>
      (length pl - sizeof_mgmt_ev_cmd_complete < sizeof d Mgmt_rp_read_version \<or>
       get_u8 (fld d Mgmt_rp_read_version ''version'' (drop sizeof_mgmt_ev_cmd_complete pl)) < 1))"
proof (cases "completed_op d pl")
  case None
  then show ?thesis
    by (auto simp: mgmt_cmd_complete_def completed_op_def Let_def split: if_splits)
next
  case (Some op)
  then have l: "\<not> length pl < sizeof_mgmt_ev_cmd_complete"
    and c: "command_code d (bt_get_le16 pl) = Some op"
    by (simp_all add: completed_op_def split: if_splits)
  show ?thesis
    using Some l c
    by (cases op)
       (simp_all add: mgmt_cmd_complete_def Let_def not_abort read_version_complete_abort
          read_index_list_complete_not_abort)
qed

lemma dispatch_event_abort:
  assumes "event_code d opcode = Some ev"
  shows "(dispatch_event env d opcode i pl (length pl) s = Abort) =
     (ev = MGMT_EV_CMD_COMPLETE \<and> mgmt_cmd_complete env d i pl (length pl) s = Abort)"
  using assms by (cases ev) (simp_all add: dispatch_event_def not_abort)

lemma commands_not_abort:
  "drop_ret (mgmt_add_uuid env d idx u h s) \<noteq> Abort"
  "drop_ret (mgmt_remove_uuid env d idx u s) \<noteq> Abort"
  "drop_ret (mgmt_set_powered env idx b s) \<noteq> Abort"
  "drop_ret (mgmt_set_dev_class env idx mj mn s) \<noteq> Abort"
  "drop_ret (mgmt_start_discovery env d idx s) \<noteq> Abort"
  "drop_ret (mgmt_start_le_scanning env d idx s) \<noteq> Abort"
  "drop_ret (mgmt_stop_discovery env idx s) \<noteq> Abort"
  "no_state (mgmt_read_bdaddr idx s) s \<noteq> Abort"
  "(case mgmt_get_conn_list idx s of
      Ok (r, l, s1) \<Rightarrow> Ok (s1, []) | Abort \<Rightarrow> Abort | OutOfBounds \<Rightarrow> OutOfBounds) \<noteq> Abort"
  "(case mgmt_ssp_enabled d idx s of
      Ok b \<Rightarrow> Ok (s, []) | Abort \<Rightarrow> Abort | OutOfBounds \<Rightarrow> OutOfBounds) \<noteq> Abort"
  by (simp_all add: drop_ret_def no_state_def mgmt_add_uuid_def mgmt_remove_uuid_def
      mgmt_set_powered_def mgmt_set_dev_class_def mgmt_start_discovery_def
      mgmt_start_le_scanning_def mgmt_stop_discovery_def mgmt_read_bdaddr_def
      mgmt_get_conn_list_def mgmt_ssp_enabled_def Let_def split_beta)

lemma step_abort_iff:
  "(step env d inp s = Abort) =
     (\<exists>i pl. framed d inp = Some (MGMT_EV_CMD_COMPLETE, i, pl) \<and>
        completed_op d pl = Some MGMT_OP_READ_VERSION \<and>
        (length pl - sizeof_mgmt_ev_cmd_complete < sizeof d Mgmt_rp_read_version \<or>
         get_u8 (fld d Mgmt_rp_read_version ''version'' (drop sizeof_mgmt_ev_cmd_complete pl))
           < 1))"
proof (cases inp)
  case (Event c r)
  show ?thesis
  proof (cases "framed d inp")
    case None
    from unframed_mgmt_event [OF None [unfolded Event], of env s] None Event
    show ?thesis by auto
  next
    case (Some x)
    obtain ev i pl where x: "x = (ev, i, pl)" by (cases x)
    from framed_mgmt_event [OF Some [unfolded Event x], of env s]
    obtain opcode where o: "event_code d opcode = Some ev"
      and e: "mgmt_event env d c r s =
           (case dispatch_event env d opcode i pl (length pl) s of
              Ok (s1, tr) \<Rightarrow> Ok (True, s1, tr)
            | Abort \<Rightarrow> Abort
            | OutOfBounds \<Rightarrow> OutOfBounds)" by blast
    have "(step env d inp s = Abort) =
            (dispatch_event env d opcode i pl (length pl) s = Abort)"
      using e Event by (simp add: drop_ret_def split: result.split prod.split)
    then show ?thesis
      using Some x dispatch_event_abort [OF o, of env i pl s]
        mgmt_cmd_complete_abort [of env d i pl s]
      by auto
  qed
qed (simp_all add: framed_def commands_not_abort)

lemma step_framed:
  assumes "framed d inp = Some (ev, i, pl)"
  shows "\<exists>opcode. event_code d opcode = Some ev \<and>
           step env d inp s = dispatch_event env d opcode i pl (length pl) s"
proof -
  from assms obtain cond rd where inp: "inp = Event cond rd"
    by (cases inp) (simp_all add: framed_def)
  from framed_mgmt_event [OF assms [unfolded inp], of env s]
  obtain opcode where o: "event_code d opcode = Some ev"
    and e: "mgmt_event env d cond rd s =
           (case dispatch_event env d opcode i pl (length pl) s of
              Ok (s1, tr) \<Rightarrow> Ok (True, s1, tr)
            | Abort \<Rightarrow> Abort
            | OutOfBounds \<Rightarrow> OutOfBounds)" by blast
  have "step env d inp s = dispatch_event env d opcode i pl (length pl) s"
    using e inp by (simp add: drop_ret_def split: result.split prod.split)
  with o show ?thesis by blast
qed

lemmas handler_defs =
  read_index_list_complete_def read_info_complete_def mgmt_new_settings_def
  mgmt_add_uuid_complete_def mgmt_remove_uuid_complete_def mgmt_update_cod_def
  disconnect_complete_def get_connections_complete_def pair_device_complete_def
  set_local_name_complete_def read_local_oob_data_complete_def start_discovery_complete_def
  mgmt_cmd_status_def mgmt_controller_error_def mgmt_cod_changed_def
  mgmt_local_name_changed_def mgmt_new_link_key_def mgmt_new_ltk_def
  mgmt_device_connected_def mgmt_device_disconnected_def mgmt_connect_failed_def
  mgmt_pin_code_request_def mgmt_user_confirm_request_def mgmt_passkey_request_def
  mgmt_auth_failed_def mgmt_device_found_def mgmt_discovering_def mgmt_device_blocked_def
  mgmt_device_unblocked_def mgmt_device_unpaired_def mgmt_passkey_notify_def

lemma decode_fails_mgmt_cmd_complete:
  assumes f: "decode_fails d MGMT_EV_CMD_COMPLETE pl"
    and e1: "completed_op d pl \<noteq> Some MGMT_OP_READ_VERSION"
    and e2: "\<not> (completed_op d pl \<in> {Some MGMT_OP_ADD_UUID, Some MGMT_OP_REMOVE_UUID} \<and>
                uint i \<le> max_index s)"
  shows "\<exists>m. mgmt_cmd_complete env d i pl (length pl) s = Ok (s, [LogError m])"
proof (cases "length pl < sizeof_mgmt_ev_cmd_complete")
  case True
  then show ?thesis by (simp add: mgmt_cmd_complete_def)
next
  case l: False
  show ?thesis
  proof (cases "command_code d (bt_get_le16 pl)")
    case None
    with l show ?thesis by (simp add: mgmt_cmd_complete_def Let_def)
  next
    case (Some op)
    with l have c: "completed_op d pl = Some op" by (simp add: completed_op_def)
    from f l Some have r: "reply_decode_fails d op (drop sizeof_mgmt_ev_cmd_complete pl)"
      by (simp add: decode_fails_def Let_def)
    show ?thesis
      using r l Some e1 e2 c
      by (cases op)
         (auto simp: mgmt_cmd_complete_def reply_decode_fails_def handler_defs Let_def
            and_then_def)
  qed
qed

lemma decode_fails_dispatch_event:
  assumes c: "event_code d opcode = Some ev"
    and f: "decode_fails d ev pl"
    and e1: "\<not> (ev = MGMT_EV_CMD_COMPLETE \<and> completed_op d pl = Some MGMT_OP_READ_VERSION)"
    and e2: "\<not> (ev = MGMT_EV_CMD_COMPLETE \<and>
                completed_op d pl \<in> {Some MGMT_OP_ADD_UUID, Some MGMT_OP_REMOVE_UUID} \<and>
                uint i \<le> max_index s)"
    and e3: "\<not> (ev = MGMT_EV_CLASS_OF_DEV_CHANGED \<and> uint i \<le> max_index s \<and>
                pending_cod_change (controllers s ! unat i))"
  shows "\<exists>m. dispatch_event env d opcode i pl (length pl) s = Ok (s, [LogError m])"
proof (cases "ev = MGMT_EV_CMD_COMPLETE")
  case True
  with c f e1 e2 show ?thesis
    using decode_fails_mgmt_cmd_complete [of d pl i s env] by (simp add: dispatch_event_def)
next
  case False
  then show ?thesis
    using c f e3
    by (cases ev)
       (auto simp: dispatch_event_def decode_fails_def handler_defs Let_def and_then_def)
qed

text \<open>
  What \<open>mgmt_cmd_complete\<close> and \<open>mgmt_cod_changed\<close> do with a class of device that is too
  short, for a controller of the table: the handlers of the two UUID replies log it and
  go on to \<open>handle_pending_uuids\<close>; \<open>mgmt_cod_changed\<close> runs \<open>handle_pending_uuids\<close> first, when
  \<open>pending_cod_change\<close> is set, and logs it afterwards.
\<close>

lemma short_uuid_reply:
  assumes "completed_op d pl \<in> {Some MGMT_OP_ADD_UUID, Some MGMT_OP_REMOVE_UUID}"
    and "uint i \<le> max_index s"
    and "length pl - sizeof_mgmt_ev_cmd_complete < sizeof d Mgmt_cod"
  shows "mgmt_cmd_complete env d i pl (length pl) s =
           (case handle_pending_uuids env d i s of
              Ok (s', tr) \<Rightarrow> Ok (s', LogError ''Too small class of device reply'' # tr)
            | Abort \<Rightarrow> Abort
            | OutOfBounds \<Rightarrow> OutOfBounds)"
  using assms
  by (auto simp: completed_op_def mgmt_cmd_complete_def mgmt_add_uuid_complete_def
      mgmt_remove_uuid_complete_def mgmt_update_cod_def and_then_def Let_def
      split: if_splits result.splits)

lemma short_cod_changed:
  assumes "uint i \<le> max_index s" and "pending_cod_change (controllers s ! unat i)"
    and "len < sizeof d Mgmt_cod"
  shows "mgmt_cod_changed env d i buf len s =
           (case handle_pending_uuids env d i
                   (put_info (unat i) ((controllers s ! unat i)\<lparr>pending_cod_change := False\<rparr>) s) of
              Ok (s', tr) \<Rightarrow> Ok (s', tr @ [LogError ''Too small class of device reply''])
            | Abort \<Rightarrow> Abort
            | OutOfBounds \<Rightarrow> OutOfBounds)"
  using assms
  by (auto simp: mgmt_cod_changed_def mgmt_update_cod_def and_then_def Let_def
      split: result.splits)

text \<open>
  C5, as amended. \<open>abort\<close> is called in one place, \<open>read_version_complete\<close>, and for two
  reasons: the reply to read-version is shorter than \<open>struct mgmt_rp_read_version\<close>, or the
  version it reports is below 1. So an input ends the process exactly when it is a
  command-complete message for read-version whose body is too short or whose version is
  0: the undersized version reply is fatal too. Every other decode failure is recovered
  by logging and dropping the message:
  \<^item> a message that does not reach a handler (a failed \<open>read\<close>, fewer bytes than a header,
    a length that does not match, an unknown event code) leaves the globals as they
    were, and the effects are lines of the log;
  \<^item> a message whose payload fails a test of its handler (\<open>decode_fails\<close>: the length tests,
    a reply opcode with no handler, the PIN length) leaves the globals as they were, and
    the one effect is an error in the log.

  Two cases are logged and not dropped, for a controller of the table: after an
  undersized reply to add-UUID or remove-UUID, and after an undersized
  class-of-device-changed event while \<open>pending_cod_change\<close> is set, \<open>handle_pending_uuids\<close>
  runs all the same, so a queued UUID command is sent. (Accesses outside the table are a
  third outcome of the model, \<open>OutOfBounds\<close>, and no part of this statement; nor is the end
  of the process that GLib brings about when an allocation fails.)
\<close>

theorem decode_failure_fatal_or_logged:
  "(step env d inp s = Abort) =
     (\<exists>i pl. framed d inp = Some (MGMT_EV_CMD_COMPLETE, i, pl) \<and>
        completed_op d pl = Some MGMT_OP_READ_VERSION \<and>
        (length pl - sizeof_mgmt_ev_cmd_complete < sizeof d Mgmt_rp_read_version \<or>
         get_u8 (fld d Mgmt_rp_read_version ''version'' (drop sizeof_mgmt_ev_cmd_complete pl))
           < 1)) \<and>
   (framed d (Event cond rd) = None \<longrightarrow>
      (\<exists>tr. step env d (Event cond rd) s = Ok (s, tr) \<and> only_logs tr)) \<and>
   (framed d inp = Some (ev, i, pl) \<and> decode_fails d ev pl \<and>
    \<not> (ev = MGMT_EV_CMD_COMPLETE \<and> completed_op d pl = Some MGMT_OP_READ_VERSION) \<and>
    \<not> (ev = MGMT_EV_CMD_COMPLETE \<and>
        completed_op d pl \<in> {Some MGMT_OP_ADD_UUID, Some MGMT_OP_REMOVE_UUID} \<and>
        uint i \<le> max_index s) \<and>
    \<not> (ev = MGMT_EV_CLASS_OF_DEV_CHANGED \<and> uint i \<le> max_index s \<and>
        pending_cod_change (controllers s ! unat i)) \<longrightarrow>
      (\<exists>m. step env d inp s = Ok (s, [LogError m]))) \<and>
   (framed d inp = Some (MGMT_EV_CMD_COMPLETE, i, pl) \<and>
    completed_op d pl \<in> {Some MGMT_OP_ADD_UUID, Some MGMT_OP_REMOVE_UUID} \<and>
    uint i \<le> max_index s \<and>
    length pl - sizeof_mgmt_ev_cmd_complete < sizeof d Mgmt_cod \<longrightarrow>
      step env d inp s =
        (case handle_pending_uuids env d i s of
           Ok (s', tr) \<Rightarrow> Ok (s', LogError ''Too small class of device reply'' # tr)
         | Abort \<Rightarrow> Abort
         | OutOfBounds \<Rightarrow> OutOfBounds)) \<and>
   (framed d inp = Some (MGMT_EV_CLASS_OF_DEV_CHANGED, i, pl) \<and>
    uint i \<le> max_index s \<and> pending_cod_change (controllers s ! unat i) \<and>
    length pl < sizeof d Mgmt_cod \<longrightarrow>
      step env d inp s =
        (case handle_pending_uuids env d i
                (put_info (unat i) ((controllers s ! unat i)\<lparr>pending_cod_change := False\<rparr>) s) of
           Ok (s', tr) \<Rightarrow> Ok (s', tr @ [LogError ''Too small class of device reply''])
         | Abort \<Rightarrow> Abort
         | OutOfBounds \<Rightarrow> OutOfBounds))"
proof (intro conjI impI)
  show "(step env d inp s = Abort) =
     (\<exists>i pl. framed d inp = Some (MGMT_EV_CMD_COMPLETE, i, pl) \<and>
        completed_op d pl = Some MGMT_OP_READ_VERSION \<and>
        (length pl - sizeof_mgmt_ev_cmd_complete < sizeof d Mgmt_rp_read_version \<or>
         get_u8 (fld d Mgmt_rp_read_version ''version'' (drop sizeof_mgmt_ev_cmd_complete pl))
           < 1))"
    by (rule step_abort_iff)
next
  assume "framed d (Event cond rd) = None"
  from unframed_mgmt_event [OF this, of env s]
  show "\<exists>tr. step env d (Event cond rd) s = Ok (s, tr) \<and> only_logs tr" by auto
next
  assume a: "framed d inp = Some (ev, i, pl) \<and> decode_fails d ev pl \<and>
    \<not> (ev = MGMT_EV_CMD_COMPLETE \<and> completed_op d pl = Some MGMT_OP_READ_VERSION) \<and>
    \<not> (ev = MGMT_EV_CMD_COMPLETE \<and>
        completed_op d pl \<in> {Some MGMT_OP_ADD_UUID, Some MGMT_OP_REMOVE_UUID} \<and>
        uint i \<le> max_index s) \<and>
    \<not> (ev = MGMT_EV_CLASS_OF_DEV_CHANGED \<and> uint i \<le> max_index s \<and>
        pending_cod_change (controllers s ! unat i))"
  then have f: "framed d inp = Some (ev, i, pl)" by simp
  from step_framed [OF f, of env s]
  obtain opcode where o: "event_code d opcode = Some ev"
    and e: "step env d inp s = dispatch_event env d opcode i pl (length pl) s" by blast
  from a have "\<exists>m. dispatch_event env d opcode i pl (length pl) s = Ok (s, [LogError m])"
    by (intro decode_fails_dispatch_event [OF o]) simp_all
  with e show "\<exists>m. step env d inp s = Ok (s, [LogError m])" by simp
next
  assume a: "framed d inp = Some (MGMT_EV_CMD_COMPLETE, i, pl) \<and>
    completed_op d pl \<in> {Some MGMT_OP_ADD_UUID, Some MGMT_OP_REMOVE_UUID} \<and>
    uint i \<le> max_index s \<and>
    length pl - sizeof_mgmt_ev_cmd_complete < sizeof d Mgmt_cod"
  then have f: "framed d inp = Some (MGMT_EV_CMD_COMPLETE, i, pl)" by simp
  from step_framed [OF f, of env s]
  obtain opcode where o: "event_code d opcode = Some MGMT_EV_CMD_COMPLETE"
    and e: "step env d inp s = dispatch_event env d opcode i pl (length pl) s" by blast
  from a short_uuid_reply [of d pl i s env]
  show "step env d inp s =
        (case handle_pending_uuids env d i s of
           Ok (s', tr) \<Rightarrow> Ok (s', LogError ''Too small class of device reply'' # tr)
         | Abort \<Rightarrow> Abort
         | OutOfBounds \<Rightarrow> OutOfBounds)"
    using e o by (simp add: dispatch_event_def)
next
  assume a: "framed d inp = Some (MGMT_EV_CLASS_OF_DEV_CHANGED, i, pl) \<and>
    uint i \<le> max_index s \<and> pending_cod_change (controllers s ! unat i) \<and>
    length pl < sizeof d Mgmt_cod"
  then have f: "framed d inp = Some (MGMT_EV_CLASS_OF_DEV_CHANGED, i, pl)" by simp
  from step_framed [OF f, of env s]
  obtain opcode where o: "event_code d opcode = Some MGMT_EV_CLASS_OF_DEV_CHANGED"
    and e: "step env d inp s = dispatch_event env d opcode i pl (length pl) s" by blast
  from a short_cod_changed [of i s "length pl" d env pl]
  show "step env d inp s =
        (case handle_pending_uuids env d i
                (put_info (unat i) ((controllers s ! unat i)\<lparr>pending_cod_change := False\<rparr>) s) of
           Ok (s', tr) \<Rightarrow> Ok (s', tr @ [LogError ''Too small class of device reply''])
         | Abort \<Rightarrow> Abort
         | OutOfBounds \<Rightarrow> OutOfBounds)"
    using e o by (simp add: dispatch_event_def)
qed

lemma decode_failure_examples:
  "framed kernel_decls (message 1 0xFFFF [1, 0, 0, 0, 0, 0]) =
     Some (MGMT_EV_CMD_COMPLETE, 0xFFFF, [1, 0, 0, 0, 0, 0])"
  "completed_op kernel_decls [1, 0, 0, 0, 0, 0] = Some MGMT_OP_READ_VERSION"
  "get_u8 (fld kernel_decls Mgmt_rp_read_version ''version''
            (drop sizeof_mgmt_ev_cmd_complete [1, 0, 0, 0, 0, 0])) = 0"
  "framed kernel_decls (Event {G_IO_IN} (ReadData [1, 0])) = None"
  "framed kernel_decls (message 0x12 0 [1, 2, 3]) = Some (MGMT_EV_DEVICE_FOUND, 0, [1, 2, 3])"
  "decode_fails kernel_decls MGMT_EV_DEVICE_FOUND [1, 2, 3]"
  "framed kernel_decls (message 1 0 [0x10, 0, 0]) = Some (MGMT_EV_CMD_COMPLETE, 0, [0x10, 0, 0])"
  "completed_op kernel_decls [0x10, 0, 0] = Some MGMT_OP_ADD_UUID"
  "length [0x10, 0, 0 :: 8 word] - sizeof_mgmt_ev_cmd_complete < sizeof kernel_decls Mgmt_cod"
  "uint (0::16 word) \<le> max_index queued_controller"
  "framed kernel_decls (message 7 0 []) = Some (MGMT_EV_CLASS_OF_DEV_CHANGED, 0, [])"
  "length ([] :: 8 word list) < sizeof kernel_decls Mgmt_cod"
  by (simp_all add: framed_def completed_op_def decode_fails_def fixture_defs frame_defs)

theorem decode_failure_fatal_or_logged_witness:
  "framed kernel_decls (Event {G_IO_IN} (ReadData [1, 0])) = None \<and>
   (\<exists>tr. step env_up kernel_decls (Event {G_IO_IN} (ReadData [1, 0])) (one_controller 1) =
            Ok (one_controller 1, tr) \<and> only_logs tr) \<and>
   step env_up kernel_decls (message 1 0xFFFF [1, 0, 0, 0, 0, 0]) (one_controller 1) = Abort \<and>
   framed kernel_decls (message 0x12 0 [1, 2, 3]) = Some (MGMT_EV_DEVICE_FOUND, 0, [1, 2, 3]) \<and>
   decode_fails kernel_decls MGMT_EV_DEVICE_FOUND [1, 2, 3] \<and>
   (\<exists>m. step env_up kernel_decls (message 0x12 0 [1, 2, 3]) (one_controller 1) =
           Ok (one_controller 1, [LogError m])) \<and>
   framed kernel_decls (message 1 0 [0x10, 0, 0]) = Some (MGMT_EV_CMD_COMPLETE, 0, [0x10, 0, 0]) \<and>
   completed_op kernel_decls [0x10, 0, 0] = Some MGMT_OP_ADD_UUID \<and>
   uint (0::16 word) \<le> max_index queued_controller \<and>
   length [0x10, 0, 0 :: 8 word] - sizeof_mgmt_ev_cmd_complete < sizeof kernel_decls Mgmt_cod \<and>
   step env_up kernel_decls (message 1 0 [0x10, 0, 0]) queued_controller =
     (case handle_pending_uuids env_up kernel_decls 0 queued_controller of
        Ok (s', tr) \<Rightarrow> Ok (s', LogError ''Too small class of device reply'' # tr)
      | Abort \<Rightarrow> Abort
      | OutOfBounds \<Rightarrow> OutOfBounds) \<and>
   framed kernel_decls (message 7 0 []) = Some (MGMT_EV_CLASS_OF_DEV_CHANGED, 0, []) \<and>
   pending_cod_change
     (controllers (put_info 0 ((controllers queued_controller ! 0)\<lparr>pending_cod_change := True\<rparr>)
        queued_controller) ! unat (0::16 word)) \<and>
   step env_up kernel_decls (message 7 0 [])
     (put_info 0 ((controllers queued_controller ! 0)\<lparr>pending_cod_change := True\<rparr>)
        queued_controller) =
     (case handle_pending_uuids env_up kernel_decls 0
             (put_info (unat (0::16 word))
                ((controllers (put_info 0
                    ((controllers queued_controller ! 0)\<lparr>pending_cod_change := True\<rparr>)
                    queued_controller) ! unat (0::16 word))\<lparr>pending_cod_change := False\<rparr>)
                (put_info 0 ((controllers queued_controller ! 0)\<lparr>pending_cod_change := True\<rparr>)
                   queued_controller)) of
        Ok (s', tr) \<Rightarrow> Ok (s', tr @ [LogError ''Too small class of device reply''])
      | Abort \<Rightarrow> Abort
      | OutOfBounds \<Rightarrow> OutOfBounds)"
proof -
  let ?busy = "put_info 0 ((controllers queued_controller ! 0)\<lparr>pending_cod_change := True\<rparr>)
                 queued_controller"
  note t1 = decode_failure_fatal_or_logged
              [where env = env_up and d = kernel_decls
                 and inp = "message 1 0xFFFF [1, 0, 0, 0, 0, 0]" and s = "one_controller 1"
                 and cond = "{G_IO_IN}" and rd = "ReadData [1, 0]"
                 and ev = MGMT_EV_CMD_COMPLETE and i = "0xFFFF" and pl = "[1, 0, 0, 0, 0, 0]"]
  note t2 = decode_failure_fatal_or_logged
              [where env = env_up and d = kernel_decls
                 and inp = "message 0x12 0 [1, 2, 3]" and s = "one_controller 1"
                 and cond = "{G_IO_IN}" and rd = "ReadData [1, 0]"
                 and ev = MGMT_EV_DEVICE_FOUND and i = 0 and pl = "[1, 2, 3]"]
  note t3 = decode_failure_fatal_or_logged
              [where env = env_up and d = kernel_decls
                 and inp = "message 1 0 [0x10, 0, 0]" and s = queued_controller
                 and cond = "{G_IO_IN}" and rd = "ReadData [1, 0]"
                 and ev = MGMT_EV_CMD_COMPLETE and i = 0 and pl = "[0x10, 0, 0]"]
  note t4 = decode_failure_fatal_or_logged
              [where env = env_up and d = kernel_decls
                 and inp = "message 7 0 []" and s = ?busy
                 and cond = "{G_IO_IN}" and rd = "ReadData [1, 0]"
                 and ev = MGMT_EV_CLASS_OF_DEV_CHANGED and i = 0 and pl = "[]"]
  note x = decode_failure_examples
  have b: "uint (0::16 word) \<le> max_index ?busy"
    "pending_cod_change (controllers ?busy ! unat (0::16 word))"
    by (simp_all add: queued_controller_def max_index_def put_info_def)
  from t1 x(4)
  have a1: "\<exists>tr. step env_up kernel_decls (Event {G_IO_IN} (ReadData [1, 0])) (one_controller 1) =
            Ok (one_controller 1, tr) \<and> only_logs tr" by blast
  from t1 x(1,2,3)
  have a2: "step env_up kernel_decls (message 1 0xFFFF [1, 0, 0, 0, 0, 0]) (one_controller 1) =
            Abort" by simp
  from t2 x(5,6)
  have a3: "\<exists>m. step env_up kernel_decls (message 0x12 0 [1, 2, 3]) (one_controller 1) =
           Ok (one_controller 1, [LogError m])" by simp
  from t3 x(7,8,9,10)
  have a4: "step env_up kernel_decls (message 1 0 [0x10, 0, 0]) queued_controller =
     (case handle_pending_uuids env_up kernel_decls 0 queued_controller of
        Ok (s', tr) \<Rightarrow> Ok (s', LogError ''Too small class of device reply'' # tr)
      | Abort \<Rightarrow> Abort
      | OutOfBounds \<Rightarrow> OutOfBounds)" by simp
  from t4 x(11,12) b
  have a5: "step env_up kernel_decls (message 7 0 []) ?busy =
     (case handle_pending_uuids env_up kernel_decls 0
             (put_info (unat (0::16 word))
                ((controllers ?busy ! unat (0::16 word))\<lparr>pending_cod_change := False\<rparr>) ?busy) of
        Ok (s', tr) \<Rightarrow> Ok (s', tr @ [LogError ''Too small class of device reply''])
      | Abort \<Rightarrow> Abort
      | OutOfBounds \<Rightarrow> OutOfBounds)" by blast
  from a1 a2 a3 a4 a5 x b(2) show ?thesis by blast
qed

text \<open>
  C5 as stated fails twice. The reply to read-version with no body (three bytes, the
  opcode and the status) is a decode failure, and it ends the process. And the reply to
  add-UUID with no body, for the controller 0 that has a UUID queued, is logged and not
  dropped: the queued add-UUID command is written.
\<close>

theorem short_replies_fatal_or_not_dropped:
  "framed kernel_decls (message 1 0xFFFF [1, 0, 0]) =
     Some (MGMT_EV_CMD_COMPLETE, 0xFFFF, [1, 0, 0]) \<and>
   length (drop sizeof_mgmt_ev_cmd_complete [1, 0, 0 :: 8 word]) <
     sizeof kernel_decls Mgmt_rp_read_version \<and>
   step env_up kernel_decls (message 1 0xFFFF [1, 0, 0]) mgmt_init = Abort \<and>
   framed kernel_decls (message 1 0 [0x10, 0, 0]) =
     Some (MGMT_EV_CMD_COMPLETE, 0, [0x10, 0, 0]) \<and>
   length (drop sizeof_mgmt_ev_cmd_complete [0x10, 0, 0 :: 8 word]) <
     sizeof kernel_decls Mgmt_cod \<and>
   (\<exists>s'. step env_up kernel_decls (message 1 0 [0x10, 0, 0]) queued_controller =
      Ok (s', [LogError ''Too small class of device reply'',
               Write (Command MGMT_OP_ADD_UUID 0
                 [VBytes [251, 52, 155, 95, 128, 0, 0, 128, 0, 16, 0, 0, 5, 17, 0, 0],
                  VByte 0])]) \<and>
      pending_uuids (controllers s' ! 0) = [])"
  by (simp add: framed_def fixture_defs frame_defs mgmt_init_def mgmt_cmd_complete_def
      read_version_complete_def mgmt_add_uuid_complete_def mgmt_update_cod_def and_then_def
      handle_pending_uuids_def mgmt_add_uuid_def is_16bit_uuid_def uuid_to_uuid128_def
      uuid_b_def lib_sdp_uuid16_to_uuid128_def lib_sdp_uuid128_to_uuid_def
      bluetooth_base_uuid_def put_info_def)

subsection \<open>C6: the stored settings\<close>

text \<open>
  C6, as amended. A settings signal that \<open>mgmt_new_settings\<close> accepts (at least four bytes,
  an index of the table, an adapter found for the address of the slot) ends with the
  word decoded from the message stored in \<open>current_settings\<close>, whatever the power did and
  whatever was reported to the adapter; a signal that it does not accept leaves the
  globals as they were. And over every input of the file, for a slot that is in the
  table before and after: \<open>current_settings\<close> is as before, or it is the word that the input
  reports for the slot (the payload of a settings signal or the field of a read-info
  reply for its index), or the input registers or removes the index of the slot (an
  index-added or index-removed event for it, a reply to read-index-list that lists it:
  \<open>resets\<close>) and the slot has been cleared as a whole by \<open>memset\<close>. No input sets a bit of
  it.
\<close>

theorem current_settings_is_a_decoded_word:
  "(4 \<le> len \<and> uint i \<le> max_index s \<and>
    manager_find_adapter env (bdaddr (controllers s ! unat i)) \<noteq> None \<longrightarrow>
      (\<exists>s' tr. mgmt_new_settings env d i buf len s = Ok (s', tr) \<and>
         length (controllers s') = length (controllers s) \<and>
         current_settings (controllers s' ! unat i) = bt_get_le32 buf)) \<and>
   (len < 4 \<or> max_index s < uint i \<or>
    manager_find_adapter env (bdaddr (controllers s ! unat i)) = None \<longrightarrow>
      (\<exists>tr. mgmt_new_settings env d i buf len s = Ok (s, tr))) \<and>
   (step env d inp s = Ok (s1, tr1) \<and>
    n < length (controllers s) \<and> n < length (controllers s1) \<longrightarrow>
      current_settings (controllers s1 ! n) = current_settings (controllers s ! n) \<or>
      Some (current_settings (controllers s1 ! n)) = reported_settings d inp n \<or>
      (resets d inp n \<and> cleared (controllers s1 ! n)))"
proof (intro conjI impI)
  assume "4 \<le> len \<and> uint i \<le> max_index s \<and>
    manager_find_adapter env (bdaddr (controllers s ! unat i)) \<noteq> None"
  then show "\<exists>s' tr. mgmt_new_settings env d i buf len s = Ok (s', tr) \<and>
         length (controllers s') = length (controllers s) \<and>
         current_settings (controllers s' ! unat i) = bt_get_le32 buf"
    by (auto simp: mgmt_new_settings_def Let_def split_beta)
next
  assume "len < 4 \<or> max_index s < uint i \<or>
    manager_find_adapter env (bdaddr (controllers s ! unat i)) = None"
  then show "\<exists>tr. mgmt_new_settings env d i buf len s = Ok (s, tr)"
    by (auto simp: mgmt_new_settings_def Let_def)
next
  assume "step env d inp s = Ok (s1, tr1) \<and>
    n < length (controllers s) \<and> n < length (controllers s1)"
  then show "current_settings (controllers s1 ! n) = current_settings (controllers s ! n) \<or>
      Some (current_settings (controllers s1 ! n)) = reported_settings d inp n \<or>
      (resets d inp n \<and> cleared (controllers s1 ! n))"
    using step_keeps [of env d inp s s1 tr1 n] by blast
qed

lemma settings_signal_example:
  "step env_up kernel_decls (message 6 0 [0x12, 0, 0, 0]) (one_controller 1) =
     Ok (one_controller 0x12,
         [Call ''manager_find_adapter'' [VBytes (replicate 6 0)],
          Call ''btd_adapter_stop'' [VAdapter 0]])"
  "reported_settings kernel_decls (message 6 0 [0x12, 0, 0, 0]) 0 = Some 0x12"
  "table_ok (one_controller 1)"
  "uint (0::16 word) \<le> max_index (one_controller 1)"
  "manager_find_adapter env_up (bdaddr (controllers (one_controller 1) ! unat (0::16 word))) \<noteq> None"
  by (simp_all add: fixture_defs frame_defs mgmt_new_settings_def mgmt_update_powered_def
      update_settings_def mgmt_powered_def mgmt_connectable_def mgmt_discoverable_def
      mgmt_pairable_def put_info_def reported_settings_def framed_def settings_payload_def
      table_ok_def)

theorem current_settings_is_a_decoded_word_witness:
  "(4::nat) \<le> 4 \<and> uint (0::16 word) \<le> max_index (one_controller 1) \<and>
   manager_find_adapter env_up (bdaddr (controllers (one_controller 1) ! unat (0::16 word))) \<noteq> None \<and>
   (\<exists>s' tr. mgmt_new_settings env_up kernel_decls 0 [0x12, 0, 0, 0] 4 (one_controller 1) =
               Ok (s', tr) \<and>
             length (controllers s') = length (controllers (one_controller 1)) \<and>
             current_settings (controllers s' ! unat (0::16 word)) = bt_get_le32 [0x12, 0, 0, 0]) \<and>
   (\<exists>tr. mgmt_new_settings env_up kernel_decls 0 [0x12, 0, 0] 3 (one_controller 1) =
            Ok (one_controller 1, tr)) \<and>
   step env_up kernel_decls (message 6 0 [0x12, 0, 0, 0]) (one_controller 1) =
     Ok (one_controller 0x12,
         [Call ''manager_find_adapter'' [VBytes (replicate 6 0)],
          Call ''btd_adapter_stop'' [VAdapter 0]]) \<and>
   (0::nat) < length (controllers (one_controller 1)) \<and>
   (current_settings (controllers (one_controller 0x12) ! 0) =
      current_settings (controllers (one_controller 1) ! 0) \<or>
    Some (current_settings (controllers (one_controller 0x12) ! 0)) =
      reported_settings kernel_decls (message 6 0 [0x12, 0, 0, 0]) 0 \<or>
    (resets kernel_decls (message 6 0 [0x12, 0, 0, 0]) 0 \<and>
     cleared (controllers (one_controller 0x12) ! 0)))"
proof -
  note t1 = current_settings_is_a_decoded_word
              [of 4 0 "one_controller 1" env_up kernel_decls "[0x12, 0, 0, 0]"
                  "message 6 0 [0x12, 0, 0, 0]" "one_controller 0x12"
                  "[Call ''manager_find_adapter'' [VBytes (replicate 6 0)],
                    Call ''btd_adapter_stop'' [VAdapter 0]]" 0]
  note t2 = current_settings_is_a_decoded_word
              [of 3 0 "one_controller 1" env_up kernel_decls "[0x12, 0, 0]"
                  "message 6 0 [0x12, 0, 0, 0]" "one_controller 0x12"
                  "[Call ''manager_find_adapter'' [VBytes (replicate 6 0)],
                    Call ''btd_adapter_stop'' [VAdapter 0]]" 0]
  have l: "(0::nat) < length (controllers (one_controller 1))"
    "(0::nat) < length (controllers (one_controller 0x12))"
    by (simp_all add: one_controller_def)
  from t1 settings_signal_example(4,5)
  have a: "\<exists>s' tr. mgmt_new_settings env_up kernel_decls 0 [0x12, 0, 0, 0] 4 (one_controller 1) =
               Ok (s', tr) \<and>
             length (controllers s') = length (controllers (one_controller 1)) \<and>
             current_settings (controllers s' ! unat (0::16 word)) = bt_get_le32 [0x12, 0, 0, 0]"
    by simp
  from t2 have b: "\<exists>tr. mgmt_new_settings env_up kernel_decls 0 [0x12, 0, 0] 3 (one_controller 1) =
            Ok (one_controller 1, tr)"
    by simp
  from t1 settings_signal_example(1) l
  have c: "current_settings (controllers (one_controller 0x12) ! 0) =
      current_settings (controllers (one_controller 1) ! 0) \<or>
    Some (current_settings (controllers (one_controller 0x12) ! 0)) =
      reported_settings kernel_decls (message 6 0 [0x12, 0, 0, 0]) 0 \<or>
    (resets kernel_decls (message 6 0 [0x12, 0, 0, 0]) 0 \<and>
     cleared (controllers (one_controller 0x12) ! 0))"
    by blast
  from a b c l settings_signal_example show ?thesis by blast
qed

text \<open>
  C6 as stated fails in both halves. A settings signal that is not accepted stores
  nothing: with no adapter found for the controller, the signal for the registered index
  0 ends with the stored settings as they were (1) and not the decoded word (0x12). And
  the stored settings are replaced by something that was not decoded from a message: an
  index-added event for the registered index 0 clears the slot, so the stored settings
  go from 1 to 0.
\<close>

theorem settings_signal_without_adapter_stores_nothing:
  "framed kernel_decls (message 6 0 [0x12, 0, 0, 0]) =
     Some (MGMT_EV_NEW_SETTINGS, 0, [0x12, 0, 0, 0]) \<and>
   bt_get_le32 [0x12, 0, 0, 0] = 0x12 \<and>
   step env_none kernel_decls (message 6 0 [0x12, 0, 0, 0]) (one_controller 1) =
     Ok (one_controller 1, [Call ''manager_find_adapter'' [VBytes (replicate 6 0)]]) \<and>
   framed kernel_decls (message 4 0 []) = Some (MGMT_EV_INDEX_ADDED, 0, []) \<and>
   step env_up kernel_decls (message 4 0 []) (one_controller 1) =
     Ok (one_controller 0, [Write (Command MGMT_OP_READ_INFO 0 [])])"
  by (simp add: fixture_defs frame_defs framed_def mgmt_new_settings_def mgmt_index_added_def
      add_controller_def read_info_def write_or_log_def)

subsection \<open>C1: one UUID command at a time\<close>

lemma in_flight_queues:
  assumes "in_flight s i" and "is_16bit_uuid d u"
  shows "mgmt_add_uuid env d (uint i) u h s =
           Ok (0, put_info (unat i)
                    ((controllers s ! unat i)\<lparr>pending_uuids :=
                       pending_uuids (controllers s ! unat i) @
                         [\<lparr>add = True, uuid = u, svc_hint = h\<rparr>]\<rparr>) s, [])"
    and "mgmt_remove_uuid env d (uint i) u s =
           Ok (0, put_info (unat i)
                    ((controllers s ! unat i)\<lparr>pending_uuids :=
                       pending_uuids (controllers s ! unat i) @
                         [\<lparr>add = False, uuid = u, svc_hint = 0\<rparr>]\<rparr>) s, [])"
  using assms mgmt_add_uuid_in_table [of i s d u env h] mgmt_remove_uuid_in_table [of i s d u env]
  by (simp_all add: in_flight_def Let_def)

lemma reply_sends_head:
  assumes l: "unat i < length (controllers s)"
    and q: "pending_uuids (controllers s ! unat i) = p # ps"
    and u: "is_16bit_uuid d (uuid p)"
  shows "\<exists>tr0. and_then (mgmt_update_cod env d i buf len s) (handle_pending_uuids env d i) =
           Ok (put_info (unat i)
                 ((controllers s ! unat i)\<lparr>pending_uuid :=
                     (write_errno env (uuid_command d i p) = 0), pending_uuids := ps\<rparr>) s,
               tr0 @ [write_effect env (uuid_command d i p)]) \<and>
           no_uuid_cmds tr0"
proof -
  from mgmt_update_cod_quiet [OF l, of env d buf len]
  obtain tr where tr: "mgmt_update_cod env d i buf len s = Ok (s, tr)" and n: "no_uuid_cmds tr"
    by blast
  from handle_pending_uuids_head [OF l q u, of env] tr n show ?thesis
    by (simp add: and_then_def Let_def)
qed

text \<open>
  C1, as amended. While the flag \<open>pending_uuid\<close> of a controller is set, \<open>mgmt_add_uuid\<close> and
  \<open>mgmt_remove_uuid\<close> (for a UUID that \<open>is_16bit_uuid\<close> accepts) return 0, write nothing and
  put the request at the end of the queue of the controller. When the reply to an
  add-UUID or remove-UUID command arrives for a controller whose queue is not empty,
  the head of the queue, and no other entry, is taken off and its command is handed to
  \<open>write\<close>, as the last effect and the only UUID command among the effects; the flag is
  set again when the write succeeded. And in every run of the file that starts with a
  table of at most 65536 slots: no input writes more than one UUID command for a
  controller, and between two UUID commands written for the same controller there is an
  input that releases the flag (\<open>releases\<close>): the reply to an add-UUID or remove-UUID
  command for it, a class-of-device-changed event for it while \<open>pending_cod_change\<close> is
  set, a settings signal for it that reports the power going from on to off, an
  index-added or index-removed event for it, the reply to read-index-list, or
  \<open>mgmt_cleanup\<close>.
\<close>

theorem uuid_commands_one_at_a_time:
  "(in_flight s i \<and> is_16bit_uuid d u \<longrightarrow>
      mgmt_add_uuid env d (uint i) u h s =
        Ok (0, put_info (unat i)
                 ((controllers s ! unat i)\<lparr>pending_uuids :=
                    pending_uuids (controllers s ! unat i) @
                      [\<lparr>add = True, uuid = u, svc_hint = h\<rparr>]\<rparr>) s, []) \<and>
      mgmt_remove_uuid env d (uint i) u s =
        Ok (0, put_info (unat i)
                 ((controllers s ! unat i)\<lparr>pending_uuids :=
                    pending_uuids (controllers s ! unat i) @
                      [\<lparr>add = False, uuid = u, svc_hint = 0\<rparr>]\<rparr>) s, [])) \<and>
   (uint i \<le> max_index s \<and> pending_uuids (controllers s ! unat i) = p # ps \<and>
    is_16bit_uuid d (uuid p) \<longrightarrow>
      (\<exists>tr0. mgmt_add_uuid_complete env d i buf len s =
         Ok (put_info (unat i)
               ((controllers s ! unat i)\<lparr>pending_uuid :=
                   (write_errno env (uuid_command d i p) = 0), pending_uuids := ps\<rparr>) s,
             tr0 @ [write_effect env (uuid_command d i p)]) \<and>
         no_uuid_cmds tr0) \<and>
      (\<exists>tr0. mgmt_remove_uuid_complete env d i buf len s =
         Ok (put_info (unat i)
               ((controllers s ! unat i)\<lparr>pending_uuid :=
                   (write_errno env (uuid_command d i p) = 0), pending_uuids := ps\<rparr>) s,
             tr0 @ [write_effect env (uuid_command d i p)]) \<and>
         no_uuid_cmds tr0)) \<and>
   (table_ok s0 \<and> k < length (run d steps s0) \<longrightarrow>
      length (uuid_writes i (snd (snd (run d steps s0 ! k)))) \<le> 1) \<and>
   (table_ok s0 \<and> j < k \<and> k < length (run d steps s0) \<and>
    uuid_writes i (snd (snd (run d steps s0 ! j))) \<noteq> [] \<and>
    uuid_writes i (snd (snd (run d steps s0 ! k))) \<noteq> [] \<longrightarrow>
      (\<exists>m. j < m \<and> m \<le> k \<and>
           releases d (fst (run d steps s0 ! m)) (fst (snd (run d steps s0 ! m))) i))"
proof (intro conjI impI)
  assume a: "in_flight s i \<and> is_16bit_uuid d u"
  then show "mgmt_add_uuid env d (uint i) u h s =
        Ok (0, put_info (unat i)
                 ((controllers s ! unat i)\<lparr>pending_uuids :=
                    pending_uuids (controllers s ! unat i) @
                      [\<lparr>add = True, uuid = u, svc_hint = h\<rparr>]\<rparr>) s, [])"
    using in_flight_queues(1) [of s i d u env h] by simp
  from a show "mgmt_remove_uuid env d (uint i) u s =
        Ok (0, put_info (unat i)
                 ((controllers s ! unat i)\<lparr>pending_uuids :=
                    pending_uuids (controllers s ! unat i) @
                      [\<lparr>add = False, uuid = u, svc_hint = 0\<rparr>]\<rparr>) s, [])"
    using in_flight_queues(2) [of s i d u env] by simp
next
  assume a: "uint i \<le> max_index s \<and> pending_uuids (controllers s ! unat i) = p # ps \<and>
    is_16bit_uuid d (uuid p)"
  then have l: "unat i < length (controllers s)"
    and q: "pending_uuids (controllers s ! unat i) = p # ps"
    and u: "is_16bit_uuid d (uuid p)" by simp_all
  from reply_sends_head [OF l q u, of env buf len] l
  show "\<exists>tr0. mgmt_add_uuid_complete env d i buf len s =
         Ok (put_info (unat i)
               ((controllers s ! unat i)\<lparr>pending_uuid :=
                   (write_errno env (uuid_command d i p) = 0), pending_uuids := ps\<rparr>) s,
             tr0 @ [write_effect env (uuid_command d i p)]) \<and>
         no_uuid_cmds tr0"
    by (simp add: mgmt_add_uuid_complete_def)
  from reply_sends_head [OF l q u, of env buf len] l
  show "\<exists>tr0. mgmt_remove_uuid_complete env d i buf len s =
         Ok (put_info (unat i)
               ((controllers s ! unat i)\<lparr>pending_uuid :=
                   (write_errno env (uuid_command d i p) = 0), pending_uuids := ps\<rparr>) s,
             tr0 @ [write_effect env (uuid_command d i p)]) \<and>
         no_uuid_cmds tr0"
    by (simp add: mgmt_remove_uuid_complete_def)
next
  assume "table_ok s0 \<and> k < length (run d steps s0)"
  then show "length (uuid_writes i (snd (snd (run d steps s0 ! k)))) \<le> 1"
    using run_one_write [of s0 k d steps i] by simp
next
  assume "table_ok s0 \<and> j < k \<and> k < length (run d steps s0) \<and>
    uuid_writes i (snd (snd (run d steps s0 ! j))) \<noteq> [] \<and>
    uuid_writes i (snd (snd (run d steps s0 ! k))) \<noteq> []"
  then show "\<exists>m. j < m \<and> m \<le> k \<and>
           releases d (fst (run d steps s0 ! m)) (fst (snd (run d steps s0 ! m))) i"
    using run_single_flight [of s0 j k d steps i] by simp
qed

lemma uuid_a_16bit: "is_16bit_uuid kernel_decls uuid_a"
  by code_simp

lemmas run_eval =
  mgmt_add_uuid_def is_16bit_uuid_def uuid_to_uuid128_def uuid_a_def uuid_b_def
  lib_sdp_uuid16_to_uuid128_def lib_sdp_uuid128_to_uuid_def bluetooth_base_uuid_def
  put_info_def mgmt_cmd_complete_def mgmt_add_uuid_complete_def mgmt_update_cod_def
  and_then_def handle_pending_uuids_def send_pending_class_def send_pending_powered_def
  mgmt_new_settings_def mgmt_update_powered_def mgmt_powered_def

lemma two_adds_then_reply_run:
  "length (run kernel_decls two_adds_then_reply (one_controller 1)) = 3"
  "snd (snd (run kernel_decls two_adds_then_reply (one_controller 1) ! 0)) =
     [Write (Command MGMT_OP_ADD_UUID 0
        [VBytes [251, 52, 155, 95, 128, 0, 0, 128, 0, 16, 0, 0, 1, 17, 0, 0], VByte 0])]"
  "snd (snd (run kernel_decls two_adds_then_reply (one_controller 1) ! 1)) = []"
  "snd (snd (run kernel_decls two_adds_then_reply (one_controller 1) ! 2)) =
     [Call ''manager_find_adapter'' [VBytes (replicate 6 0)],
      Call ''btd_adapter_class_changed'' [VAdapter 0, VBytes [0, 0, 0]],
      Write (Command MGMT_OP_ADD_UUID 0
        [VBytes [251, 52, 155, 95, 128, 0, 0, 128, 0, 16, 0, 0, 5, 17, 0, 0], VByte 0])]"
  by (simp_all add: two_adds_then_reply_def fixture_defs frame_defs run_eval)

lemma queued_controller_facts:
  "in_flight queued_controller 0"
  "uint (0::16 word) \<le> max_index queued_controller"
  "pending_uuids (controllers queued_controller ! unat (0::16 word)) =
     [\<lparr>add = True, uuid = uuid_b, svc_hint = 0\<rparr>]"
  "table_ok (one_controller 1)"
  by (simp_all add: in_flight_def queued_controller_def one_controller_def max_index_def
      table_ok_def)

theorem uuid_commands_one_at_a_time_witness:
  "in_flight queued_controller 0 \<and> is_16bit_uuid kernel_decls uuid_a \<and>
   mgmt_add_uuid env_up kernel_decls (uint (0::16 word)) uuid_a 0 queued_controller =
     Ok (0, put_info (unat (0::16 word))
              ((controllers queued_controller ! unat (0::16 word))\<lparr>pending_uuids :=
                 pending_uuids (controllers queued_controller ! unat (0::16 word)) @
                   [\<lparr>add = True, uuid = uuid_a, svc_hint = 0\<rparr>]\<rparr>) queued_controller, []) \<and>
   uint (0::16 word) \<le> max_index queued_controller \<and>
   pending_uuids (controllers queued_controller ! unat (0::16 word)) =
     [\<lparr>add = True, uuid = uuid_b, svc_hint = 0\<rparr>] \<and>
   is_16bit_uuid kernel_decls uuid_b \<and>
   (\<exists>tr0. mgmt_add_uuid_complete env_up kernel_decls 0 [0, 0, 0] 3 queued_controller =
      Ok (put_info (unat (0::16 word))
            ((controllers queued_controller ! unat (0::16 word))\<lparr>pending_uuid :=
                (write_errno env_up
                   (uuid_command kernel_decls 0 \<lparr>add = True, uuid = uuid_b, svc_hint = 0\<rparr>) = 0),
              pending_uuids := []\<rparr>) queued_controller,
          tr0 @ [write_effect env_up
                   (uuid_command kernel_decls 0 \<lparr>add = True, uuid = uuid_b, svc_hint = 0\<rparr>)]) \<and>
      no_uuid_cmds tr0) \<and>
   table_ok (one_controller 1) \<and>
   2 < length (run kernel_decls two_adds_then_reply (one_controller 1)) \<and>
   uuid_writes 0 (snd (snd (run kernel_decls two_adds_then_reply (one_controller 1) ! 0))) \<noteq> [] \<and>
   uuid_writes 0 (snd (snd (run kernel_decls two_adds_then_reply (one_controller 1) ! 2))) \<noteq> [] \<and>
   length (uuid_writes 0
     (snd (snd (run kernel_decls two_adds_then_reply (one_controller 1) ! 2)))) \<le> 1 \<and>
   (\<exists>m. 0 < m \<and> m \<le> 2 \<and>
        releases kernel_decls
          (fst (run kernel_decls two_adds_then_reply (one_controller 1) ! m))
          (fst (snd (run kernel_decls two_adds_then_reply (one_controller 1) ! m))) 0)"
proof -
  note t = uuid_commands_one_at_a_time
             [where s = queued_controller and i = 0 and d = kernel_decls and u = uuid_a
                and env = env_up and h = 0
                and p = "\<lparr>add = True, uuid = uuid_b, svc_hint = 0\<rparr>" and ps = "[]"
                and buf = "[0, 0, 0]" and len = 3
                and ?s0.0 = "one_controller 1" and steps = two_adds_then_reply
                and j = 0 and k = 2]
  have w: "2 < length (run kernel_decls two_adds_then_reply (one_controller 1))"
    "uuid_writes 0 (snd (snd (run kernel_decls two_adds_then_reply (one_controller 1) ! 0))) \<noteq> []"
    "uuid_writes 0 (snd (snd (run kernel_decls two_adds_then_reply (one_controller 1) ! 2))) \<noteq> []"
    by (simp_all add: two_adds_then_reply_run uuid_writes_def is_uuid_write_def)
  have q: "pending_uuids (controllers queued_controller ! unat (0::16 word)) =
             \<lparr>add = True, uuid = uuid_b, svc_hint = 0\<rparr> # []"
          "is_16bit_uuid kernel_decls (uuid \<lparr>add = True, uuid = uuid_b, svc_hint = 0\<rparr>)"
    using queued_controller_facts(3) uuid_b_16bit by simp_all
  from t queued_controller_facts(1) uuid_a_16bit
  have a: "mgmt_add_uuid env_up kernel_decls (uint (0::16 word)) uuid_a 0 queued_controller =
     Ok (0, put_info (unat (0::16 word))
              ((controllers queued_controller ! unat (0::16 word))\<lparr>pending_uuids :=
                 pending_uuids (controllers queued_controller ! unat (0::16 word)) @
                   [\<lparr>add = True, uuid = uuid_a, svc_hint = 0\<rparr>]\<rparr>) queued_controller, [])"
    by blast
  from t queued_controller_facts(2) q
  have b: "\<exists>tr0. mgmt_add_uuid_complete env_up kernel_decls 0 [0, 0, 0] 3 queued_controller =
      Ok (put_info (unat (0::16 word))
            ((controllers queued_controller ! unat (0::16 word))\<lparr>pending_uuid :=
                (write_errno env_up
                   (uuid_command kernel_decls 0 \<lparr>add = True, uuid = uuid_b, svc_hint = 0\<rparr>) = 0),
              pending_uuids := []\<rparr>) queued_controller,
          tr0 @ [write_effect env_up
                   (uuid_command kernel_decls 0 \<lparr>add = True, uuid = uuid_b, svc_hint = 0\<rparr>)]) \<and>
      no_uuid_cmds tr0"
    by blast
  from t queued_controller_facts(4) w
  have c: "length (uuid_writes 0
     (snd (snd (run kernel_decls two_adds_then_reply (one_controller 1) ! 2)))) \<le> 1"
    by blast
  have z: "(0::nat) < 2" by simp
  from t queued_controller_facts(4) w z
  have e: "\<exists>m. 0 < m \<and> m \<le> 2 \<and>
        releases kernel_decls
          (fst (run kernel_decls two_adds_then_reply (one_controller 1) ! m))
          (fst (snd (run kernel_decls two_adds_then_reply (one_controller 1) ! m))) 0"
    by blast
  from a b c e w queued_controller_facts uuid_a_16bit uuid_b_16bit show ?thesis by blast
qed

text \<open>
  C1 as stated fails when the power goes off between two requests: the settings signal
  clears the flag \<open>pending_uuid\<close>, so the second add-UUID command is written although no
  reply to the first has arrived. The effects of the three inputs of \<open>add_power_off_add\<close>:
\<close>

theorem second_uuid_command_after_power_off:
  "map (\<lambda>x. snd (snd x)) (run kernel_decls add_power_off_add (one_controller 1)) =
     [[Write (Command MGMT_OP_ADD_UUID 0
         [VBytes [251, 52, 155, 95, 128, 0, 0, 128, 0, 16, 0, 0, 1, 17, 0, 0], VByte 0])],
      [Call ''manager_find_adapter'' [VBytes (replicate 6 0)],
       Call ''btd_adapter_stop'' [VAdapter 0]],
      [Write (Command MGMT_OP_ADD_UUID 0
         [VBytes [251, 52, 155, 95, 128, 0, 0, 128, 0, 16, 0, 0, 5, 17, 0, 0], VByte 0])]]"
  by (simp add: add_power_off_add_def fixture_defs frame_defs run_eval)

end
